(* ===== verification/Prelude.thy ===== *)
theory Prelude
  imports Complex_Main "HOL-Library.Sublist"
begin

text \<open>
  Shared vocabulary of the development: the JavaScript runtime notions the sources rely
  on (the error a property read on \<open>undefined\<close> raises, \<open>String.toLowerCase\<close> on one
  character, \<open>Date.now()\<close> readings), the collections of facts the component theories
  feed to the simplifier, and generic lemmas on lists, prefixes and the error monad that
  several components share.
\<close>

section \<open>Fact collections\<close>

named_theorems store_simps
  "characteristic equations of the store actions, unfolded by the component proofs"
named_theorems inv_simps
  "definitions of the component invariants"

section \<open>JavaScript runtime\<close>

text \<open>
  Numbers of the sources are modelled exactly: counters as \<^typ>\<open>nat\<close>, clock readings
  (\<open>Date.now()\<close>, milliseconds) and rounded values as \<^typ>\<open>int\<close>, fractional values
  (score, accuracy, positions, speeds) as \<^typ>\<open>real\<close>. IEEE rounding is not modelled.
\<close>

type_synonym ms = int

text \<open>
  The only runtime failure the core can raise: calling a method on \<open>undefined\<close>
  (\<open>TypeError\<close>), which happens when a string is indexed past its end and the result
  is used (\<open>word[i].toLowerCase()\<close>), or when an array read \<open>words[i]\<close> out of
  range is used as a string. The network services add two more: an \<open>Error\<close> thrown for
  an HTTP reply that is not ok (with its status), and a rejected \<open>fetch\<close> (a network
  failure or the abort of a timed-out request). \<open>String.prototype.repeat\<close> with a
  negative count throws a \<open>RangeError\<close>.
\<close>

datatype js_error = TypeError | ApiError int | FetchError | RangeError

text \<open>Sequencing of code that may throw: the first exception propagates.\<close>

definition js_bind :: "js_error + 'a \<Rightarrow> ('a \<Rightarrow> js_error + 'b) \<Rightarrow> js_error + 'b" where
  "js_bind r f = (case r of Inl e \<Rightarrow> Inl e | Inr a \<Rightarrow> f a)"

lemma js_bind_Inr [simp]: "js_bind (Inr a) f = f a"
  by (simp add: js_bind_def)

lemma js_bind_Inl [simp]: "js_bind (Inl e) f = Inl e"
  by (simp add: js_bind_def)

lemma js_bind_eq_Inr:
  "js_bind r f = Inr b \<longleftrightarrow> (\<exists>a. r = Inr a \<and> f a = Inr b)"
  by (cases r) auto

text \<open>\<open>xs.map(f)\<close> with a callback that may throw: the first exception propagates.\<close>

fun js_map :: "('a \<Rightarrow> js_error + 'b) \<Rightarrow> 'a list \<Rightarrow> js_error + 'b list" where
  "js_map f [] = Inr []"
| "js_map f (x # xs) = js_bind (f x) (\<lambda>y. js_bind (js_map f xs) (\<lambda>ys. Inr (y # ys)))"

lemma js_map_Inr:
  assumes "\<And>x. x \<in> set xs \<Longrightarrow> \<exists>y. f x = Inr y \<and> P y"
  shows "\<exists>ys. js_map f xs = Inr ys \<and> length ys = length xs \<and> (\<forall>y\<in>set ys. P y)"
  using assms by (induction xs) fastforce+

lemma js_map_map [simp]: "js_map (\<lambda>x. Inr (g x)) xs = Inr (map g xs)"
  by (induction xs) simp_all

text \<open>
  \<open>xs[i]\<close> on a JavaScript string or array: the element, or \<open>undefined\<close> past the
  end.
\<close>

definition js_at :: "'a list \<Rightarrow> nat \<Rightarrow> 'a option" where
  "js_at xs i = (if i < length xs then Some (xs ! i) else None)"

text \<open>\<open>s.split('')\<close>: the one-character strings of \<open>s\<close>.\<close>

definition split_chars :: "string \<Rightarrow> string list" where
  "split_chars s = map (\<lambda>c. [c]) s"

lemma split_chars_simps [simp]: "split_chars [] = []" "split_chars (c # s) = [c] # split_chars s"
  by (simp_all add: split_chars_def)

text \<open>
  \<open>c.toLowerCase()\<close> on a one-character string, for the ASCII range the games use:
  \<open>A\<close>..\<open>Z\<close> move to \<open>a\<close>..\<open>z\<close>, every other character is unchanged.
\<close>

definition to_lower :: "char \<Rightarrow> char" where
  "to_lower c = (let n = (of_char c :: nat) in if 65 \<le> n \<and> n \<le> 90 then char_of (n + 32) else c)"

text \<open>\<open>Object.assign\<close> on one key of a \<open>Partial\<close> object: the new value when the key is
  present, the old one when it is absent.\<close>

definition opt_or :: "'a option \<Rightarrow> 'a \<Rightarrow> 'a" where
  "opt_or v old = (case v of Some x \<Rightarrow> x | None \<Rightarrow> old)"

lemma opt_or_simps [simp]: "opt_or None x = x" "opt_or (Some y) x = y"
  by (simp_all add: opt_or_def)

text \<open>\<open>Number.prototype.toString()\<close> on a nonnegative integer (below \<open>10^21\<close>): its decimal
  digits; and reading such digits back.\<close>

fun nat_str :: "nat \<Rightarrow> string" where
  "nat_str n = (if n < 10 then [char_of (48 + n)] else nat_str (n div 10) @ [char_of (48 + n mod 10)])"

definition parse_nat :: "string \<Rightarrow> nat" where
  "parse_nat s = foldl (\<lambda>acc c. acc * 10 + (of_char c - 48)) 0 s"

text \<open>A sequence of \<open>Math.random()\<close> draws, indexed by position, as the language
  guarantees them: each in [0, 1).\<close>

definition draws_ok :: "(nat \<Rightarrow> real) \<Rightarrow> bool" where
  "draws_ok rnd \<longleftrightarrow> (\<forall>i. 0 \<le> rnd i \<and> rnd i < 1)"

text \<open>\<open>Array.prototype.join(sep)\<close> on an array of strings.\<close>

fun js_join :: "string \<Rightarrow> string list \<Rightarrow> string" where
  "js_join sep [] = []"
| "js_join sep [x] = x"
| "js_join sep (x # y # xs) = x @ sep @ js_join sep (y # xs)"

section \<open>Generic lemmas\<close>

lemma js_at_Some_iff [simp]:
  "js_at xs i = Some c \<longleftrightarrow> i < length xs \<and> xs ! i = c"
  by (auto simp: js_at_def)

lemma js_at_None_iff [simp]:
  "js_at xs i = None \<longleftrightarrow> length xs \<le> i"
  by (simp add: js_at_def)

text \<open>\<open>Math.floor(Math.random() * n)\<close> is an index of an array of length \<open>n > 0\<close>.\<close>

lemma random_index_less:
  assumes "0 \<le> r" "r < 1" "0 < n"
  shows "nat \<lfloor>r * real n\<rfloor> < n"
proof -
  have "r * real n < real n" using assms by simp
  then have "\<lfloor>r * real n\<rfloor> < int n" by (simp add: floor_less_iff)
  then show ?thesis using assms(3) by (metis nat_int zless_nat_conj of_nat_0_less_iff)
qed

lemma to_lower_lower_case [simp]:
  "\<not> (65 \<le> (of_char c :: nat) \<and> (of_char c :: nat) \<le> 90) \<Longrightarrow> to_lower c = c"
  by (auto simp: to_lower_def Let_def)

text \<open>Growing a prefix of a word by the word's next character keeps it a prefix.\<close>

lemma prefix_snoc_next [intro]:
  "prefix t w \<Longrightarrow> length t < length w \<Longrightarrow> prefix (t @ [w ! length t]) w"
proof -
  assume p: "prefix t w" and l: "length t < length w"
  from p obtain r where w: "w = t @ r" by (auto simp: prefix_def)
  with l obtain c r' where "r = c # r'" by (cases r) auto
  with w show ?thesis by simp
qed

lemma prefix_full_eq:
  "prefix t w \<Longrightarrow> length t = length w \<Longrightarrow> t = w"
  by (auto simp: prefix_def)

declare nat_str.simps [simp del]

lemma char_of_digits [simp]:
  "char_of (48::nat) = CHR ''0''" "char_of (49::nat) = CHR ''1''" "char_of (50::nat) = CHR ''2''"
  "char_of (51::nat) = CHR ''3''" "char_of (52::nat) = CHR ''4''" "char_of (53::nat) = CHR ''5''"
  "char_of (54::nat) = CHR ''6''" "char_of (55::nat) = CHR ''7''" "char_of (56::nat) = CHR ''8''"
  "char_of (57::nat) = CHR ''9''"
  by (simp_all add: char_of_def bit_0)

lemma nat_str_less [simp]: "n < 10 \<Longrightarrow> nat_str n = [char_of (48 + n)]"
  by (simp add: nat_str.simps)

lemma nat_str_ge: "\<not> n < 10 \<Longrightarrow> nat_str n = nat_str (n div 10) @ [char_of (48 + n mod 10)]"
  by (simp add: nat_str.simps)

lemma of_char_digit [simp]: "d < 10 \<Longrightarrow> of_char (char_of (48 + d) :: char) = (48 + d :: nat)"
  by (simp add: of_char_of)

lemma parse_nat_snoc_digit:
  "d < 10 \<Longrightarrow> parse_nat (s @ [char_of (48 + d)]) = parse_nat s * 10 + d"
  by (simp add: parse_nat_def)

lemma parse_nat_str [simp]: "parse_nat (nat_str n) = n"
proof (induction n rule: nat_str.induct)
  fix n assume IH: "\<not> n < 10 \<Longrightarrow> parse_nat (nat_str (n div 10)) = n div 10"
  consider "n < 10" | "\<not> n < 10" by blast
  then show "parse_nat (nat_str n) = n"
  proof cases
    assume "n < 10" then show ?thesis by (simp add: parse_nat_def)
  next
    assume "\<not> n < 10" then show ?thesis by (simp add: IH nat_str_ge parse_nat_snoc_digit)
  qed
qed

lemma nat_str_not_Nil [simp]: "nat_str n \<noteq> []"
  by (cases "n < 10") (simp_all add: nat_str_ge)

lemma nat_str_digits: "c \<in> set (nat_str n) \<Longrightarrow> 48 \<le> (of_char c :: nat) \<and> (of_char c :: nat) < 58"
proof (induction n rule: nat_str.induct)
  case (1 n)
  then show ?case by (cases "n < 10") (auto simp: nat_str_ge)
qed

lemma draw_index_less: "draws_ok rnd \<Longrightarrow> 0 < n \<Longrightarrow> nat \<lfloor>rnd i * real n\<rfloor> < n"
  unfolding draws_ok_def by (blast intro: random_index_less)

end
