(* ===== verification/Metrics.thy ===== *)
theory Metrics
  imports Prelude
begin

text \<open>
  The metrics calculator of \<open>src/src/utils/index.ts\<close>: words per minute, accuracy,
  score with combo multiplier, star rating, and the experience/level conversion; and the
  star rule the level page applies when it records progress
  (\<open>src/src/pages/Game/index.tsx\<close>, \<open>handleGameEnd\<close>). All are pure functions.
  The constant \<open>0.1\<close> of the sources is the exact rational \<open>1/10\<close> here.
\<close>

section \<open>Definitions\<close>

definition calculateWPM :: "nat \<Rightarrow> ms \<Rightarrow> int" where
  "calculateWPM correctChars elapsedMs =
     (if elapsedMs \<le> 0 then 0
      else let minutes = real_of_int elapsedMs / 60000;
               words = real correctChars / 5
           in round (words / minutes))"

definition calculateAccuracy :: "nat \<Rightarrow> nat \<Rightarrow> real" where
  "calculateAccuracy correct totalKeys =
     (if totalKeys = 0 then 100 else real correct / real totalKeys * 100)"

definition calculateScore :: "real \<Rightarrow> nat \<Rightarrow> int" where
  "calculateScore basePoints combo =
     (let comboMultiplier = 1 + real combo * (1 / 10) in \<lfloor>basePoints * comboMultiplier\<rfloor>)"

definition calculateStars :: "real \<Rightarrow> real \<Rightarrow> nat" where
  "calculateStars accuracy wpm =
     (if accuracy \<ge> 95 \<and> wpm \<ge> 40 then 3
      else if accuracy \<ge> 85 \<and> wpm \<ge> 30 then 2
      else if accuracy \<ge> 70 then 1
      else 0)"

definition calculateExpForLevel :: "int \<Rightarrow> int" where
  "calculateExpForLevel level = level * 1000"

definition getLevelFromExp :: "int \<Rightarrow> int" where
  "getLevelFromExp totalExp = \<lfloor>real_of_int totalExp / 1000\<rfloor> + 1"

text \<open>The stars the level page stores on victory: by accuracy alone.\<close>

definition handleGameEnd_stars :: "real \<Rightarrow> nat" where
  "handleGameEnd_stars accuracy = (if accuracy \<ge> 95 then 3 else if accuracy \<ge> 85 then 2 else 1)"

section \<open>Lemmas\<close>

lemma getLevelFromExp_div: "getLevelFromExp e = e div 1000 + 1"
  by (metis getLevelFromExp_def floor_divide_of_int_eq of_int_numeral)

lemma calculateAccuracy_zero [simp]: "calculateAccuracy c 0 = 100"
  by (simp add: calculateAccuracy_def)

lemma calculateAccuracy_pos:
  "0 < n \<Longrightarrow> calculateAccuracy c n = real c / real n * 100"
  by (simp add: calculateAccuracy_def)

lemma calculateStars_le_3: "calculateStars a w \<le> 3"
  by (simp add: calculateStars_def)

text \<open>
  Points of a word are ten per character, so the combo multiplier \<open>1 + combo/10\<close> never
  produces a fraction: the \<open>Math.floor\<close> of \<open>calculateScore\<close> is exact.
\<close>

lemma score_product_exact:
  "real (n * 10) * (1 + real c * (1 / 10)) = real (n * (10 + c))"
  by (simp add: algebra_simps)

lemma calculateScore_of_points:
  "calculateScore (real (n * 10)) c = int (n * (10 + c))"
  unfolding calculateScore_def Let_def score_product_exact floor_of_nat ..

lemma score_increment_calculateScore:
  "real (n * 10) * (1 + real c * (1 / 10)) = real_of_int (calculateScore (real (n * 10)) c)"
  by (simp only: calculateScore_of_points score_product_exact of_int_of_nat_eq)

section \<open>Properties\<close>

text \<open>
  For consistent counters (at most as many correct characters as characters), the
  accuracy lies between 0 and 100.
\<close>

theorem calculateAccuracy_bounds:
  "c \<le> n \<Longrightarrow> 0 \<le> calculateAccuracy c n \<and> calculateAccuracy c n \<le> 100"
  by (auto simp: calculateAccuracy_def divide_le_eq)

theorem calculateAccuracy_bounds_witness:
  "(3::nat) \<le> 4 \<and> 0 \<le> calculateAccuracy 3 4 \<and> calculateAccuracy 3 4 \<le> 100"
  using calculateAccuracy_bounds [of 3 4] by simp

text \<open>
  For the base points the game awards (ten per character), the combo score is the
  exact integer \<open>n * (10 + combo)\<close>; the floor loses nothing.
\<close>

theorem calculateScore_exact: "calculateScore (real (n * 10)) combo = int (n * (10 + combo))"
  by (rule calculateScore_of_points)

text \<open>
  C31: The star rating is monotone: better accuracy and a higher speed never earn fewer
  stars.
\<close>

theorem calculateStars_mono:
  "a \<le> a' \<Longrightarrow> w \<le> w' \<Longrightarrow> calculateStars a w \<le> calculateStars a' w'"
  by (simp add: calculateStars_def)

theorem calculateStars_mono_witness:
  "(80::real) \<le> 96 \<and> (35::real) \<le> 42 \<and> calculateStars 80 35 \<le> calculateStars 96 42"
  using calculateStars_mono [of 80 96 35 42] by simp

text \<open>
  C40: the level page stores at least as many stars as the result screen shows, and
  strictly more for a fast-accurate-slow run: accuracy 96 at 10 WPM is stored with three
  stars and shown with one.
\<close>

theorem stored_stars_vs_shown:
  "calculateStars a w \<le> handleGameEnd_stars a \<and>
   handleGameEnd_stars 96 = 3 \<and> calculateStars 96 10 = 1"
  by (simp add: calculateStars_def handleGameEnd_stars_def)

text \<open>
  C26: \<open>calculateExpForLevel l\<close> is the experience threshold of level \<open>l + 1\<close>:
  \<open>getLevelFromExp e = l + 1\<close> exactly when \<open>e\<close> lies between the thresholds of
  \<open>l\<close> and \<open>l + 1\<close>.
\<close>

theorem getLevelFromExp_threshold:
  "getLevelFromExp e = l + 1 \<longleftrightarrow>
   calculateExpForLevel l \<le> e \<and> e < calculateExpForLevel (l + 1)"
  by (auto simp: getLevelFromExp_div calculateExpForLevel_def)

text \<open>
  The words-per-minute figure grows with the number of correct characters, and the
  design's example holds: 75 correct characters in 30 seconds are 30 WPM.
\<close>

theorem calculateWPM_mono:
  "c \<le> c' \<Longrightarrow> calculateWPM c e \<le> calculateWPM c' e"
  by (auto simp: calculateWPM_def Let_def intro!: round_mono divide_right_mono)

theorem calculateWPM_mono_witness:
  "(75::nat) \<le> 80 \<and> calculateWPM 75 30000 = 30 \<and> calculateWPM 75 30000 \<le> calculateWPM 80 30000"
  using calculateWPM_mono [of 75 80 30000] by (simp add: calculateWPM_def)

end
