(* ===== verification/Entity.thy ===== *)
theory Entity
  imports Prelude
begin

text \<open>
  The entity model: a falling word of gravity mode (\<open>FallingWord\<close> of
  \<open>src/src/types/index.ts\<close>, created by \<open>spawnWord\<close> of
  \<open>src/src/components/game/GameCanvas.tsx\<close>), with the per-entity steps the game loop and
  the keystroke handler of that file apply to it: reading the next expected character,
  consuming it, deactivating it, and falling by one frame. Identifiers
  (\<open>crypto.randomUUID()\<close>) and the random draws of \<open>Math.random()\<close> are
  parameters of the creation function.

  An entity is one JavaScript object shared by the canvas's \<open>entitiesRef\<close> and the
  store: \<open>spawnWord\<close> pushes the object into the ref and passes the same object to the
  store's \<open>addEntity\<close>, whose \<open>immer\<close> middleware freezes every plain object a
  draft takes in (\<open>Object.freeze\<close>, immer's default auto-freeze). The flag
  \<open>fw_frozen\<close> records that. The modules run in strict mode, where an assignment to a
  property of a frozen object throws a \<open>TypeError\<close>: \<open>js_assign\<close>, used by every
  write to an entity (\<open>fall\<close>, \<open>type_next\<close>, \<open>deactivate\<close>).
\<close>

section \<open>Data\<close>

record falling_word =
  fw_id :: string
  fw_x :: real
  fw_y :: real
  fw_width :: real
  fw_height :: real
  fw_active :: bool
  fw_word :: string
  fw_typed :: string
  fw_speed :: real
  fw_color :: string
  fw_points :: nat
  fw_frozen :: bool

definition wordColors :: "string list" where
  "wordColors = [''#f87171'', ''#fb923c'', ''#fbbf24'', ''#4ade80'', ''#60a5fa'', ''#a78bfa'', ''#f472b6'']"

section \<open>Operations\<close>

text \<open>
  The entity object literal of \<open>spawnWord\<close>: \<open>uid\<close> is the fresh identifier, \<open>rx\<close>,
  \<open>rs\<close>, \<open>rc\<close> the three \<open>Math.random()\<close> draws (in \<open>[0, 1)\<close>) for the column,
  the speed and the colour, \<open>canvasWidth\<close> the canvas width. The colour index
  \<open>Math.floor(rc * 7)\<close> is in range for every draw in \<open>[0, 1)\<close>.
\<close>

definition spawn_entity :: "string \<Rightarrow> real \<Rightarrow> real \<Rightarrow> real \<Rightarrow> real \<Rightarrow> string \<Rightarrow> falling_word" where
  "spawn_entity uid canvasWidth rx rs rc word =
     \<lparr>fw_id = uid,
      fw_x = rx * (canvasWidth - 150) + 50,
      fw_y = -30,
      fw_width = real (length word) * 20 + 20,
      fw_height = 40,
      fw_active = True,
      fw_word = word,
      fw_typed = [],
      fw_speed = 1 + rs * (1 / 2),
      fw_color = wordColors ! nat \<lfloor>rc * real (length wordColors)\<rfloor>,
      fw_points = length word * 10,
      fw_frozen = False\<rparr>"

text \<open>\<open>entity.word[entity.typed.length]\<close>: \<open>None\<close> is \<open>undefined\<close>.\<close>

definition nextChar :: "falling_word \<Rightarrow> char option" where
  "nextChar e = js_at (fw_word e) (length (fw_typed e))"

text \<open>
  \<open>nextChar.toLowerCase() === key.toLowerCase()\<close>: calling \<open>toLowerCase\<close> on
  \<open>undefined\<close> throws.
\<close>

definition key_matches :: "char \<Rightarrow> falling_word \<Rightarrow> js_error + bool" where
  "key_matches key e =
     (case nextChar e of
        None \<Rightarrow> Inl TypeError
      | Some c \<Rightarrow> Inr (to_lower c = to_lower key))"

text \<open>\<open>Object.freeze\<close>, applied by the store's \<open>immer\<close> middleware to an entity it
  takes in.\<close>

definition freeze :: "falling_word \<Rightarrow> falling_word" where
  "freeze e = e\<lparr>fw_frozen := True\<rparr>"

text \<open>A strict-mode property assignment \<open>entity.f = ...\<close>: it throws on a frozen
  object and updates the object otherwise.\<close>

definition js_assign :: "falling_word \<Rightarrow> (falling_word \<Rightarrow> falling_word) \<Rightarrow> js_error + falling_word" where
  "js_assign e upd = (if fw_frozen e then Inl TypeError else Inr (upd e))"

text \<open>\<open>entity.typed += nextChar\<close>: the word's own character is appended, not the key.\<close>

definition type_next :: "falling_word \<Rightarrow> js_error + falling_word" where
  "type_next e = js_assign e (\<lambda>e. e\<lparr>fw_typed := fw_typed e @ [fw_word e ! length (fw_typed e)]\<rparr>)"

text \<open>\<open>entity.active = false\<close>.\<close>

definition deactivate :: "falling_word \<Rightarrow> js_error + falling_word" where
  "deactivate e = js_assign e (\<lambda>e. e\<lparr>fw_active := False\<rparr>)"

definition is_complete :: "falling_word \<Rightarrow> bool" where
  "is_complete e \<longleftrightarrow> fw_typed e = fw_word e"

text \<open>One frame of the game loop: \<open>entity.y += entity.speed\<close>, then the danger-zone test
  \<open>entity.y > dimensions.height - 60\<close>.\<close>

definition fall :: "falling_word \<Rightarrow> js_error + falling_word" where
  "fall e = js_assign e (\<lambda>e. e\<lparr>fw_y := fw_y e + fw_speed e\<rparr>)"

definition fell_off :: "real \<Rightarrow> falling_word \<Rightarrow> bool" where
  "fell_off canvasHeight e \<longleftrightarrow> fw_y e > canvasHeight - 60"

section \<open>Well-formedness\<close>

text \<open>
  The typed text is a prefix of the word, and an active word still has a character to
  type. The second half fails for a word spawned empty: nothing in \<open>spawnWord\<close> rejects
  one.
\<close>

definition entity_wf :: "falling_word \<Rightarrow> bool" where
  "entity_wf e \<longleftrightarrow> prefix (fw_typed e) (fw_word e) \<and>
                   (fw_active e \<longrightarrow> length (fw_typed e) < length (fw_word e))"

lemmas entity_defs [inv_simps] = entity_wf_def

lemma nextChar_wf:
  "entity_wf e \<Longrightarrow> fw_active e \<Longrightarrow> nextChar e = Some (fw_word e ! length (fw_typed e))"
  by (simp add: entity_wf_def nextChar_def js_at_def)

lemma key_matches_wf:
  "entity_wf e \<Longrightarrow> fw_active e \<Longrightarrow>
   key_matches key e = Inr (to_lower (fw_word e ! length (fw_typed e)) = to_lower key)"
  by (simp add: key_matches_def nextChar_wf)

lemma js_assign_frozen [simp]: "fw_frozen e \<Longrightarrow> js_assign e upd = Inl TypeError"
  by (simp add: js_assign_def)

lemma js_assign_thawed [simp]: "\<not> fw_frozen e \<Longrightarrow> js_assign e upd = Inr (upd e)"
  by (simp add: js_assign_def)

lemma entity_writes_frozen [simp]:
  "fw_frozen e \<Longrightarrow> fall e = Inl TypeError"
  "fw_frozen e \<Longrightarrow> type_next e = Inl TypeError"
  "fw_frozen e \<Longrightarrow> deactivate e = Inl TypeError"
  by (simp_all add: fall_def type_next_def deactivate_def)

lemma freeze_fields [simp]:
  "fw_frozen (freeze e)" "fw_id (freeze e) = fw_id e" "fw_word (freeze e) = fw_word e"
  "fw_typed (freeze e) = fw_typed e" "fw_active (freeze e) = fw_active e"
  "fw_points (freeze e) = fw_points e" "fw_y (freeze e) = fw_y e"
  by (simp_all add: freeze_def)

lemma entity_wf_freeze [simp]: "entity_wf (freeze e) \<longleftrightarrow> entity_wf e"
  by (simp add: entity_wf_def)

lemma spawn_entity_fields [simp]:
  "\<not> fw_frozen (spawn_entity uid w rx rs rc word)" "fw_active (spawn_entity uid w rx rs rc word)"
  "fw_word (spawn_entity uid w rx rs rc word) = word" "fw_typed (spawn_entity uid w rx rs rc word) = []"
  by (simp_all add: spawn_entity_def)

end
