(* ===== verification/Session.thy ===== *)
theory Session
  imports Metrics Entity
begin

text \<open>
  The game session store (\<open>useGameStore\<close> of \<open>src/src/store/gameSlice.ts\<close>, over the
  \<open>GameSession\<close> type of \<open>src/src/types/index.ts\<close>). Each store action is a function
  from the session to the updated session; the actions that read \<open>Date.now()\<close> take
  the reading as the parameter \<open>now\<close>. The store is built with the \<open>immer\<close>
  middleware: an action's \<open>set\<close> runs on a draft and the result is frozen deeply, so
  an entity handed to \<open>addEntity\<close> or \<open>setEntities\<close> is frozen in place
  (\<open>Entity.freeze\<close>). The store holds the same objects as the canvas's
  \<open>entitiesRef\<close>; since a frozen object can no longer change, the model keeps one
  value per object in each array.
  \<^item> \<open>store_action\<close> / \<open>store_step\<close>: the fourteen actions as one step function;
  \<^item> \<open>session_inv\<close>: \<open>correctChars \<le> charactersTyped\<close>, \<open>combo \<le> maxCombo\<close> and the
    stored accuracy equals \<open>calculateAccuracy\<close> of the counters; every action keeps it;
  \<^item> the lifecycle of \<open>state\<close> compared with the lifecycle the design promises.
\<close>

section \<open>Data\<close>

datatype game_state = Idle | Playing | Paused | Victory | GameOver

datatype game_mode = Gravity | Runner | Bubble | Boss

record game_session =
  state :: game_state
  mode :: game_mode
  levelId :: "string option"
  score :: real
  combo :: nat
  maxCombo :: nat
  wpm :: int
  accuracy :: real
  timeRemaining :: int
  wordsCompleted :: nat
  charactersTyped :: nat
  correctChars :: nat
  startTime :: ms
  entities :: "falling_word list"

definition initialSession :: game_session where
  "initialSession =
     \<lparr>state = Idle, mode = Gravity, levelId = None, score = 0, combo = 0, maxCombo = 0,
      wpm = 0, accuracy = 100, timeRemaining = 60, wordsCompleted = 0, charactersTyped = 0,
      correctChars = 0, startTime = 0, entities = []\<rparr>"

section \<open>Actions\<close>

definition startGame :: "game_mode \<Rightarrow> string option \<Rightarrow> ms \<Rightarrow> game_session \<Rightarrow> game_session" where
  "startGame md lvl now s =
     initialSession\<lparr>state := Playing, mode := md, levelId := lvl, startTime := now\<rparr>"

definition pauseGame :: "game_session \<Rightarrow> game_session" where
  "pauseGame s = (if state s = Playing then s\<lparr>state := Paused\<rparr> else s)"

definition resumeGame :: "game_session \<Rightarrow> game_session" where
  "resumeGame s = (if state s = Paused then s\<lparr>state := Playing\<rparr> else s)"

definition endGame :: "bool \<Rightarrow> game_session \<Rightarrow> game_session" where
  "endGame victory s = s\<lparr>state := (if victory then Victory else GameOver)\<rparr>"

definition resetGame :: "game_session \<Rightarrow> game_session" where
  "resetGame s = initialSession"

definition updateScore :: "real \<Rightarrow> game_session \<Rightarrow> game_session" where
  "updateScore points s = s\<lparr>score := score s + points\<rparr>"

definition incrementCombo :: "game_session \<Rightarrow> game_session" where
  "incrementCombo s =
     (let s1 = s\<lparr>combo := combo s + 1\<rparr>
      in if combo s1 > maxCombo s1 then s1\<lparr>maxCombo := combo s1\<rparr> else s1)"

definition breakCombo :: "game_session \<Rightarrow> game_session" where
  "breakCombo s = s\<lparr>combo := 0\<rparr>"

definition recordKeystroke :: "bool \<Rightarrow> ms \<Rightarrow> game_session \<Rightarrow> game_session" where
  "recordKeystroke correct now s =
     (let s1 = s\<lparr>charactersTyped := charactersTyped s + 1\<rparr>;
          s2 = (if correct then s1\<lparr>correctChars := correctChars s1 + 1\<rparr> else s1);
          s3 = s2\<lparr>accuracy := real (correctChars s2) / real (charactersTyped s2) * 100\<rparr>;
          elapsedMinutes = real_of_int (now - startTime s3) / 60000
      in if elapsedMinutes > 0
         then s3\<lparr>wpm := round ((real (correctChars s3) / 5) / elapsedMinutes)\<rparr>
         else s3)"

definition completeWord :: "game_session \<Rightarrow> game_session" where
  "completeWord s = s\<lparr>wordsCompleted := wordsCompleted s + 1\<rparr>"

definition setTimeRemaining :: "int \<Rightarrow> game_session \<Rightarrow> game_session" where
  "setTimeRemaining time s = s\<lparr>timeRemaining := time\<rparr>"

definition setEntities :: "falling_word list \<Rightarrow> game_session \<Rightarrow> game_session" where
  "setEntities es s = s\<lparr>entities := map freeze es\<rparr>"

definition addEntity :: "falling_word \<Rightarrow> game_session \<Rightarrow> game_session" where
  "addEntity e s = s\<lparr>entities := entities s @ [freeze e]\<rparr>"

definition removeEntity :: "string \<Rightarrow> game_session \<Rightarrow> game_session" where
  "removeEntity i s = s\<lparr>entities := filter (\<lambda>e. fw_id e \<noteq> i) (entities s)\<rparr>"

datatype store_action =
    StartGame game_mode "string option" | PauseGame | ResumeGame | EndGame bool | ResetGame
  | UpdateScore real | IncrementCombo | BreakCombo | RecordKeystroke bool | CompleteWord
  | SetTimeRemaining int | SetEntities "falling_word list" | AddEntity falling_word
  | RemoveEntity string

fun store_step :: "ms \<Rightarrow> store_action \<Rightarrow> game_session \<Rightarrow> game_session" where
  "store_step now (StartGame md lvl) s = startGame md lvl now s"
| "store_step now PauseGame s = pauseGame s"
| "store_step now ResumeGame s = resumeGame s"
| "store_step now (EndGame v) s = endGame v s"
| "store_step now ResetGame s = resetGame s"
| "store_step now (UpdateScore p) s = updateScore p s"
| "store_step now IncrementCombo s = incrementCombo s"
| "store_step now BreakCombo s = breakCombo s"
| "store_step now (RecordKeystroke c) s = recordKeystroke c now s"
| "store_step now CompleteWord s = completeWord s"
| "store_step now (SetTimeRemaining t) s = setTimeRemaining t s"
| "store_step now (SetEntities es) s = setEntities es s"
| "store_step now (AddEntity e) s = addEntity e s"
| "store_step now (RemoveEntity i) s = removeEntity i s"

text \<open>A run of timed actions, in the order the store receives them.\<close>

fun store_run :: "(ms \<times> store_action) list \<Rightarrow> game_session \<Rightarrow> game_session" where
  "store_run [] s = s"
| "store_run ((now, a) # acts) s = store_run acts (store_step now a s)"

section \<open>Invariant\<close>

definition session_inv :: "game_session \<Rightarrow> bool" where
  "session_inv s \<longleftrightarrow>
     correctChars s \<le> charactersTyped s \<and> combo s \<le> maxCombo s \<and>
     accuracy s = calculateAccuracy (correctChars s) (charactersTyped s)"

declare session_inv_def [inv_simps]

lemmas session_action_defs [store_simps] =
  startGame_def pauseGame_def resumeGame_def endGame_def resetGame_def updateScore_def
  incrementCombo_def breakCombo_def completeWord_def setTimeRemaining_def setEntities_def
  addEntity_def removeEntity_def

text \<open>What \<open>recordKeystroke\<close> does to each field, in closed form.\<close>

lemma recordKeystroke_fields [simp]:
  "charactersTyped (recordKeystroke c now s) = Suc (charactersTyped s)"
  "correctChars (recordKeystroke c now s) = correctChars s + (if c then 1 else 0)"
  "accuracy (recordKeystroke c now s) =
     real (correctChars s + (if c then 1 else 0)) / real (Suc (charactersTyped s)) * 100"
  "state (recordKeystroke c now s) = state s" "score (recordKeystroke c now s) = score s"
  "combo (recordKeystroke c now s) = combo s" "maxCombo (recordKeystroke c now s) = maxCombo s"
  "wordsCompleted (recordKeystroke c now s) = wordsCompleted s"
  "entities (recordKeystroke c now s) = entities s"
  "startTime (recordKeystroke c now s) = startTime s"
  "timeRemaining (recordKeystroke c now s) = timeRemaining s"
  "mode (recordKeystroke c now s) = mode s" "levelId (recordKeystroke c now s) = levelId s"
  by (simp_all add: recordKeystroke_def Let_def)

lemma incrementCombo_fields [simp]:
  "combo (incrementCombo s) = Suc (combo s)"
  "maxCombo (incrementCombo s) = max (maxCombo s) (Suc (combo s))"
  "state (incrementCombo s) = state s" "score (incrementCombo s) = score s"
  "charactersTyped (incrementCombo s) = charactersTyped s"
  "correctChars (incrementCombo s) = correctChars s"
  "accuracy (incrementCombo s) = accuracy s"
  "wordsCompleted (incrementCombo s) = wordsCompleted s"
  "entities (incrementCombo s) = entities s" "wpm (incrementCombo s) = wpm s"
  "startTime (incrementCombo s) = startTime s" "timeRemaining (incrementCombo s) = timeRemaining s"
  by (simp_all add: incrementCombo_def Let_def)

lemma store_field_simps [simp]:
  "charactersTyped (removeEntity x s) = charactersTyped s" "correctChars (removeEntity x s) = correctChars s"
  "combo (removeEntity x s) = combo s" "maxCombo (removeEntity x s) = maxCombo s"
  "score (removeEntity x s) = score s" "wordsCompleted (removeEntity x s) = wordsCompleted s"
  "state (removeEntity x s) = state s"
  "entities (removeEntity x s) = filter (\<lambda>e. fw_id e \<noteq> x) (entities s)"
  "charactersTyped (completeWord s) = charactersTyped s" "correctChars (completeWord s) = correctChars s"
  "combo (completeWord s) = combo s" "maxCombo (completeWord s) = maxCombo s"
  "score (completeWord s) = score s" "wordsCompleted (completeWord s) = Suc (wordsCompleted s)"
  "state (completeWord s) = state s" "entities (completeWord s) = entities s"
  "charactersTyped (updateScore p s) = charactersTyped s" "correctChars (updateScore p s) = correctChars s"
  "combo (updateScore p s) = combo s" "maxCombo (updateScore p s) = maxCombo s"
  "score (updateScore p s) = score s + p" "wordsCompleted (updateScore p s) = wordsCompleted s"
  "state (updateScore p s) = state s" "entities (updateScore p s) = entities s"
  "charactersTyped (breakCombo s) = charactersTyped s" "correctChars (breakCombo s) = correctChars s"
  "combo (breakCombo s) = 0" "maxCombo (breakCombo s) = maxCombo s"
  "score (breakCombo s) = score s" "wordsCompleted (breakCombo s) = wordsCompleted s"
  "state (breakCombo s) = state s" "entities (breakCombo s) = entities s"
  by (simp_all add: store_simps)

lemma initialSession_inv: "session_inv initialSession"
  by (simp add: session_inv_def initialSession_def)

lemma recordKeystroke_inv:
  "session_inv s \<Longrightarrow> session_inv (recordKeystroke c now s)"
  by (auto simp: session_inv_def calculateAccuracy_def)

section \<open>The lifecycle the design promises\<close>

text \<open>
  The session lifecycle of the design: every state may restart (\<open>start\<close>) or reset;
  only a playing session pauses; only a playing or paused session ends. A step that
  leaves the state unchanged is always allowed (illegal calls are no-ops).
\<close>

definition lifecycle_ok :: "game_state \<Rightarrow> game_state \<Rightarrow> bool" where
  "lifecycle_ok a b \<longleftrightarrow>
     a = b \<or> b = Playing \<or> b = Idle \<or> (a = Playing \<and> b = Paused) \<or>
     ((a = Playing \<or> a = Paused) \<and> (b = Victory \<or> b = GameOver))"

section \<open>Properties\<close>

lemma store_step_inv: "session_inv s \<Longrightarrow> session_inv (store_step now a s)"
  by (cases a) (auto simp: session_inv_def store_simps initialSession_def Let_def calculateAccuracy_def)

lemma store_run_inv: "session_inv s \<Longrightarrow> session_inv (store_run acts s)"
  by (induction acts s rule: store_run.induct) (auto intro: store_step_inv)

lemma session_inv_accuracy_bounds:
  "session_inv s \<Longrightarrow> 0 \<le> accuracy s \<and> accuracy s \<le> 100"
  by (auto simp: session_inv_def calculateAccuracy_def divide_le_eq)

text \<open>
  C5: whatever sequence of actions the store receives from its initial state, the
  correct characters never exceed the characters typed and the accuracy it stores stays
  within 0 and 100.
\<close>

theorem store_run_accuracy:
  "correctChars (store_run acts initialSession) \<le> charactersTyped (store_run acts initialSession) \<and>
   0 \<le> accuracy (store_run acts initialSession) \<and> accuracy (store_run acts initialSession) \<le> 100"
proof -
  have "session_inv (store_run acts initialSession)"
    by (rule store_run_inv [OF initialSession_inv])
  then show ?thesis using session_inv_accuracy_bounds by (auto simp: session_inv_def)
qed

text \<open>
  No store action other than \<open>startGame\<close> and \<open>resetGame\<close> lowers the maximum
  combo.
\<close>

theorem maxCombo_mono:
  "(\<forall>md lvl. a \<noteq> StartGame md lvl) \<Longrightarrow> a \<noteq> ResetGame \<Longrightarrow>
   maxCombo s \<le> maxCombo (store_step now a s)"
  by (cases a) (auto simp: store_simps Let_def recordKeystroke_def)

theorem maxCombo_mono_witness:
  "maxCombo (initialSession\<lparr>maxCombo := 5\<rparr>) \<le>
   maxCombo (store_step 0 BreakCombo (initialSession\<lparr>maxCombo := 5\<rparr>))"
  by (rule maxCombo_mono) simp_all

text \<open>
  C19: every store action respects the designed lifecycle except \<open>endGame\<close>, which has no
  guard: it ends a session that is idle or already ended as well.
\<close>

theorem store_step_lifecycle:
  "lifecycle_ok (state s) (state (store_step now a s)) \<longleftrightarrow>
   (\<forall>v. a = EndGame v \<longrightarrow> state s = Playing \<or> state s = Paused \<or>
                            state s = (if v then Victory else GameOver))"
  by (cases a; cases "state s")
     (auto simp: lifecycle_ok_def store_simps initialSession_def Let_def recordKeystroke_def)

theorem store_step_lifecycle_witness:
  "\<not> lifecycle_ok (state initialSession) (state (store_step 0 (EndGame True) initialSession))"
  using store_step_lifecycle [of initialSession 0 "EndGame True"]
  by (auto simp: initialSession_def)

end
