(* ===== verification/Dispatch.thy ===== *)
theory Dispatch
  imports Session
begin

text \<open>
  The keystroke dispatcher: \<open>window.__handleKeyPress\<close>, installed by the second effect
  of \<open>src/src/components/game/GameCanvas.tsx\<close>, and the keyboard listener of
  \<open>src/src/components/game/TypingInput.tsx\<close> that calls it. The dispatcher scans the
  canvas's entity array (\<open>entitiesRef.current\<close>) in order, skips inactive entities, and
  lets the first active entity whose next character equals the key (ignoring case)
  consume it; the store actions it calls are those of \<open>Session\<close>. The combo it
  multiplies the score by is \<open>session.combo\<close> of the last render, the combo before this
  keystroke.
  \<^item> \<open>find_entity\<close>: the \<open>for\<close> loop, returning the index of the consuming entity;
  \<^item> \<open>handleKeyPress\<close>: the whole handler, over the entity array and the session;
  \<^item> \<open>handleKeyDown\<close>: the \<open>keydown\<close> listener with the typed-text display;
  \<^item> \<open>accepts\<close>, \<open>first_accepting\<close>: the matching policy of the design, as a reference.
\<close>

section \<open>Definitions\<close>

fun find_entity :: "char \<Rightarrow> falling_word list \<Rightarrow> js_error + nat option" where
  "find_entity key [] = Inr None"
| "find_entity key (e # es) =
     (if \<not> fw_active e then js_bind (find_entity key es) (\<lambda>r. Inr (map_option Suc r))
      else js_bind (key_matches key e) (\<lambda>m.
             if m then Inr (Some 0)
             else js_bind (find_entity key es) (\<lambda>r. Inr (map_option Suc r))))"

text \<open>
  The handler. A match first assigns \<open>entity.typed\<close>, before any store action, so on a
  frozen entity it throws with nothing changed; on a writable one the store actions
  follow, and \<open>entity.active = false\<close> on completion cannot throw, the object having
  just been written.
\<close>

definition handleKeyPress ::
  "ms \<Rightarrow> char \<Rightarrow> falling_word list \<Rightarrow> game_session \<Rightarrow>
   js_error + bool \<times> falling_word list \<times> game_session" where
  "handleKeyPress now key ents s =
     js_bind (find_entity key ents) (\<lambda>r. case r of
        None \<Rightarrow> Inr (False, ents, breakCombo (recordKeystroke False now s))
      | Some i \<Rightarrow>
          js_bind (type_next (ents ! i)) (\<lambda>e.
            let s1 = incrementCombo (recordKeystroke True now s)
            in if is_complete e
               then js_bind (deactivate e) (\<lambda>e'.
                      Inr (True, ents[i := e'],
                           removeEntity (fw_id e)
                             (completeWord
                               (updateScore (real (fw_points e) * (1 + real (combo s) * (1 / 10))) s1))))
               else Inr (True, ents[i := e], s1)))"

text \<open>
  The \<open>keydown\<close> listener of \<open>TypingInput\<close>: events with Ctrl, Alt or Meta are
  ignored; a one-character key goes to the dispatcher and, when it matched, is appended
  to the displayed input; Backspace removes the last displayed character.
\<close>

record key_event =
  ev_key :: string
  ev_ctrl :: bool
  ev_alt :: bool
  ev_meta :: bool

definition handleKeyDown ::
  "ms \<Rightarrow> key_event \<Rightarrow> string \<times> falling_word list \<times> game_session \<Rightarrow>
   js_error + string \<times> falling_word list \<times> game_session" where
  "handleKeyDown now ev st =
     (let (currentInput, ents, s) = st in
      if ev_ctrl ev \<or> ev_alt ev \<or> ev_meta ev then Inr st
      else js_bind
        (if length (ev_key ev) = 1
         then js_bind (handleKeyPress now (hd (ev_key ev)) ents s)
                (\<lambda>(success, ents', s'). Inr (if success then currentInput @ ev_key ev else currentInput, ents', s'))
         else Inr st)
        (\<lambda>(inp, ents', s'). Inr (if ev_key ev = ''Backspace'' then butlast inp else inp, ents', s')))"

text \<open>
  The matching policy of the design, as a reference: an entity accepts a key when it is
  active and its next character equals the key up to case; the consuming entity is the
  first that accepts.
\<close>

definition accepts :: "char \<Rightarrow> falling_word \<Rightarrow> bool" where
  "accepts key e \<longleftrightarrow>
     fw_active e \<and> (case nextChar e of None \<Rightarrow> False | Some c \<Rightarrow> to_lower c = to_lower key)"

fun first_accepting :: "char \<Rightarrow> falling_word list \<Rightarrow> nat option" where
  "first_accepting key [] = None"
| "first_accepting key (e # es) =
     (if accepts key e then Some 0 else map_option Suc (first_accepting key es))"

text \<open>Fixtures for the examples: the word \<open>cat\<close> as \<open>spawnWord\<close> builds it, a session just
  started.\<close>

definition cat_word :: falling_word where
  "cat_word = spawn_entity ''u1'' 800 0 0 0 ''cat''"

definition cat_session :: game_session where
  "cat_session = startGame Gravity None 0 initialSession"

lemmas dispatch_eval =
  handleKeyPress_def key_matches_def nextChar_def js_at_def type_next_def is_complete_def
  to_lower_def startGame_def initialSession_def cat_word_def cat_session_def spawn_entity_def
  wordColors_def incrementCombo_def recordKeystroke_def

section \<open>Lemmas\<close>

lemma accepts_wf:
  "entity_wf e \<Longrightarrow> accepts key e \<longleftrightarrow>
     fw_active e \<and> to_lower (fw_word e ! length (fw_typed e)) = to_lower key"
  by (auto simp: accepts_def nextChar_wf)

lemma find_entity_first_accepting:
  "\<forall>e \<in> set ents. entity_wf e \<Longrightarrow> find_entity key ents = Inr (first_accepting key ents)"
proof (induction ents)
  case Nil
  then show ?case by simp
next
  case (Cons e es)
  then have wf: "entity_wf e" and IH: "find_entity key es = Inr (first_accepting key es)"
    by simp_all
  show ?case
  proof (cases "fw_active e")
    case True
    with wf IH show ?thesis by (simp add: key_matches_wf accepts_wf)
  next
    case False
    with IH show ?thesis by (simp add: accepts_def)
  qed
qed

lemma first_accepting_None:
  "first_accepting key ents = None \<longleftrightarrow> (\<forall>j < length ents. \<not> accepts key (ents ! j))"
proof (induction ents)
  case Nil
  then show ?case by simp
next
  case (Cons e es)
  then show ?case by (simp add: All_less_Suc2)
qed

lemma first_accepting_Some:
  "first_accepting key ents = Some i \<longleftrightarrow>
   i < length ents \<and> accepts key (ents ! i) \<and> (\<forall>j < i. \<not> accepts key (ents ! j))"
proof (induction ents arbitrary: i)
  case Nil
  then show ?case by simp
next
  case (Cons e es)
  show ?case
  proof (cases i)
    case 0
    then show ?thesis by simp
  next
    case (Suc k)
    with Cons.IH [of k] show ?thesis by (auto simp: All_less_Suc2)
  qed
qed

lemma find_entity_Some_less:
  "find_entity key ents = Inr (Some i) \<Longrightarrow> i < length ents"
proof (induction ents arbitrary: i)
  case Nil
  then show ?case by simp
next
  case (Cons e es)
  then show ?case
    by (auto simp: js_bind_def split: if_splits sum.splits option.splits)
qed

lemma handleKeyPress_None:
  "find_entity key ents = Inr None \<Longrightarrow>
   handleKeyPress now key ents s = Inr (False, ents, breakCombo (recordKeystroke False now s))"
  by (simp add: handleKeyPress_def)

lemma handleKeyPress_Inl:
  "find_entity key ents = Inl err \<Longrightarrow> handleKeyPress now key ents s = Inl err"
  by (simp add: handleKeyPress_def)

lemma handleKeyPress_frozen_hit:
  "find_entity key ents = Inr (Some i) \<Longrightarrow> fw_frozen (ents ! i) \<Longrightarrow>
   handleKeyPress now key ents s = Inl TypeError"
  by (simp add: handleKeyPress_def)

text \<open>The two outcomes of a keystroke the handler did not throw on: a miss, or a match on
  an entity that is not frozen.\<close>

lemma handleKeyPress_cases:
  assumes "handleKeyPress now key ents s = Inr (b, ents', s')"
  obtains (miss) "find_entity key ents = Inr None" "b = False" "ents' = ents"
      "s' = breakCombo (recordKeystroke False now s)"
    | (hit) i where "find_entity key ents = Inr (Some i)" "\<not> fw_frozen (ents ! i)" "b = True"
proof (cases "find_entity key ents")
  case (Inl err)
  with assms show ?thesis by (simp add: handleKeyPress_Inl)
next
  case (Inr r)
  show ?thesis
  proof (cases r)
    case None
    with Inr assms show ?thesis by (auto simp: handleKeyPress_None intro: miss)
  next
    case (Some i)
    with Inr assms show ?thesis
      by (cases "fw_frozen (ents ! i)")
         (auto simp: handleKeyPress_def type_next_def deactivate_def Let_def intro!: hit split: if_splits)
  qed
qed

lemma handleKeyPress_state:
  "handleKeyPress now k ents s = Inr (b, ents', s') \<Longrightarrow> state s' = state s"
  by (auto simp: handleKeyPress_def type_next_def deactivate_def js_bind_eq_Inr Let_def store_simps
           split: option.splits if_splits)

lemma handleKeyPress_empty:
  "handleKeyPress now k [] s = Inr (False, [], breakCombo (recordKeystroke False now s))"
  by (simp add: handleKeyPress_def)

section \<open>Properties\<close>

text \<open>
  C1: when every entity is well-formed, the scan picks exactly the first entity that accepts the key (active, next character equal to the key up to case), and finds none exactly when no entity accepts it; it never throws.
\<close>

theorem find_entity_first_match:
  "\<forall>e \<in> set ents. entity_wf e \<Longrightarrow>
   (find_entity key ents = Inr (Some i) \<longleftrightarrow>
      i < length ents \<and> accepts key (ents ! i) \<and> (\<forall>j < i. \<not> accepts key (ents ! j))) \<and>
   (find_entity key ents = Inr None \<longleftrightarrow> (\<forall>j < length ents. \<not> accepts key (ents ! j)))"
  by (simp add: find_entity_first_accepting first_accepting_Some first_accepting_None)

theorem find_entity_first_match_witness:
  "entity_wf cat_word \<and> find_entity (CHR ''c'') [cat_word] = Inr (Some 0) \<and>
   accepts (CHR ''c'') cat_word"
proof -
  have wf1: "entity_wf cat_word"
    by (simp add: cat_word_def spawn_entity_def entity_wf_def)
  then have wf: "\<forall>e \<in> set [cat_word]. entity_wf e" by simp
  have "accepts (CHR ''c'') cat_word"
    by (simp add: accepts_def dispatch_eval Let_def)
  with find_entity_first_match [OF wf, of "CHR ''c''" 0] wf1 show ?thesis by simp
qed

text \<open>
  C2: on an array of well-formed frozen entities (every entity of the canvas is frozen, by the store's \<open>addEntity\<close>), a keystroke that some entity accepts throws a \<open>TypeError\<close> at the assignment to \<open>entity.typed\<close>, before any store action, so no keystroke is ever counted as correct; a keystroke that no entity accepts is a miss: the array is unchanged, one more character is typed and the combo breaks.
\<close>

theorem handleKeyPress_frozen:
  "\<forall>e \<in> set ents. entity_wf e \<and> fw_frozen e \<Longrightarrow>
   handleKeyPress now key ents s =
     (if first_accepting key ents = None then Inr (False, ents, breakCombo (recordKeystroke False now s))
      else Inl TypeError)"
proof (cases "first_accepting key ents")
  assume h: "\<forall>e \<in> set ents. entity_wf e \<and> fw_frozen e"
  then have f: "find_entity key ents = Inr (first_accepting key ents)"
    by (simp add: find_entity_first_accepting)
  {
    case None
    with f show ?thesis by (simp add: handleKeyPress_None)
  next
    case (Some i)
    then have "i < length ents" by (simp add: first_accepting_Some)
    with h have "fw_frozen (ents ! i)" by simp
    with f Some show ?thesis by (simp add: handleKeyPress_frozen_hit)
  }
qed

theorem handleKeyPress_frozen_witness:
  "entity_wf (freeze cat_word) \<and> fw_frozen (freeze cat_word) \<and>
   handleKeyPress 1000 (CHR ''c'') [freeze cat_word] cat_session = Inl TypeError \<and>
   handleKeyPress 1000 (CHR ''x'') [freeze cat_word] cat_session =
     Inr (False, [freeze cat_word], breakCombo (recordKeystroke False 1000 cat_session))"
proof -
  have wf1: "entity_wf (freeze cat_word)" "fw_frozen (freeze cat_word)"
    by (simp_all add: cat_word_def spawn_entity_def entity_wf_def)
  then have wf: "\<forall>e \<in> set [freeze cat_word]. entity_wf e \<and> fw_frozen e" by simp
  have c: "first_accepting (CHR ''c'') [freeze cat_word] = Some 0"
    and x: "first_accepting (CHR ''x'') [freeze cat_word] = None"
    by (simp_all add: accepts_def dispatch_eval freeze_def)
  from handleKeyPress_frozen [OF wf, of 1000 "CHR ''c''" cat_session]
       handleKeyPress_frozen [OF wf, of 1000 "CHR ''x''" cat_session] wf1 c x
  show ?thesis by simp
qed

end
