(* ===== verification/Canvas.thy ===== *)
theory Canvas
  imports Session
begin

text \<open>
  The spawn/update scheduler: the game loop of \<open>src/src/components/game/GameCanvas.tsx\<close>
  (its first \<open>useEffect\<close>, function \<open>gameLoop\<close>, and \<open>spawnWord\<close>). Its state is the
  component's refs (\<open>entitiesRef\<close>, \<open>wordIndexRef\<close>, \<open>lastSpawnRef\<close>,
  \<open>gameStartTimeRef\<close>), the record \<open>canvas_refs\<close>; its inputs are the props
  (\<open>words\<close>, \<open>endless\<close>) and the canvas size, the record \<open>canvas_props\<close>, and the
  random draws of one spawn, \<open>spawn_draw\<close>. One call of \<open>gameLoop\<close> is one animation
  frame; its outcome says whether it scheduled the next frame, stopped, or called
  \<open>onGameEnd\<close>. Drawing is not modelled.

  The loop checks \<open>session.state\<close> of the render that started it; the effect's cleanup
  cancels the pending frame whenever the state changes, so a frame runs only while the
  store's state is \<open>playing\<close>: the model reads the store's state.

  \<open>spawnWord\<close> pushes the new entity into \<open>entitiesRef\<close> and hands the same object to
  the store's \<open>addEntity\<close>, which freezes it; the ref therefore holds the object as the
  store left it, frozen. The entity filter then assigns \<open>entity.y\<close> of every active
  entity, which throws on a frozen one: a frame that spawns, or finds an active entity,
  throws a \<open>TypeError\<close>. The statements before the throw have
  run (the countdown, the spawn), but the frame that throws is the effect's immediate
  call \<open>gameLoop()\<close> whenever clock readings exceed two seconds (\<open>lastSpawnRef\<close>
  starts at 0, and no spawn ever completes), so React's error boundary replaces the page
  and the model ends the run with the error.
\<close>

section \<open>Data\<close>

record canvas_refs =
  entitiesRef :: "falling_word list"
  wordIndexRef :: nat
  lastSpawnRef :: ms
  gameStartTimeRef :: ms

record canvas_props =
  cp_words :: "string list"
  cp_endless :: bool
  cp_width :: real
  cp_height :: real

text \<open>The \<open>Math.random()\<close> draws and the UUID of one call of \<open>spawnWord\<close>.\<close>

record spawn_draw =
  sd_uid :: string
  sd_word :: real
  sd_x :: real
  sd_speed :: real
  sd_color :: real

datatype frame_outcome = NextFrame | LoopStopped | GameEnd bool

section \<open>Operations\<close>

definition spawnWord ::
  "canvas_props \<Rightarrow> spawn_draw \<Rightarrow> canvas_refs \<times> game_session \<Rightarrow>
   js_error + canvas_refs \<times> game_session" where
  "spawnWord p d rs =
     (let (r, s) = rs in
      if wordIndexRef r \<ge> length (cp_words p) \<and> \<not> cp_endless p then Inr (r, s)
      else
        let (word, r1) =
              (if cp_endless p
               then (js_at (cp_words p) (nat \<lfloor>sd_word d * real (length (cp_words p))\<rfloor>), r)
               else (js_at (cp_words p) (wordIndexRef r), r\<lparr>wordIndexRef := Suc (wordIndexRef r)\<rparr>))
        in case word of
             None \<Rightarrow> Inl TypeError
           | Some w \<Rightarrow>
               let e = spawn_entity (sd_uid d) (cp_width p) (sd_x d) (sd_speed d) (sd_color d) w;
                   s' = addEntity e s
               in Inr (r1\<lparr>entitiesRef := entitiesRef r1 @ [last (entities s')]\<rparr>, s'))"

text \<open>
  The \<open>filter\<close> callback over \<open>entitiesRef.current\<close>: inactive entities are dropped,
  active ones fall by their speed (an assignment, which throws on a frozen entity), and
  one that passes the danger line is dropped and breaks the combo.
\<close>

fun move_entities ::
  "real \<Rightarrow> falling_word list \<Rightarrow> game_session \<Rightarrow> js_error + falling_word list \<times> game_session" where
  "move_entities h [] s = Inr ([], s)"
| "move_entities h (e # es) s =
     (if \<not> fw_active e then move_entities h es s
      else js_bind (fall e) (\<lambda>e'.
             if fell_off h e' then move_entities h es (breakCombo s)
             else js_bind (move_entities h es s) (\<lambda>(es', s'). Inr (e' # es', s'))))"

text \<open>The spawn block of the frame: at most one spawn per two seconds, at most five entities.\<close>

definition spawnPhase ::
  "canvas_props \<Rightarrow> spawn_draw \<Rightarrow> ms \<Rightarrow> canvas_refs \<times> game_session \<Rightarrow>
   js_error + canvas_refs \<times> game_session" where
  "spawnPhase p d now rs =
     (let (r, s) = rs in
      if now - lastSpawnRef r > 2000 \<and> length (entitiesRef r) < 5
      then js_bind (spawnWord p d (r, s)) (\<lambda>(r2, s2). Inr (r2\<lparr>lastSpawnRef := now\<rparr>, s2))
      else Inr (r, s))"

definition remainingTime :: "ms \<Rightarrow> ms \<Rightarrow> int" where
  "remainingTime gameStart now =
     max 0 \<lceil>real_of_int (60000 - (now - gameStart)) / 1000\<rceil>"

definition gameLoop ::
  "canvas_props \<Rightarrow> spawn_draw \<Rightarrow> ms \<Rightarrow> canvas_refs \<times> game_session \<Rightarrow>
   js_error + canvas_refs \<times> game_session \<times> frame_outcome" where
  "gameLoop p d now rs =
     (let (r, s) = rs in
      if state s \<noteq> Playing then Inr (r, s, LoopStopped)
      else
        let remaining = remainingTime (gameStartTimeRef r) now in
        if \<not> cp_endless p \<and> remaining \<le> 0
        then Inr (r, setTimeRemaining remaining s, GameEnd True)
        else
          let s1 = (if cp_endless p then s else setTimeRemaining remaining s) in
          js_bind (spawnPhase p d now (r, s1))
            (\<lambda>(r3, s3). js_bind (move_entities (cp_height p) (entitiesRef r3) s3)
                          (\<lambda>(es, s4). Inr (r3\<lparr>entitiesRef := es\<rparr>, s4, NextFrame))))"

text \<open>Every entity of the canvas is frozen.\<close>

definition canvas_frozen :: "canvas_refs \<Rightarrow> bool" where
  "canvas_frozen r \<longleftrightarrow> list_all fw_frozen (entitiesRef r)"

text \<open>Fixtures for the examples: a level of two words on an 800 by 600 canvas, the
  zero draws, fresh refs, a session just started.\<close>

definition demo_props :: canvas_props where
  "demo_props = \<lparr>cp_words = [''cat'', ''dog''], cp_endless = False, cp_width = 800, cp_height = 600\<rparr>"

definition demo_draw :: spawn_draw where
  "demo_draw = \<lparr>sd_uid = ''u1'', sd_word = 0, sd_x = 0, sd_speed = 0, sd_color = 0\<rparr>"

definition demo_refs :: canvas_refs where
  "demo_refs = \<lparr>entitiesRef = [], wordIndexRef = 0, lastSpawnRef = 0, gameStartTimeRef = 0\<rparr>"

definition demo_session :: game_session where
  "demo_session = startGame Gravity None 0 initialSession"

lemmas canvas_eval =
  gameLoop_def spawnPhase_def spawnWord_def remainingTime_def spawn_entity_def wordColors_def js_at_def
  setTimeRemaining_def addEntity_def breakCombo_def fall_def fell_off_def
  demo_props_def demo_draw_def demo_refs_def demo_session_def startGame_def initialSession_def
  freeze_def js_assign_def

section \<open>Lemmas\<close>

lemma breakCombo_idem [simp]: "breakCombo (breakCombo s) = breakCombo s"
  by (simp add: breakCombo_def)

lemma last_entities_addEntity [simp]: "last (entities (addEntity e s)) = freeze e"
  by (simp add: addEntity_def)

text \<open>On frozen entities the filter throws exactly when one of them is active; otherwise
  it drops them all and leaves the session alone.\<close>

lemma move_entities_frozen:
  "list_all fw_frozen es \<Longrightarrow>
   (case move_entities h es s of
      Inl err \<Rightarrow> err = TypeError \<and> list_ex fw_active es
    | Inr (es', s') \<Rightarrow> \<not> list_ex fw_active es \<and> es' = [] \<and> s' = s)"
  by (induction h es s rule: move_entities.induct) (auto split: sum.splits prod.splits)

lemma move_entities_session:
  "move_entities h es s = Inr (es', s') \<Longrightarrow> s' = s \<or> s' = breakCombo s"
proof (induction h es s arbitrary: es' s' rule: move_entities.induct)
  case (1 h s)
  then show ?case by simp
next
  case (2 h e es s)
  then show ?case
    by (cases "fw_frozen e")
       (auto simp: fall_def js_bind_eq_Inr split: if_splits prod.splits)
qed

lemma spawnWord_cases:
  assumes "spawnWord p d (r, s) = Inr (r', s')"
  obtains (skip) "r' = r" "s' = s" "length (cp_words p) \<le> wordIndexRef r" "\<not> cp_endless p"
    | (spawn) w where "entitiesRef r' = entitiesRef r @ [freeze (spawn_entity (sd_uid d) (cp_width p) (sd_x d) (sd_speed d) (sd_color d) w)]"
        "s' = addEntity (spawn_entity (sd_uid d) (cp_width p) (sd_x d) (sd_speed d) (sd_color d) w) s"
        "lastSpawnRef r' = lastSpawnRef r" "gameStartTimeRef r' = gameStartTimeRef r"
        "wordIndexRef r' = (if cp_endless p then wordIndexRef r else Suc (wordIndexRef r))"
        "cp_endless p \<or> wordIndexRef r < length (cp_words p)"
  using assms
  by (cases "cp_endless p"; cases "length (cp_words p) \<le> wordIndexRef r")
     (auto simp: spawnWord_def Let_def split: option.splits if_splits intro: that)

lemma spawnWord_Inl:
  "spawnWord p d (r, s) = Inl err \<Longrightarrow> err = TypeError \<and> (cp_endless p \<or> wordIndexRef r < length (cp_words p))"
  by (auto simp: spawnWord_def Let_def split: if_splits option.splits)

lemma spawnPhase_cases:
  assumes "spawnPhase p d now (r, s) = Inr (r', s')"
  obtains (idle) "r' = r" "s' = s" "\<not> (now - lastSpawnRef r > 2000 \<and> length (entitiesRef r) < 5)"
    | (spawned) r2 where "now - lastSpawnRef r > 2000" "length (entitiesRef r) < 5"
        "spawnWord p d (r, s) = Inr (r2, s')" "r' = r2\<lparr>lastSpawnRef := now\<rparr>"
  using assms by (auto simp: spawnPhase_def js_bind_eq_Inr split: if_splits intro: that)

text \<open>The spawn block keeps the canvas frozen, throws only when it spawns, and adds an
  active entity exactly when a spawn is due.\<close>

lemma spawnPhase_frozen:
  assumes fr: "list_all fw_frozen (entitiesRef r)"
  shows "case spawnPhase p d now (r, s) of
           Inl err \<Rightarrow> err = TypeError \<and>
             2000 < now - lastSpawnRef r \<and> length (entitiesRef r) < 5 \<and>
             (cp_endless p \<or> wordIndexRef r < length (cp_words p))
         | Inr (r', s') \<Rightarrow> list_all fw_frozen (entitiesRef r') \<and>
             (list_ex fw_active (entitiesRef r') \<longleftrightarrow> list_ex fw_active (entitiesRef r) \<or>
                (2000 < now - lastSpawnRef r \<and> length (entitiesRef r) < 5 \<and>
                 (cp_endless p \<or> wordIndexRef r < length (cp_words p))))"
proof (cases "spawnPhase p d now (r, s)")
  case (Inl err)
  then have "2000 < now - lastSpawnRef r \<and> length (entitiesRef r) < 5 \<and> spawnWord p d (r, s) = Inl err"
    by (auto simp: spawnPhase_def js_bind_def split: if_splits sum.splits)
  with Inl show ?thesis by (auto dest: spawnWord_Inl)
next
  case (Inr rs')
  obtain r' s' where rs': "rs' = (r', s')" by (cases rs')
  from Inr rs' have sp: "spawnPhase p d now (r, s) = Inr (r', s')" by simp
  from sp show ?thesis
  proof (cases rule: spawnPhase_cases)
    case idle
    with sp fr show ?thesis by auto
  next
    case (spawned r2)
    from spawned(3) show ?thesis
      by (cases rule: spawnWord_cases) (use sp fr spawned in auto)
  qed
qed

lemma gameLoop_cases:
  assumes "gameLoop p d now (r, s) = Inr (r', s', out)"
  obtains (stopped) "state s \<noteq> Playing" "r' = r" "s' = s" "out = LoopStopped"
    | (ended) "state s = Playing" "\<not> cp_endless p" "remainingTime (gameStartTimeRef r) now \<le> 0"
        "r' = r" "s' = setTimeRemaining (remainingTime (gameStartTimeRef r) now) s" "out = GameEnd True"
    | (frame) r2 s2 es where "state s = Playing"
        "cp_endless p \<or> 0 < remainingTime (gameStartTimeRef r) now" "out = NextFrame"
        "spawnPhase p d now (r, if cp_endless p then s else setTimeRemaining (remainingTime (gameStartTimeRef r) now) s) = Inr (r2, s2)"
        "move_entities (cp_height p) (entitiesRef r2) s2 = Inr (es, s')" "r' = r2\<lparr>entitiesRef := es\<rparr>"
proof (cases "state s = Playing")
  case False
  with assms show ?thesis by (simp add: gameLoop_def that)
next
  case True
  show ?thesis
  proof (cases "\<not> cp_endless p \<and> remainingTime (gameStartTimeRef r) now \<le> 0")
    case True
    with \<open>state s = Playing\<close> assms show ?thesis by (auto simp: gameLoop_def intro: that)
  next
    case notend: False
    let ?s1 = "if cp_endless p then s else setTimeRemaining (remainingTime (gameStartTimeRef r) now) s"
    from True notend assms obtain r2 s2 es where sp: "spawnPhase p d now (r, ?s1) = Inr (r2, s2)"
      and mv: "move_entities (cp_height p) (entitiesRef r2) s2 = Inr (es, s')"
      and r': "r' = r2\<lparr>entitiesRef := es\<rparr>" and o: "out = NextFrame"
      by (auto simp: gameLoop_def Let_def js_bind_eq_Inr split: if_splits)
    with True notend show ?thesis by (intro frame) auto
  qed
qed

lemma session_fields_canvas [simp]:
  "entities (setTimeRemaining t s) = entities s" "entities (addEntity e s) = entities s @ [freeze e]"
  "timeRemaining (addEntity e s) = timeRemaining s" "timeRemaining (setTimeRemaining t s) = t"
  "timeRemaining (breakCombo s) = timeRemaining s"
  by (simp_all add: setTimeRemaining_def addEntity_def breakCombo_def)

lemma spawnPhase_entities:
  "spawnPhase p d now (r, s) = Inr (r', s') \<Longrightarrow> set (entities s) \<subseteq> set (entities s') \<and>
   timeRemaining s' = timeRemaining s"
proof (erule spawnPhase_cases)
  fix r2 assume "spawnWord p d (r, s) = Inr (r2, s')"
  then show ?thesis by (cases rule: spawnWord_cases) auto
qed simp

lemma remainingTime_le_0: "remainingTime g now \<le> 0 \<longleftrightarrow> 60000 \<le> now - g"
proof -
  have "(60000 \<le> real_of_int (now - g)) = (60000 \<le> now - g)"
    by (metis of_int_le_iff of_int_numeral)
  then show ?thesis by (simp add: remainingTime_def)
qed

lemma remainingTime_0: "60000 \<le> now - g \<Longrightarrow> remainingTime g now = 0"
  by (simp add: remainingTime_def ceiling_le_zero)

lemma gameLoop_GameEnd:
  "gameLoop p d now (r, s) = Inr (r', s', GameEnd v) \<Longrightarrow>
   state s = Playing \<and> \<not> cp_endless p \<and> 60000 \<le> now - gameStartTimeRef r \<and> v \<and>
   r' = r \<and> s' = setTimeRemaining 0 s"
  by (erule gameLoop_cases) (auto simp: remainingTime_le_0 remainingTime_0)

text \<open>A frame on an empty canvas that does not throw spawns nothing: the canvas stays
  empty and the session changes at most by the countdown.\<close>

lemma gameLoop_empty:
  assumes "entitiesRef r = []" "gameLoop p d now (r, s) = Inr (r', s', out)"
  shows "entitiesRef r' = [] \<and> (s' = s \<or> (\<exists>t. s' = setTimeRemaining t s))"
  using assms(2)
proof (cases rule: gameLoop_cases)
  case (frame r2 s2 es)
  have fr: "list_all fw_frozen (entitiesRef r)" using assms(1) by simp
  from spawnPhase_frozen [OF fr, where p = p and d = d and now = now and
      s = "if cp_endless p then s else setTimeRemaining (remainingTime (gameStartTimeRef r) now) s"] frame(4)
  have f2: "list_all fw_frozen (entitiesRef r2)"
    and a2: "list_ex fw_active (entitiesRef r2) \<longleftrightarrow> 2000 < now - lastSpawnRef r \<and> length (entitiesRef r) < 5 \<and>
                (cp_endless p \<or> wordIndexRef r < length (cp_words p))"
    using assms(1) by simp_all
  from move_entities_frozen [OF f2, where h = "cp_height p" and s = s2] frame(5)
  have m: "\<not> list_ex fw_active (entitiesRef r2)" "es = []" "s' = s2" by simp_all
  from frame(4) have "s2 = (if cp_endless p then s else setTimeRemaining (remainingTime (gameStartTimeRef r) now) s)"
  proof (cases rule: spawnPhase_cases)
    case (spawned r3)
    from spawned(3) show ?thesis
      by (cases rule: spawnWord_cases) (use spawned a2 m assms(1) in auto)
  qed simp
  with m frame(6) show ?thesis by auto
qed (use assms in auto)

text \<open>A frame of a playing session, on a frozen canvas, in which a spawn is due throws.\<close>

lemma gameLoop_spawn_throws:
  assumes fr: "list_all fw_frozen (entitiesRef r)" and run: "state s = Playing"
    "cp_endless p \<or> 0 < remainingTime (gameStartTimeRef r) now"
    and due: "2000 < now - lastSpawnRef r" "length (entitiesRef r) < 5"
    "cp_endless p \<or> wordIndexRef r < length (cp_words p)"
  shows "gameLoop p d now (r, s) = Inl TypeError"
proof -
  let ?s1 = "if cp_endless p then s else setTimeRemaining (remainingTime (gameStartTimeRef r) now) s"
  from run have g: "gameLoop p d now (r, s) =
      js_bind (spawnPhase p d now (r, ?s1))
        (\<lambda>(r3, s3). js_bind (move_entities (cp_height p) (entitiesRef r3) s3)
                      (\<lambda>(es, s4). Inr (r3\<lparr>entitiesRef := es\<rparr>, s4, NextFrame)))"
    by (auto simp: gameLoop_def Let_def)
  note sp = spawnPhase_frozen [OF fr, where p = p and d = d and now = now and s = ?s1]
  show ?thesis
  proof (cases "spawnPhase p d now (r, ?s1)")
    case (Inl err)
    with sp g show ?thesis by simp
  next
    case (Inr rs2)
    obtain r2 s2 where rs2: "rs2 = (r2, s2)" by (cases rs2)
    with Inr sp due have f2: "list_all fw_frozen (entitiesRef r2)" and a2: "list_ex fw_active (entitiesRef r2)"
      by simp_all
    from move_entities_frozen [OF f2, where h = "cp_height p" and s = s2] a2
    have "move_entities (cp_height p) (entitiesRef r2) s2 = Inl TypeError"
      by (auto split: sum.splits prod.splits)
    with Inr rs2 g show ?thesis by simp
  qed
qed

lemma demo_frame:
  "\<exists>r' s'. gameLoop demo_props demo_draw 1500 (demo_refs, demo_session) = Inr (r', s', NextFrame) \<and>
     timeRemaining s' = 59 \<and> entitiesRef r' = []"
  by (simp add: canvas_eval Let_def)

section \<open>Properties\<close>

text \<open>
  C10: a frame ends the game exactly when the session is playing in level mode and 60 seconds have passed since the loop started; it then reports victory, sets the remaining time to 0 and leaves the canvas untouched. Endless mode never ends the game.
\<close>

theorem gameLoop_game_end:
  "gameLoop p d now (r, s) = Inr (r', s', GameEnd v) \<longleftrightarrow>
   state s = Playing \<and> \<not> cp_endless p \<and> 60000 \<le> now - gameStartTimeRef r \<and> v \<and>
   r' = r \<and> s' = setTimeRemaining 0 s"
proof
  assume "gameLoop p d now (r, s) = Inr (r', s', GameEnd v)"
  then show "state s = Playing \<and> \<not> cp_endless p \<and> 60000 \<le> now - gameStartTimeRef r \<and> v \<and>
    r' = r \<and> s' = setTimeRemaining 0 s" by (rule gameLoop_GameEnd)
next
  assume "state s = Playing \<and> \<not> cp_endless p \<and> 60000 \<le> now - gameStartTimeRef r \<and> v \<and>
    r' = r \<and> s' = setTimeRemaining 0 s"
  then show "gameLoop p d now (r, s) = Inr (r', s', GameEnd v)"
    by (simp add: gameLoop_def remainingTime_le_0 remainingTime_0)
qed

text \<open>
  C3: while every entity of the canvas is frozen, a frame of a playing session that does not end the level throws a \<open>TypeError\<close> exactly when it has an entity to move: an active entity on the canvas, or a spawn that is due (more than two seconds since the last spawn, fewer than five entities, and a word left in level mode). No other frame throws, and no frame throws any other error.
\<close>

theorem gameLoop_throws:
  "canvas_frozen r \<Longrightarrow>
   (case gameLoop p d now (r, s) of
      Inl err \<Rightarrow> err = TypeError \<and>
        state s = Playing \<and> (cp_endless p \<or> 0 < remainingTime (gameStartTimeRef r) now) \<and>
        (list_ex fw_active (entitiesRef r) \<or>
         (2000 < now - lastSpawnRef r \<and> length (entitiesRef r) < 5 \<and>
          (cp_endless p \<or> wordIndexRef r < length (cp_words p))))
    | Inr _ \<Rightarrow> \<not> (state s = Playing \<and> (cp_endless p \<or> 0 < remainingTime (gameStartTimeRef r) now) \<and>
        (list_ex fw_active (entitiesRef r) \<or>
         (2000 < now - lastSpawnRef r \<and> length (entitiesRef r) < 5 \<and>
          (cp_endless p \<or> wordIndexRef r < length (cp_words p))))))"
proof -
  assume "canvas_frozen r"
  then have fr: "list_all fw_frozen (entitiesRef r)" by (simp add: canvas_frozen_def)
  let ?s1 = "if cp_endless p then s else setTimeRemaining (remainingTime (gameStartTimeRef r) now) s"
  show ?thesis
  proof (cases "state s = Playing \<and> (cp_endless p \<or> 0 < remainingTime (gameStartTimeRef r) now)")
    case False
    then show ?thesis by (auto simp: gameLoop_def)
  next
    case run: True
    then have g: "gameLoop p d now (r, s) =
        js_bind (spawnPhase p d now (r, ?s1))
          (\<lambda>(r3, s3). js_bind (move_entities (cp_height p) (entitiesRef r3) s3)
                        (\<lambda>(es, s4). Inr (r3\<lparr>entitiesRef := es\<rparr>, s4, NextFrame)))"
      by (auto simp: gameLoop_def Let_def)
    note sp = spawnPhase_frozen [OF fr, where p = p and d = d and now = now and s = ?s1]
    show ?thesis
    proof (cases "spawnPhase p d now (r, ?s1)")
      case (Inl err)
      with sp g run show ?thesis by simp
    next
      case (Inr rs2)
      obtain r2 s2 where rs2: "rs2 = (r2, s2)" by (cases rs2)
      with Inr sp have f2: "list_all fw_frozen (entitiesRef r2)" by simp
      note mv = move_entities_frozen [OF f2, where h = "cp_height p" and s = s2]
      from Inr rs2 sp mv g run show ?thesis
        by (auto split: sum.splits prod.splits)
    qed
  qed
qed

theorem gameLoop_throws_witness:
  "canvas_frozen demo_refs \<and> gameLoop demo_props demo_draw 3000 (demo_refs, demo_session) = Inl TypeError"
proof -
  have f: "canvas_frozen demo_refs" by (simp add: canvas_frozen_def demo_refs_def)
  have g: "gameLoop demo_props demo_draw 3000 (demo_refs, demo_session) = Inl TypeError"
    by (simp add: canvas_eval Let_def)
  from gameLoop_throws [OF f, where p = demo_props and d = demo_draw and now = 3000 and s = demo_session] f g
  show ?thesis by simp
qed



end
