(* ===== verification/Game.thy ===== *)
theory Game
  imports Dispatch Canvas
begin

text \<open>
  The composed game: the canvas loop, the keystroke path and the store, driven by the
  two pages that host them (\<open>src/src/pages/Game/index.tsx\<close>, the level page, and
  \<open>src/src/pages/EndlessMode/index.tsx\<close>) and by React's effect scheduling.
  \<^item> \<open>game_system\<close>: the canvas refs, the session, whether an animation frame is pending,
    and the text \<open>TypingInput\<close> displays;
  \<^item> the canvas size is the \<open>dimensions\<close> state of the canvas, measured by its resize
    listener; the level page mounts the canvas with \<open>endless\<close> false, the endless page
    with \<open>endless\<close> true;
  \<^item> \<open>sys_event\<close>: an animation frame (with the words the current render passes and the
    draws of a spawn), a key press, pause, resume, start and reset;
  \<^item> \<open>rerender\<close>: the React rule the pages impose on the loop. Both pages subscribe to
    the whole session, so a store update that changes it re-renders the page. The level
    page's \<open>onGameEnd\<close> (\<open>handleGameEnd\<close>, a \<open>useCallback\<close> on \<open>session\<close>) and both
    pages' \<open>words\<close> (generated afresh in every render) are dependencies of the loop effect,
    so React runs its cleanup (cancelling the pending frame) and the effect again: while
    playing, \<open>gameStartTimeRef\<close> is reset to the current time and the loop restarts;
    otherwise no frame is pending. \<open>TypingInput\<close> is mounted only while playing, so it
    forgets its text when the game leaves that state.
  The effect's immediate call \<open>gameLoop()\<close> is the next frame event.

  A frame that throws ends the run with its error: the frame that throws is the effect's
  immediate call (theory \<open>Canvas\<close>), and React's error boundary replaces the page. A key
  press runs in the native \<open>keydown\<close> listener of \<open>TypingInput\<close>; an exception there
  is reported and the page goes on, and since the dispatcher throws before any effect,
  the system is unchanged.
\<close>

section \<open>Data\<close>

datatype page_kind = LevelPage | EndlessPage

datatype sys_event =
    FrameEv spawn_draw "string list"
  | KeyEv key_event
  | PauseEv
  | ResumeEv
  | StartEv game_mode "string option"
  | ResetEv
  | ResizeEv real real

record game_system =
  gs_refs :: canvas_refs
  gs_session :: game_session
  gs_running :: bool
  gs_input :: string
  gs_dims :: "real \<times> real"

section \<open>The pages' end-of-game handlers\<close>

text \<open>
  The store part of the two \<open>handleGameEnd\<close> callbacks; the complete callbacks, with
  their player-store effects, are \<open>level_page_end\<close> (theory \<open>Levels\<close>) and
  \<open>endless_page_end\<close> (theory \<open>Pages\<close>).
\<close>

definition level_handleGameEnd :: "bool \<Rightarrow> game_session \<Rightarrow> game_session" where
  "level_handleGameEnd victory s = endGame victory s"

definition endless_handleGameEnd :: "bool \<Rightarrow> game_session \<Rightarrow> game_session" where
  "endless_handleGameEnd victory s = (if \<not> victory then endGame False s else s)"

definition onGameEnd :: "page_kind \<Rightarrow> bool \<Rightarrow> game_session \<Rightarrow> game_session" where
  "onGameEnd pg victory s =
     (case pg of LevelPage \<Rightarrow> level_handleGameEnd victory s
               | EndlessPage \<Rightarrow> endless_handleGameEnd victory s)"

section \<open>Steps\<close>

text \<open>The loop effect's cleanup and re-run: while playing it resets its start time and
  requests a frame; otherwise no frame is pending and \<open>TypingInput\<close> is not mounted.\<close>

definition loop_restart :: "ms \<Rightarrow> game_system \<Rightarrow> game_system" where
  "loop_restart now sys =
     (if state (gs_session sys) = Playing
      then sys\<lparr>gs_refs := (gs_refs sys)\<lparr>gameStartTimeRef := now\<rparr>, gs_running := True\<rparr>
      else sys\<lparr>gs_running := False, gs_input := []\<rparr>)"

definition rerender :: "ms \<Rightarrow> game_session \<Rightarrow> game_system \<Rightarrow> game_system" where
  "rerender now s_old sys = (if gs_session sys = s_old then sys else loop_restart now sys)"

fun sys_step ::
  "canvas_props \<Rightarrow> page_kind \<Rightarrow> ms \<Rightarrow> sys_event \<Rightarrow> game_system \<Rightarrow> js_error + game_system" where
  "sys_step p pg now (FrameEv d ws) sys =
     (if \<not> gs_running sys then Inr sys
      else js_bind (gameLoop (p\<lparr>cp_words := ws, cp_endless := (pg = EndlessPage),
                                 cp_width := fst (gs_dims sys), cp_height := snd (gs_dims sys)\<rparr>) d now
                      (gs_refs sys, gs_session sys))
             (\<lambda>(r', s', out).
                let s'' = (case out of GameEnd v \<Rightarrow> onGameEnd pg v s' | _ \<Rightarrow> s')
                in Inr (rerender now (gs_session sys)
                          (sys\<lparr>gs_refs := r', gs_session := s'', gs_running := (out = NextFrame)\<rparr>))))"
| "sys_step p pg now (KeyEv ev) sys =
     (if state (gs_session sys) \<noteq> Playing then Inr sys
      else case handleKeyDown now ev (gs_input sys, entitiesRef (gs_refs sys), gs_session sys) of
             Inl err \<Rightarrow> Inr sys
           | Inr (inp, ents, s') \<Rightarrow>
                Inr (rerender now (gs_session sys)
                       (sys\<lparr>gs_input := inp, gs_refs := (gs_refs sys)\<lparr>entitiesRef := ents\<rparr>,
                            gs_session := s'\<rparr>)))"
| "sys_step p pg now PauseEv sys =
     Inr (rerender now (gs_session sys) (sys\<lparr>gs_session := pauseGame (gs_session sys)\<rparr>))"
| "sys_step p pg now ResumeEv sys =
     Inr (rerender now (gs_session sys) (sys\<lparr>gs_session := resumeGame (gs_session sys)\<rparr>))"
| "sys_step p pg now (StartEv md lvl) sys =
     Inr (rerender now (gs_session sys) (sys\<lparr>gs_session := startGame md lvl now (gs_session sys)\<rparr>))"
| "sys_step p pg now ResetEv sys =
     Inr (rerender now (gs_session sys) (sys\<lparr>gs_session := resetGame (gs_session sys)\<rparr>))"
| "sys_step p pg now (ResizeEv w h) sys = Inr (loop_restart now (sys\<lparr>gs_dims := (w, h)\<rparr>))"

fun sys_run ::
  "canvas_props \<Rightarrow> page_kind \<Rightarrow> (ms \<times> sys_event) list \<Rightarrow> game_system \<Rightarrow> js_error + game_system" where
  "sys_run p pg [] sys = Inr sys"
| "sys_run p pg ((now, ev) # evs) sys = js_bind (sys_step p pg now ev sys) (sys_run p pg evs)"

definition initialSystem :: game_system where
  "initialSystem =
     \<lparr>gs_refs = \<lparr>entitiesRef = [], wordIndexRef = 0, lastSpawnRef = 0, gameStartTimeRef = 0\<rparr>,
      gs_session = initialSession, gs_running = False, gs_input = [], gs_dims = (800, 600)\<rparr>"

lemmas game_eval = canvas_eval Let_def initialSystem_def rerender_def loop_restart_def pauseGame_def resumeGame_def

section \<open>Lemmas\<close>

lemma loop_restart_session [simp]: "gs_session (loop_restart now sys) = gs_session sys"
  by (simp add: loop_restart_def)

lemma rerender_session [simp]: "gs_session (rerender now s0 sys) = gs_session sys"
  by (simp add: rerender_def loop_restart_def)

lemma state_frame_simps [simp]:
  "state (setTimeRemaining t s) = state s" "state (addEntity e s) = state s"
  by (simp_all add: setTimeRemaining_def addEntity_def)

lemma spawnPhase_state: "spawnPhase p d now (r, s) = Inr (r', s') \<Longrightarrow> state s' = state s"
proof (erule spawnPhase_cases)
  fix r2 assume "spawnWord p d (r, s) = Inr (r2, s')"
  then show ?thesis by (cases rule: spawnWord_cases) auto
qed simp

lemma gameLoop_state: "gameLoop p d now (r, s) = Inr (r', s', out) \<Longrightarrow> state s' = state s"
proof (erule gameLoop_cases)
  fix r2 s2 es
  assume sp: "spawnPhase p d now (r, if cp_endless p then s else setTimeRemaining (remainingTime (gameStartTimeRef r) now) s) = Inr (r2, s2)"
    and mv: "move_entities (cp_height p) (entitiesRef r2) s2 = Inr (es, s')"
  from spawnPhase_state [OF sp] move_entities_session [OF mv] show ?thesis by (auto simp: breakCombo_def)
qed simp_all

lemma handleKeyDown_state:
  "handleKeyDown now ev (inp, ents, s) = Inr (inp', ents', s') \<Longrightarrow> state s' = state s"
  by (auto simp: handleKeyDown_def js_bind_eq_Inr split: if_splits prod.splits dest: handleKeyPress_state)

lemma handleKeyDown_empty:
  "handleKeyDown now ev (inp, [], s) = Inr (inp', ents', s') \<Longrightarrow>
   ents' = [] \<and> (s' = s \<or> s' = breakCombo (recordKeystroke False now s))"
  by (auto simp: handleKeyDown_def handleKeyPress_empty split: if_splits)

text \<open>The states a step can lead to: the frame that ends a game does so only on the level
  page, with victory, a minute after the loop (re)started.\<close>

lemma sys_step_state:
  assumes "sys_step p pg now ev sys = Inr sys'"
  shows "state (gs_session sys') = state (gs_session sys) \<or>
         (ev = PauseEv \<and> state (gs_session sys') = Paused) \<or>
         (ev = ResumeEv \<and> state (gs_session sys') = Playing) \<or>
         (\<exists>md l. ev = StartEv md l \<and> state (gs_session sys') = Playing) \<or>
         (ev = ResetEv \<and> state (gs_session sys') = Idle) \<or>
         (pg = LevelPage \<and> state (gs_session sys') = Victory \<and> (\<exists>d ws. ev = FrameEv d ws) \<and>
          state (gs_session sys) = Playing \<and> gs_running sys \<and>
          60000 \<le> now - gameStartTimeRef (gs_refs sys))"
proof (cases ev)
  case (FrameEv d ws)
  show ?thesis
  proof (cases "gs_running sys")
    case False
    with assms FrameEv show ?thesis by simp
  next
    case True
    let ?p = "p\<lparr>cp_words := ws, cp_endless := (pg = EndlessPage),
                cp_width := fst (gs_dims sys), cp_height := snd (gs_dims sys)\<rparr>"
    from True assms FrameEv obtain r' s' out where
      g: "gameLoop ?p d now (gs_refs sys, gs_session sys) = Inr (r', s', out)" and
      sys': "sys' = rerender now (gs_session sys) (sys\<lparr>gs_refs := r',
                gs_session := (case out of GameEnd v \<Rightarrow> onGameEnd pg v s' | _ \<Rightarrow> s'),
                gs_running := (out = NextFrame)\<rparr>)"
      by (auto simp: js_bind_eq_Inr Let_def split: prod.splits)
    from gameLoop_state [OF g] have s': "state s' = state (gs_session sys)" .
    show ?thesis
    proof (cases out)
      case (GameEnd v)
      with g gameLoop_GameEnd [of ?p d now "gs_refs sys" "gs_session sys" r' s' v]
      have "v" "pg \<noteq> EndlessPage" "60000 \<le> now - gameStartTimeRef (gs_refs sys)"
        "state (gs_session sys) = Playing" by simp_all
      with GameEnd sys' FrameEv True show ?thesis
        by (cases pg) (simp_all add: onGameEnd_def level_handleGameEnd_def endGame_def)
    qed (use sys' s' in simp_all)
  qed
next
  case (KeyEv k)
  with assms show ?thesis
    by (auto split: if_splits sum.splits prod.splits dest: handleKeyDown_state)
qed (use assms in \<open>auto simp: store_simps initialSession_def split: if_splits\<close>)

lemma sys_step_not_GameOver:
  assumes "state (gs_session sys) \<noteq> GameOver" "sys_step p pg now ev sys = Inr sys'"
  shows "state (gs_session sys') \<noteq> GameOver"
  using sys_step_state [OF assms(2)] assms(1) by (elim disjE exE conjE) simp_all

lemma sys_run_Cons_Inr:
  assumes "sys_run p pg ((now, ev) # evs) sys = Inr sys'"
  obtains sys1 where "sys_step p pg now ev sys = Inr sys1" "sys_run p pg evs sys1 = Inr sys'"
  using assms by (auto simp: js_bind_eq_Inr)

text \<open>Nothing has been typed: the canvas is empty and the session has no correct
  character, no completed word and no score.\<close>

definition game_unplayed :: "game_system \<Rightarrow> bool" where
  "game_unplayed sys \<longleftrightarrow>
     entitiesRef (gs_refs sys) = [] \<and> correctChars (gs_session sys) = 0 \<and>
     wordsCompleted (gs_session sys) = 0 \<and> score (gs_session sys) = 0"

lemma unplayed_session_simps [simp]:
  "correctChars (breakCombo (recordKeystroke False now s)) = correctChars s"
  "wordsCompleted (breakCombo (recordKeystroke False now s)) = wordsCompleted s"
  "score (breakCombo (recordKeystroke False now s)) = score s"
  "correctChars (setTimeRemaining t s) = correctChars s"
  "wordsCompleted (setTimeRemaining t s) = wordsCompleted s"
  "score (setTimeRemaining t s) = score s"
  "correctChars (onGameEnd pg v s) = correctChars s"
  "wordsCompleted (onGameEnd pg v s) = wordsCompleted s"
  "score (onGameEnd pg v s) = score s"
  by (simp_all add: breakCombo_def recordKeystroke_def setTimeRemaining_def onGameEnd_def
      level_handleGameEnd_def endless_handleGameEnd_def endGame_def Let_def split: page_kind.split)

lemma entitiesRef_rerender [simp]:
  "entitiesRef (gs_refs (rerender now s0 sys)) = entitiesRef (gs_refs sys)"
  "entitiesRef (gs_refs (loop_restart now sys)) = entitiesRef (gs_refs sys)"
  by (simp_all add: rerender_def loop_restart_def)

text \<open>Every step that does not throw keeps a system unplayed: a frame on the empty canvas
  spawns nothing (a spawn throws), so the key presses all miss.\<close>

lemma sys_step_unplayed:
  assumes "game_unplayed sys" "sys_step p pg now ev sys = Inr sys'"
  shows "game_unplayed sys'"
proof (cases ev)
  case (FrameEv d ws)
  show ?thesis
  proof (cases "gs_running sys")
    case False
    with assms FrameEv show ?thesis by simp
  next
    case True
    let ?p = "p\<lparr>cp_words := ws, cp_endless := (pg = EndlessPage),
                cp_width := fst (gs_dims sys), cp_height := snd (gs_dims sys)\<rparr>"
    from True assms(2) FrameEv obtain r' s' out where
      g: "gameLoop ?p d now (gs_refs sys, gs_session sys) = Inr (r', s', out)" and
      sys': "sys' = rerender now (gs_session sys) (sys\<lparr>gs_refs := r',
                gs_session := (case out of GameEnd v \<Rightarrow> onGameEnd pg v s' | _ \<Rightarrow> s'),
                gs_running := (out = NextFrame)\<rparr>)"
      by (auto simp: js_bind_eq_Inr Let_def split: prod.splits)
    from assms(1) have "entitiesRef (gs_refs sys) = []" by (simp add: game_unplayed_def)
    from gameLoop_empty [OF this g] assms(1) sys' show ?thesis
      by (cases out) (auto simp: game_unplayed_def)
  qed
next
  case (KeyEv k)
  show ?thesis
  proof (cases "handleKeyDown now k (gs_input sys, entitiesRef (gs_refs sys), gs_session sys)")
    case (Inr res)
    obtain inp ents s' where res: "res = (inp, ents, s')" by (cases res)
    from assms(1) have e: "entitiesRef (gs_refs sys) = []" by (simp add: game_unplayed_def)
    with Inr res handleKeyDown_empty [of now k "gs_input sys" "gs_session sys" inp ents s']
    have "ents = [] \<and> (s' = gs_session sys \<or> s' = breakCombo (recordKeystroke False now (gs_session sys)))"
      by simp
    with assms KeyEv Inr res show ?thesis by (auto simp: game_unplayed_def split: if_splits)
  qed (use assms KeyEv in \<open>auto split: if_splits\<close>)
qed (use assms in \<open>auto simp: game_unplayed_def store_simps initialSession_def\<close>)

lemma sys_run_unplayed:
  "game_unplayed sys \<Longrightarrow> sys_run p pg evs sys = Inr sys' \<Longrightarrow> game_unplayed sys'"
proof (induction evs arbitrary: sys)
  case Nil
  then show ?case by simp
next
  case (Cons e evs)
  obtain now ev where e: "e = (now, ev)" by (cases e)
  from Cons.prems(2) obtain sys1 where
    s1: "sys_step p pg now ev sys = Inr sys1" and r: "sys_run p pg evs sys1 = Inr sys'"
    unfolding e by (rule sys_run_Cons_Inr)
  from sys_step_unplayed [OF Cons.prems(1) s1] r show ?case by (rule Cons.IH)
qed

lemma remainingTime_pos: "now - g < 60000 \<Longrightarrow> 0 < remainingTime g now"
  by (simp add: remainingTime_def)

section \<open>Properties\<close>

text \<open>
  C4: no sequence of frames, key presses, pauses, resumes, starts, resets and resizes that
  the program survives ever brings a session that is not lost into the game-over state, on
  either page: nothing calls \<open>onGameEnd(false)\<close>, and words that fall off only break the
  combo. The game cannot be lost.
\<close>

theorem sys_run_never_lost:
  "state (gs_session sys) \<noteq> GameOver \<Longrightarrow> sys_run p pg evs sys = Inr sys' \<Longrightarrow>
   state (gs_session sys') \<noteq> GameOver"
proof (induction evs arbitrary: sys)
  case Nil
  then show ?case by simp
next
  case (Cons e evs)
  obtain now ev where e: "e = (now, ev)" by (cases e)
  from Cons.prems(2) obtain sys1 where
    s1: "sys_step p pg now ev sys = Inr sys1" and r: "sys_run p pg evs sys1 = Inr sys'"
    unfolding e by (rule sys_run_Cons_Inr)
  from sys_step_not_GameOver [OF Cons.prems(1) s1] r show ?case by (rule Cons.IH)
qed

text \<open>
  C8: on either page, the first animation frame after a game starts, once the clock is
  past two seconds, throws a \<open>TypeError\<close> whenever there is a word to spawn (a non-empty
  word list and level time left on the level page; always on the endless page): the
  spawned word is frozen by the store and the frame assigns its position. The loop
  effect makes that call itself, so the page is replaced by its error screen.
\<close>

theorem start_first_frame_throws:
  "2000 < t1 \<Longrightarrow> pg = EndlessPage \<or> (ws \<noteq> [] \<and> t1 - t0 < 60000) \<Longrightarrow>
   sys_run p pg [(t0, StartEv md l), (t1, FrameEv d ws)] initialSystem = Inl TypeError"
proof -
  assume t: "2000 < t1" and w: "pg = EndlessPage \<or> (ws \<noteq> [] \<and> t1 - t0 < 60000)"
  let ?sys1 = "loop_restart t0 (initialSystem\<lparr>gs_session := startGame md l t0 (gs_session initialSystem)\<rparr>)"
  have s1: "sys_step p pg t0 (StartEv md l) initialSystem = Inr ?sys1"
    by (simp add: rerender_def startGame_def initialSystem_def initialSession_def)
  let ?p = "p\<lparr>cp_words := ws, cp_endless := (pg = EndlessPage),
              cp_width := fst (gs_dims ?sys1), cp_height := snd (gs_dims ?sys1)\<rparr>"
  have r1: "entitiesRef (gs_refs ?sys1) = []" "lastSpawnRef (gs_refs ?sys1) = 0"
    "wordIndexRef (gs_refs ?sys1) = 0" "gameStartTimeRef (gs_refs ?sys1) = t0"
    "gs_running ?sys1" "state (gs_session ?sys1) = Playing"
    by (simp_all add: loop_restart_def startGame_def initialSystem_def initialSession_def)
  have "gameLoop ?p d t1 (gs_refs ?sys1, gs_session ?sys1) = Inl TypeError"
    by (rule gameLoop_spawn_throws) (use r1 t w remainingTime_pos in auto)
  with s1 r1 show ?thesis by (simp add: Let_def)
qed

text \<open>
  C16: no word is ever typed: in every run from the initial system that does not throw,
  on either page, the canvas holds no entity and the session has no correct character, no
  completed word and a score of 0. Every spawn throws in the frame that makes it, so
  every key press misses.
\<close>

theorem sys_run_no_progress:
  "sys_run p pg evs initialSystem = Inr sys' \<Longrightarrow>
   entitiesRef (gs_refs sys') = [] \<and> correctChars (gs_session sys') = 0 \<and>
   wordsCompleted (gs_session sys') = 0 \<and> score (gs_session sys') = 0"
proof -
  assume r: "sys_run p pg evs initialSystem = Inr sys'"
  have "game_unplayed initialSystem"
    by (simp add: game_unplayed_def initialSystem_def initialSession_def)
  from sys_run_unplayed [OF this r] show ?thesis by (simp add: game_unplayed_def)
qed

section \<open>Witnesses\<close>

theorem sys_run_never_lost_witness:
  "state (gs_session initialSystem) \<noteq> GameOver \<and>
   (\<exists>sys'. sys_run demo_props LevelPage [(0, StartEv Gravity None), (1500, FrameEv demo_draw [''cat''])]
             initialSystem = Inr sys' \<and> state (gs_session sys') \<noteq> GameOver)"
proof -
  obtain sys' where r: "sys_run demo_props LevelPage [(0, StartEv Gravity None), (1500, FrameEv demo_draw [''cat''])]
             initialSystem = Inr sys'"
    by (simp add: game_eval)
  have i: "state (gs_session initialSystem) \<noteq> GameOver" by (simp add: game_eval)
  from i r sys_run_never_lost [OF i r] show ?thesis by blast
qed

theorem start_first_frame_throws_witness:
  "sys_run demo_props LevelPage [(0, StartEv Gravity None), (2500, FrameEv demo_draw [''cat''])]
     initialSystem = Inl TypeError"
proof -
  have "2000 < (2500::int)" "LevelPage = EndlessPage \<or> ([''cat''] \<noteq> [] \<and> (2500::int) - 0 < 60000)"
    by simp_all
  from start_first_frame_throws [OF this, where p = demo_props and md = Gravity and l = None and d = demo_draw]
  show ?thesis .
qed

theorem sys_run_no_progress_witness:
  "\<exists>sys'. sys_run demo_props LevelPage
      [(0, StartEv Gravity None), (1500, FrameEv demo_draw [''cat'']),
       (1600, KeyEv \<lparr>ev_key = ''c'', ev_ctrl = False, ev_alt = False, ev_meta = False\<rparr>)]
      initialSystem = Inr sys' \<and> charactersTyped (gs_session sys') = 1 \<and>
      correctChars (gs_session sys') = 0 \<and> score (gs_session sys') = 0"
proof -
  obtain sys' where r: "sys_run demo_props LevelPage
      [(0, StartEv Gravity None), (1500, FrameEv demo_draw [''cat'']),
       (1600, KeyEv \<lparr>ev_key = ''c'', ev_ctrl = False, ev_alt = False, ev_meta = False\<rparr>)]
      initialSystem = Inr sys'" and c: "charactersTyped (gs_session sys') = 1"
    by (simp add: game_eval handleKeyDown_def handleKeyPress_def recordKeystroke_def breakCombo_def)
  from sys_run_no_progress [OF r] r c show ?thesis by blast
qed

end
