(* ===== verification/Timers.thy ===== *)
theory Timers
  imports Prelude
begin

text \<open>
  \<open>debounce\<close> and \<open>throttle\<close> of \<open>src/utils/index.ts\<close>. Each returns a closure over one
  mutable variable (\<open>timeoutId\<close>, \<open>inThrottle\<close>) and hands callbacks to the host's
  \<open>setTimeout\<close>. The model makes the host explicit: a timer queue of this closure's timers
  with their ids, due times and callbacks, and an event \<open>RunTimer t\<close> in which the host,
  at time \<open>t\<close>, runs the first timer that is due. The wrapped \<open>func\<close> is observed through
  the list of its invocations with their times and arguments. A negative delay counts as
  zero, as in browsers; timer ids are positive, so a set \<open>timeoutId\<close> is truthy.
\<close>

section \<open>Host timers\<close>

record 'c host_timer =
  tm_id :: nat
  tm_due :: ms
  tm_cb :: 'c

type_synonym 'c timer_queue = "'c host_timer list"

definition setTimeout :: "nat \<Rightarrow> ms \<Rightarrow> int \<Rightarrow> 'c \<Rightarrow> 'c timer_queue \<Rightarrow> 'c timer_queue" where
  "setTimeout i now delay cb q = q @ [\<lparr>tm_id = i, tm_due = now + max 0 delay, tm_cb = cb\<rparr>]"

definition clearTimeout :: "nat \<Rightarrow> 'c timer_queue \<Rightarrow> 'c timer_queue" where
  "clearTimeout i q = filter (\<lambda>tm. tm_id tm \<noteq> i) q"

definition due_timer :: "ms \<Rightarrow> 'c timer_queue \<Rightarrow> 'c host_timer option" where
  "due_timer now q = find (\<lambda>tm. tm_due tm \<le> now) q"

datatype 'a host_event = Invoke ms 'a | RunTimer ms

fun ev_time :: "'a host_event \<Rightarrow> ms" where
  "ev_time (Invoke t _) = t"
| "ev_time (RunTimer t) = t"

section \<open>debounce\<close>

record 'a debounce_st =
  db_timeoutId :: "nat option"
  db_queue :: "'a timer_queue"
  db_nextId :: nat
  db_calls :: "(ms \<times> 'a) list"

definition debounce_init :: "'a debounce_st" where
  "debounce_init = \<lparr>db_timeoutId = None, db_queue = [], db_nextId = 1, db_calls = []\<rparr>"

text \<open>A call clears the timer \<open>timeoutId\<close> names, which may have run already (the variable
  is never reset), and sets a new one carrying the call's arguments.\<close>

fun debounce_step :: "int \<Rightarrow> 'a host_event \<Rightarrow> 'a debounce_st \<Rightarrow> 'a debounce_st" where
  "debounce_step wait (Invoke t args) s =
     (let q = (case db_timeoutId s of Some i \<Rightarrow> clearTimeout i (db_queue s) | None \<Rightarrow> db_queue s);
          i = db_nextId s
      in s\<lparr>db_queue := setTimeout i t wait args q, db_timeoutId := Some i, db_nextId := Suc i\<rparr>)"
| "debounce_step wait (RunTimer t) s =
     (case due_timer t (db_queue s) of
        None \<Rightarrow> s
      | Some tm \<Rightarrow> s\<lparr>db_queue := clearTimeout (tm_id tm) (db_queue s), db_calls := db_calls s @ [(t, tm_cb tm)]\<rparr>)"

definition debounce_run :: "int \<Rightarrow> 'a host_event list \<Rightarrow> 'a debounce_st" where
  "debounce_run wait evs = fold (debounce_step wait) evs debounce_init"

text \<open>What \<open>debounce\<close> promises: at most one pending invocation, that of the latest call,
  due \<open>wait\<close> after it; it runs once the host reaches its due time.\<close>

record 'a debounce_spec =
  ds_pending :: "(ms \<times> 'a) option"
  ds_calls :: "(ms \<times> 'a) list"

fun debounce_spec_step :: "int \<Rightarrow> 'a host_event \<Rightarrow> 'a debounce_spec \<Rightarrow> 'a debounce_spec" where
  "debounce_spec_step wait (Invoke t a) d = d\<lparr>ds_pending := Some (t + max 0 wait, a)\<rparr>"
| "debounce_spec_step wait (RunTimer t) d =
     (case ds_pending d of
        Some (due, a) \<Rightarrow> if due \<le> t then \<lparr>ds_pending = None, ds_calls = ds_calls d @ [(t, a)]\<rparr> else d
      | None \<Rightarrow> d)"

definition debounce_abs :: "'a debounce_st \<Rightarrow> 'a debounce_spec" where
  "debounce_abs s =
     \<lparr>ds_pending = (case db_queue s of [] \<Rightarrow> None | tm # _ \<Rightarrow> Some (tm_due tm, tm_cb tm)),
      ds_calls = db_calls s\<rparr>"

definition debounce_inv :: "'a debounce_st \<Rightarrow> bool" where
  "debounce_inv s \<longleftrightarrow>
     (case db_queue s of [] \<Rightarrow> True | [tm] \<Rightarrow> db_timeoutId s = Some (tm_id tm) | _ \<Rightarrow> False)"

section \<open>throttle\<close>

record 'a throttle_st =
  th_inThrottle :: bool
  th_queue :: "unit timer_queue"
  th_nextId :: nat
  th_calls :: "(ms \<times> 'a) list"

definition throttle_init :: "'a throttle_st" where
  "throttle_init = \<lparr>th_inThrottle = False, th_queue = [], th_nextId = 1, th_calls = []\<rparr>"

fun throttle_step :: "int \<Rightarrow> 'a host_event \<Rightarrow> 'a throttle_st \<Rightarrow> 'a throttle_st" where
  "throttle_step limit (Invoke t args) s =
     (if \<not> th_inThrottle s
      then s\<lparr>th_calls := th_calls s @ [(t, args)], th_inThrottle := True,
             th_queue := setTimeout (th_nextId s) t limit () (th_queue s), th_nextId := Suc (th_nextId s)\<rparr>
      else s)"
| "throttle_step limit (RunTimer t) s =
     (case due_timer t (th_queue s) of
        None \<Rightarrow> s
      | Some tm \<Rightarrow> s\<lparr>th_queue := clearTimeout (tm_id tm) (th_queue s), th_inThrottle := False\<rparr>)"

definition throttle_run :: "int \<Rightarrow> 'a host_event list \<Rightarrow> 'a throttle_st" where
  "throttle_run limit evs = fold (throttle_step limit) evs throttle_init"

text \<open>Invocation times at least \<open>d\<close> apart, in order.\<close>

fun spaced :: "int \<Rightarrow> (ms \<times> 'a) list \<Rightarrow> bool" where
  "spaced d (x # y # zs) \<longleftrightarrow> fst x + d \<le> fst y \<and> spaced d (y # zs)"
| "spaced d _ \<longleftrightarrow> True"

definition throttle_inv :: "int \<Rightarrow> ms \<Rightarrow> 'a throttle_st \<Rightarrow> bool" where
  "throttle_inv d now s \<longleftrightarrow>
     spaced d (th_calls s) \<and> list_all (\<lambda>c. fst c \<le> now) (th_calls s) \<and>
     (if th_inThrottle s
      then th_calls s \<noteq> [] \<and> map tm_due (th_queue s) = [fst (last (th_calls s)) + d]
      else th_queue s = [] \<and> (th_calls s = [] \<or> fst (last (th_calls s)) + d \<le> now))"

section \<open>Lemmas\<close>

lemma spaced_snoc:
  "spaced d (xs @ [y]) \<longleftrightarrow> spaced d xs \<and> (xs = [] \<or> fst (last xs) + d \<le> fst y)"
  by (induction d xs rule: spaced.induct) auto

lemma debounce_step_refines:
  assumes "debounce_inv s"
  shows "debounce_inv (debounce_step wait e s) \<and>
         debounce_abs (debounce_step wait e s) = debounce_spec_step wait e (debounce_abs s)"
proof (cases e)
  case (Invoke t a)
  have "(case db_timeoutId s of Some i \<Rightarrow> clearTimeout i (db_queue s) | None \<Rightarrow> db_queue s) = []"
    using assms by (auto simp: debounce_inv_def clearTimeout_def split: list.splits option.split)
  with Invoke show ?thesis
    by (simp add: debounce_inv_def debounce_abs_def setTimeout_def Let_def)
next
  case (RunTimer t)
  with assms show ?thesis
    by (auto simp: debounce_inv_def debounce_abs_def due_timer_def clearTimeout_def split: list.splits)
qed

lemma debounce_fold_refines:
  "debounce_inv s \<Longrightarrow>
   debounce_inv (fold (debounce_step wait) evs s) \<and>
   debounce_abs (fold (debounce_step wait) evs s) = fold (debounce_spec_step wait) evs (debounce_abs s)"
  by (induction evs arbitrary: s) (simp_all add: debounce_step_refines)

lemma debounce_spec_invokes:
  "xs \<noteq> [] \<Longrightarrow>
   fold (debounce_spec_step wait) (map (\<lambda>(t, a). Invoke t a) xs) d =
   d\<lparr>ds_pending := Some (fst (last xs) + max 0 wait, snd (last xs))\<rparr>"
proof (induction xs arbitrary: d)
  case Nil
  then show ?case by simp
next
  case (Cons x xs)
  then show ?case by (cases x; cases xs) auto
qed

lemma throttle_step_inv:
  assumes "throttle_inv (max 0 limit) now s" "now \<le> ev_time e"
  shows "throttle_inv (max 0 limit) (ev_time e) (throttle_step limit e s)"
proof (cases e)
  case (Invoke t a)
  have old: "list_all (\<lambda>c. fst c \<le> t) (th_calls s)"
    using assms Invoke by (auto simp: throttle_inv_def list_all_iff)
  show ?thesis
  proof (cases "th_inThrottle s")
    case True
    with assms old Invoke show ?thesis by (auto simp: throttle_inv_def)
  next
    case False
    with assms old Invoke show ?thesis
      by (auto simp: throttle_inv_def spaced_snoc setTimeout_def)
  qed
next
  case (RunTimer t)
  show ?thesis
  proof (cases "th_inThrottle s")
    case True
    then obtain tm where q: "th_queue s = [tm]" "tm_due tm = fst (last (th_calls s)) + max 0 limit"
      using assms by (auto simp: throttle_inv_def)
    with True assms RunTimer show ?thesis
      by (auto simp: throttle_inv_def due_timer_def clearTimeout_def list_all_iff)
  next
    case False
    with assms RunTimer show ?thesis
      by (auto simp: throttle_inv_def due_timer_def list_all_iff)
  qed
qed

lemma throttle_fold_inv:
  "throttle_inv (max 0 limit) now s \<Longrightarrow> sorted (now # map ev_time evs) \<Longrightarrow>
   throttle_inv (max 0 limit) (last (now # map ev_time evs)) (fold (throttle_step limit) evs s)"
proof (induction evs arbitrary: now s)
  case Nil
  then show ?case by simp
next
  case (Cons e evs)
  have "throttle_inv (max 0 limit) (ev_time e) (throttle_step limit e s)"
    using Cons.prems by (intro throttle_step_inv) auto
  moreover have "sorted (ev_time e # map ev_time evs)" using Cons.prems(2) by simp
  ultimately show ?case using Cons.IH by simp
qed

section \<open>Properties\<close>

text \<open>
  C13: \<open>debounce\<close> implements its promise: whatever the calls and the host's timer
  runs, the timer queue holds at most the timer of the latest call, due \<open>wait\<close> after
  it and carrying its arguments, and \<open>func\<close> runs exactly when the host reaches that due
  time. The stale \<open>timeoutId\<close> the closure keeps after its timer ran is harmless.
\<close>

theorem debounce_refines_spec:
  "debounce_abs (debounce_run wait evs) = fold (debounce_spec_step wait) evs \<lparr>ds_pending = None, ds_calls = []\<rparr>"
proof -
  have "debounce_inv (debounce_init :: 'a debounce_st)" by (simp add: debounce_inv_def debounce_init_def)
  from debounce_fold_refines [OF this] show ?thesis
    by (simp add: debounce_run_def debounce_abs_def debounce_init_def)
qed

text \<open>A burst of calls followed by a timer run at least \<open>wait\<close> after the last one runs
  \<open>func\<close> once, with the last call's arguments.\<close>

lemma debounce_burst:
  assumes "xs \<noteq> []" "fst (last xs) + max 0 wait \<le> T"
  shows "db_calls (debounce_run wait (map (\<lambda>(t, a). Invoke t a) xs @ [RunTimer T])) = [(T, snd (last xs))]"
proof -
  let ?evs = "map (\<lambda>(t, a). Invoke t a) xs @ [RunTimer T]"
  have i: "debounce_inv (debounce_init :: 'a debounce_st)" by (simp add: debounce_inv_def debounce_init_def)
  have a: "debounce_abs (debounce_run wait ?evs) = fold (debounce_spec_step wait) ?evs (debounce_abs debounce_init)"
    unfolding debounce_run_def by (rule debounce_fold_refines [OF i, THEN conjunct2])
  have b: "debounce_abs (debounce_init :: 'a debounce_st) = \<lparr>ds_pending = None, ds_calls = []\<rparr>"
    by (simp add: debounce_abs_def debounce_init_def)
  have d: "ds_calls (fold (debounce_spec_step wait) ?evs \<lparr>ds_pending = None, ds_calls = []\<rparr>) = [(T, snd (last xs))]"
    using assms by (simp add: debounce_spec_invokes)
  have "db_calls (debounce_run wait ?evs) = ds_calls (debounce_abs (debounce_run wait ?evs))"
    by (simp add: debounce_abs_def)
  also have "\<dots> = ds_calls (fold (debounce_spec_step wait) ?evs \<lparr>ds_pending = None, ds_calls = []\<rparr>)"
    using a b by (simp only:)
  finally show ?thesis using d by (simp only:)
qed

text \<open>
  C12: \<open>throttle\<close> runs \<open>func\<close> at most once per \<open>limit\<close> milliseconds: for any
  sequence of calls and timer runs in time order, successive invocations of \<open>func\<close> are at
  least \<open>limit\<close> (or zero, for a negative limit) apart.
\<close>

theorem throttle_spaced:
  "sorted (map ev_time evs) \<Longrightarrow> spaced (max 0 limit) (th_calls (throttle_run limit evs))"
proof (cases evs)
  case Nil
  then show ?thesis by (simp add: throttle_run_def throttle_init_def)
next
  case (Cons e es)
  assume "sorted (map ev_time evs)"
  with Cons have s: "sorted (ev_time e # map ev_time evs)" by simp
  have "throttle_inv (max 0 limit) (ev_time e) throttle_init"
    by (simp add: throttle_inv_def throttle_init_def)
  from throttle_fold_inv [OF this s]
  have "throttle_inv (max 0 limit) (last (ev_time e # map ev_time evs)) (throttle_run limit evs)"
    by (simp add: throttle_run_def)
  then show ?thesis by (simp add: throttle_inv_def)
qed

section \<open>Witnesses\<close>

theorem throttle_spaced_witness:
  "sorted (map ev_time [Invoke 0 (1::nat), Invoke 50 2, RunTimer 100, Invoke 120 3]) \<and>
   th_calls (throttle_run 100 [Invoke 0 (1::nat), Invoke 50 2, RunTimer 100, Invoke 120 3]) = [(0, 1), (120, 3)] \<and>
   spaced (max 0 100) (th_calls (throttle_run 100 [Invoke 0 (1::nat), Invoke 50 2, RunTimer 100, Invoke 120 3]))"
proof -
  have s: "sorted (map ev_time [Invoke 0 (1::nat), Invoke 50 2, RunTimer 100, Invoke 120 3])" by simp
  have "th_calls (throttle_run 100 [Invoke 0 (1::nat), Invoke 50 2, RunTimer 100, Invoke 120 3]) = [(0, 1), (120, 3)]"
    by (simp add: throttle_run_def throttle_init_def setTimeout_def due_timer_def clearTimeout_def)
  with s throttle_spaced [OF s, of 100] show ?thesis by simp
qed
end
