(* ===== verification/Player.thy ===== *)
theory Player
  imports Metrics
begin

text \<open>
  The persisted player profile, \<open>usePlayerStore\<close> of \<open>src/store/gameSlice.ts\<close>: the
  \<open>PlayerData\<close>, \<open>PlayerStats\<close> and \<open>LevelProgress\<close> interfaces of \<open>src/types/index.ts\<close>
  as records, every store action as a function on the profile, and the actions as a
  datatype with a step function. \<open>Record<string, LevelProgress>\<close> is a map from level ids;
  the arrays \<open>unlockedItems\<close> and \<open>achievements\<close> are lists. A \<open>Partial<PlayerStats>\<close>
  argument is a record of options, \<open>None\<close> for an absent key, and \<open>Object.assign\<close>
  overwrites exactly the present keys. The module constant \<open>initialPlayer\<close> is evaluated
  once when the module loads, with a fresh UUID and the clock reading of that moment;
  both are parameters here. The default name (Chinese for "adventurer" in the source) is
  written in ASCII.
\<close>

section \<open>Data\<close>

record player_stats =
  totalWordsTyped :: nat
  totalCharactersTyped :: nat
  totalCorrectChars :: nat
  totalGamesPlayed :: nat
  totalTimePlayed :: int
  averageWPM :: real
  averageAccuracy :: real
  st_maxCombo :: nat
  perfectLevels :: nat

record level_progress =
  lp_levelId :: string
  completed :: bool
  stars :: nat
  bestWPM :: int
  bestAccuracy :: real
  attempts :: nat
  completedAt :: "ms option"

record player_data =
  pl_id :: string
  pl_name :: string
  pl_level :: int
  pl_exp :: int
  pl_coins :: int
  pl_stats :: player_stats
  levelProgress :: "string \<rightharpoonup> level_progress"
  unlockedItems :: "string list"
  achievements :: "string list"
  createdAt :: ms
  lastPlayedAt :: ms

record stats_patch =
  sp_totalWordsTyped :: "nat option"
  sp_totalCharactersTyped :: "nat option"
  sp_totalCorrectChars :: "nat option"
  sp_totalGamesPlayed :: "nat option"
  sp_totalTimePlayed :: "int option"
  sp_averageWPM :: "real option"
  sp_averageAccuracy :: "real option"
  sp_maxCombo :: "nat option"
  sp_perfectLevels :: "nat option"

definition initialPlayer :: "string \<Rightarrow> ms \<Rightarrow> player_data" where
  "initialPlayer uid now =
     \<lparr>pl_id = uid, pl_name = ''adventurer'', pl_level = 1, pl_exp = 0, pl_coins = 0,
      pl_stats = \<lparr>totalWordsTyped = 0, totalCharactersTyped = 0, totalCorrectChars = 0,
                  totalGamesPlayed = 0, totalTimePlayed = 0, averageWPM = 0,
                  averageAccuracy = 100, st_maxCombo = 0, perfectLevels = 0\<rparr>,
      levelProgress = Map.empty, unlockedItems = [], achievements = [],
      createdAt = now, lastPlayedAt = now\<rparr>"

section \<open>Actions\<close>

definition setPlayerName :: "string \<Rightarrow> player_data \<Rightarrow> player_data" where
  "setPlayerName nm p = p\<lparr>pl_name := nm\<rparr>"

definition addExp :: "int \<Rightarrow> player_data \<Rightarrow> player_data" where
  "addExp amount p =
     (let e = pl_exp p + amount;
          newLevel = \<lfloor>real_of_int e / 1000\<rfloor> + 1
      in if newLevel > pl_level p then p\<lparr>pl_exp := e, pl_level := newLevel\<rparr>
         else p\<lparr>pl_exp := e\<rparr>)"

definition addCoins :: "int \<Rightarrow> player_data \<Rightarrow> player_data" where
  "addCoins amount p = p\<lparr>pl_coins := pl_coins p + amount\<rparr>"

definition updateLevelProgress :: "level_progress \<Rightarrow> player_data \<Rightarrow> player_data" where
  "updateLevelProgress pr p =
     (case levelProgress p (lp_levelId pr) of
        None \<Rightarrow> p\<lparr>levelProgress := (levelProgress p)(lp_levelId pr \<mapsto> pr)\<rparr>
      | Some existing \<Rightarrow>
          if stars pr > stars existing
          then p\<lparr>levelProgress := (levelProgress p)(lp_levelId pr \<mapsto> pr)\<rparr> else p)"

definition unlockItem :: "string \<Rightarrow> player_data \<Rightarrow> player_data" where
  "unlockItem itemId p =
     (if itemId \<in> set (unlockedItems p) then p
      else p\<lparr>unlockedItems := unlockedItems p @ [itemId]\<rparr>)"

definition addAchievement :: "string \<Rightarrow> player_data \<Rightarrow> player_data" where
  "addAchievement achievementId p =
     (if achievementId \<in> set (achievements p) then p
      else p\<lparr>achievements := achievements p @ [achievementId]\<rparr>)"

definition updateStats :: "stats_patch \<Rightarrow> player_data \<Rightarrow> player_data" where
  "updateStats sp p =
     (let st = pl_stats p in
      p\<lparr>pl_stats := st\<lparr>
         totalWordsTyped := opt_or (sp_totalWordsTyped sp) (totalWordsTyped st),
         totalCharactersTyped := opt_or (sp_totalCharactersTyped sp) (totalCharactersTyped st),
         totalCorrectChars := opt_or (sp_totalCorrectChars sp) (totalCorrectChars st),
         totalGamesPlayed := opt_or (sp_totalGamesPlayed sp) (totalGamesPlayed st),
         totalTimePlayed := opt_or (sp_totalTimePlayed sp) (totalTimePlayed st),
         averageWPM := opt_or (sp_averageWPM sp) (averageWPM st),
         averageAccuracy := opt_or (sp_averageAccuracy sp) (averageAccuracy st),
         st_maxCombo := opt_or (sp_maxCombo sp) (st_maxCombo st),
         perfectLevels := opt_or (sp_perfectLevels sp) (perfectLevels st)\<rparr>\<rparr>)"

text \<open>\<open>resetPlayer\<close> copies the module constant \<open>initialPlayer\<close> (first argument), keeping the
  current id and creation time.\<close>

definition resetPlayer :: "player_data \<Rightarrow> player_data \<Rightarrow> player_data" where
  "resetPlayer initial p = initial\<lparr>pl_id := pl_id p, createdAt := createdAt p\<rparr>"

datatype player_action =
    SetPlayerName string
  | AddExp int
  | AddCoins int
  | UpdateLevelProgress level_progress
  | UnlockItem string
  | AddAchievement string
  | UpdateStats stats_patch
  | ResetPlayer

fun player_step :: "player_data \<Rightarrow> player_action \<Rightarrow> player_data \<Rightarrow> player_data" where
  "player_step initial (SetPlayerName nm) p = setPlayerName nm p"
| "player_step initial (AddExp a) p = addExp a p"
| "player_step initial (AddCoins a) p = addCoins a p"
| "player_step initial (UpdateLevelProgress pr) p = updateLevelProgress pr p"
| "player_step initial (UnlockItem i) p = unlockItem i p"
| "player_step initial (AddAchievement i) p = addAchievement i p"
| "player_step initial (UpdateStats sp) p = updateStats sp p"
| "player_step initial ResetPlayer p = resetPlayer initial p"

fun player_run :: "player_data \<Rightarrow> player_action list \<Rightarrow> player_data \<Rightarrow> player_data" where
  "player_run initial [] p = p"
| "player_run initial (a # as) p = player_run initial as (player_step initial a p)"

text \<open>The callers only ever grant experience (\<open>addExp(100 * stars)\<close>, \<open>addExp(difficulty * 10)\<close>,
  \<open>addExp(100)\<close>): an action sequence is well-formed when no amount is negative.\<close>

fun grants_only :: "player_action \<Rightarrow> bool" where
  "grants_only (AddExp a) = (0 \<le> a)"
| "grants_only _ = True"

definition player_inv :: "player_data \<Rightarrow> bool" where
  "player_inv p \<longleftrightarrow> pl_level p = getLevelFromExp (pl_exp p) \<and>
     distinct (unlockedItems p) \<and> distinct (achievements p)"

section \<open>Lemmas\<close>

lemmas player_action_defs [store_simps] =
  setPlayerName_def addExp_def addCoins_def updateLevelProgress_def unlockItem_def
  addAchievement_def updateStats_def resetPlayer_def

lemma getLevelFromExp_mono: "e \<le> e' \<Longrightarrow> getLevelFromExp e \<le> getLevelFromExp e'"
  unfolding getLevelFromExp_def by (simp add: floor_mono divide_right_mono)

lemma addExp_fields [simp]:
  "pl_exp (addExp a p) = pl_exp p + a"
  "pl_level (addExp a p) = max (pl_level p) (getLevelFromExp (pl_exp p + a))"
  "unlockedItems (addExp a p) = unlockedItems p" "achievements (addExp a p) = achievements p"
  "levelProgress (addExp a p) = levelProgress p" "pl_stats (addExp a p) = pl_stats p"
  "pl_coins (addExp a p) = pl_coins p"
  by (simp_all add: addExp_def getLevelFromExp_def Let_def)

lemma addExp_inv: "0 \<le> a \<Longrightarrow> player_inv p \<Longrightarrow> player_inv (addExp a p)"
  using getLevelFromExp_mono [of "pl_exp p" "pl_exp p + a"]
  by (simp add: player_inv_def max_def)

lemma player_step_inv:
  assumes "player_inv initial" "grants_only a" "player_inv p"
  shows "player_inv (player_step initial a p)"
proof (cases a)
  case (AddExp x)
  with assms show ?thesis by (simp add: addExp_inv)
qed (use assms in \<open>auto simp: player_inv_def setPlayerName_def addCoins_def updateLevelProgress_def
       unlockItem_def addAchievement_def updateStats_def resetPlayer_def Let_def split: option.splits\<close>)

lemma player_run_inv:
  "player_inv initial \<Longrightarrow> list_all grants_only as \<Longrightarrow> player_inv p \<Longrightarrow>
   player_inv (player_run initial as p)"
  by (induction as arbitrary: p) (simp_all add: player_step_inv)

lemma initialPlayer_inv: "player_inv (initialPlayer uid now)"
  by (simp add: player_inv_def initialPlayer_def getLevelFromExp_def)

definition demo_player :: player_data where
  "demo_player = initialPlayer ''u0'' 0"

definition demo_progress :: level_progress where
  "demo_progress = \<lparr>lp_levelId = ''1-1'', completed = True, stars = 2, bestWPM = 20,
     bestAccuracy = 90, attempts = 1, completedAt = Some 5000\<rparr>"

lemmas player_eval = demo_player_def demo_progress_def initialPlayer_def player_inv_def
  getLevelFromExp_def store_simps Let_def

section \<open>Properties\<close>

text \<open>
  C14: as long as experience is only granted, never taken, every sequence of profile
  actions keeps the player level equal to \<open>getLevelFromExp\<close> of the experience (a new
  level every 1000 points, in step with the utility of \<open>src/utils/index.ts\<close>) and the lists
  of unlocked items and achievements free of duplicates, \<open>resetPlayer\<close> included.
\<close>

theorem player_run_inv_level:
  "player_inv p \<Longrightarrow> list_all grants_only as \<Longrightarrow>
   player_inv (player_run (initialPlayer uid now) as p)"
  by (rule player_run_inv [OF initialPlayer_inv])

text \<open>
  C24: no profile action other than \<open>resetPlayer\<close> forgets a level's progress record or
  lowers its stars.
\<close>

theorem player_step_progress_mono:
  "a \<noteq> ResetPlayer \<Longrightarrow> levelProgress p lid = Some ex \<Longrightarrow>
   \<exists>ex'. levelProgress (player_step initial a p) lid = Some ex' \<and> stars ex \<le> stars ex'"
  by (cases a) (auto simp: store_simps Let_def split: option.splits if_splits)

section \<open>Witnesses\<close>

theorem player_run_inv_level_witness:
  "player_inv demo_player \<and> list_all grants_only [AddExp 1500, UnlockItem ''hat'', UnlockItem ''hat'', ResetPlayer, AddExp 600] \<and>
   player_inv (player_run (initialPlayer ''u0'' 0) [AddExp 1500, UnlockItem ''hat'', UnlockItem ''hat'', ResetPlayer, AddExp 600] demo_player)"
proof -
  have i: "player_inv demo_player" by (simp add: player_eval)
  have g: "list_all grants_only [AddExp 1500, UnlockItem ''hat'', UnlockItem ''hat'', ResetPlayer, AddExp 600]" by simp
  from i g player_run_inv_level [OF i g] show ?thesis by blast
qed

theorem player_step_progress_mono_witness:
  "UpdateLevelProgress (demo_progress\<lparr>stars := 1\<rparr>) \<noteq> ResetPlayer \<and>
   levelProgress (updateLevelProgress demo_progress demo_player) ''1-1'' = Some demo_progress \<and>
   levelProgress (player_step demo_player (UpdateLevelProgress (demo_progress\<lparr>stars := 1\<rparr>))
      (updateLevelProgress demo_progress demo_player)) ''1-1'' = Some demo_progress"
proof -
  have l: "levelProgress (updateLevelProgress demo_progress demo_player) ''1-1'' = Some demo_progress"
    by (simp add: player_eval)
  from player_step_progress_mono [OF _ l, of "UpdateLevelProgress (demo_progress\<lparr>stars := 1\<rparr>)" demo_player]
  have "\<exists>ex'. levelProgress (player_step demo_player (UpdateLevelProgress (demo_progress\<lparr>stars := 1\<rparr>))
      (updateLevelProgress demo_progress demo_player)) ''1-1'' = Some ex' \<and> stars demo_progress \<le> stars ex'"
    by simp
  moreover have "levelProgress (player_step demo_player (UpdateLevelProgress (demo_progress\<lparr>stars := 1\<rparr>))
      (updateLevelProgress demo_progress demo_player)) ''1-1'' = Some demo_progress"
    by (simp add: player_eval)
  ultimately show ?thesis using l by simp
qed

end
