(* ===== verification/Settings.thy ===== *)
theory Settings
  imports Prelude
begin

text \<open>
  The persisted settings, \<open>useSettingsStore\<close> of \<open>src/store/gameSlice.ts\<close>, over the
  \<open>GameSettings\<close>, \<open>AudioSettings\<close> and \<open>LLMConfig\<close> interfaces of \<open>src/types/index.ts\<close>.
  The string unions are datatypes; a \<open>Partial<...>\<close> argument is a record of options
  (\<open>None\<close> for an absent key) and \<open>Object.assign\<close> overwrites the present keys, the
  nested objects as a whole (a shallow copy). Volumes are exact reals.
\<close>

section \<open>Data\<close>

datatype theme = ThemeDark | ThemeLight | ThemeAuto
datatype language = LangZh | LangEn
datatype llm_provider = OpenAI | Claude | Local | Static
datatype settings_difficulty = DiffEasy | DiffNormal | DiffHard

record audio_settings =
  masterVolume :: real
  musicVolume :: real
  sfxVolume :: real
  muted :: bool

record llm_config =
  provider :: llm_provider
  apiKey :: string
  baseUrl :: "string option"
  model :: "string option"

record game_settings =
  theme :: theme
  language :: language
  audio :: audio_settings
  llm :: llm_config
  showKeyboardHints :: bool
  showFingerGuide :: bool
  difficulty :: settings_difficulty

record audio_patch =
  ap_masterVolume :: "real option"
  ap_musicVolume :: "real option"
  ap_sfxVolume :: "real option"
  ap_muted :: "bool option"

record llm_patch =
  lp_provider :: "llm_provider option"
  lp_apiKey :: "string option"
  lp_baseUrl :: "string option"
  lp_model :: "string option"

record settings_patch =
  sp_theme :: "theme option"
  sp_language :: "language option"
  sp_audio :: "audio_settings option"
  sp_llm :: "llm_config option"
  sp_showKeyboardHints :: "bool option"
  sp_showFingerGuide :: "bool option"
  sp_difficulty :: "settings_difficulty option"

definition initialSettings :: game_settings where
  "initialSettings =
     \<lparr>theme = ThemeDark, language = LangZh,
      audio = \<lparr>masterVolume = 8/10, musicVolume = 5/10, sfxVolume = 7/10, muted = False\<rparr>,
      llm = \<lparr>provider = Static, apiKey = [], baseUrl = None, model = None\<rparr>,
      showKeyboardHints = True, showFingerGuide = True, difficulty = DiffNormal\<rparr>"

section \<open>Actions\<close>

definition updateSettings :: "settings_patch \<Rightarrow> game_settings \<Rightarrow> game_settings" where
  "updateSettings sp s =
     s\<lparr>theme := opt_or (sp_theme sp) (theme s),
       language := opt_or (sp_language sp) (language s),
       audio := opt_or (sp_audio sp) (audio s),
       llm := opt_or (sp_llm sp) (llm s),
       showKeyboardHints := opt_or (sp_showKeyboardHints sp) (showKeyboardHints s),
       showFingerGuide := opt_or (sp_showFingerGuide sp) (showFingerGuide s),
       difficulty := opt_or (sp_difficulty sp) (difficulty s)\<rparr>"

definition assign_audio :: "audio_patch \<Rightarrow> audio_settings \<Rightarrow> audio_settings" where
  "assign_audio ap a =
     a\<lparr>masterVolume := opt_or (ap_masterVolume ap) (masterVolume a),
       musicVolume := opt_or (ap_musicVolume ap) (musicVolume a),
       sfxVolume := opt_or (ap_sfxVolume ap) (sfxVolume a),
       muted := opt_or (ap_muted ap) (muted a)\<rparr>"

definition updateAudio :: "audio_patch \<Rightarrow> game_settings \<Rightarrow> game_settings" where
  "updateAudio ap s = s\<lparr>audio := assign_audio ap (audio s)\<rparr>"

definition updateLLM :: "llm_patch \<Rightarrow> game_settings \<Rightarrow> game_settings" where
  "updateLLM lp s =
     s\<lparr>llm := (llm s)\<lparr>provider := opt_or (lp_provider lp) (provider (llm s)),
                       apiKey := opt_or (lp_apiKey lp) (apiKey (llm s)),
                       baseUrl := (case lp_baseUrl lp of Some u \<Rightarrow> Some u | None \<Rightarrow> baseUrl (llm s)),
                       model := (case lp_model lp of Some m \<Rightarrow> Some m | None \<Rightarrow> model (llm s))\<rparr>\<rparr>"

definition resetSettings :: "game_settings \<Rightarrow> game_settings" where
  "resetSettings s = initialSettings"

end
