(* ===== verification/Audio.thy ===== *)
theory Audio
  imports Settings
begin

text \<open>
  The sound service of \<open>src/services/audio/AudioService.ts\<close>. The service object is a
  record: its map from sound types to loaded \<open>Howl\<close>s (each represented by its volume),
  its settings and its own mute flag. The global \<open>Howler\<close> object it drives is part of the
  state too (its master volume and mute flag), and so is the set of sounds currently
  playing, the only effect of \<open>play\<close> and \<open>stop\<close> the model observes. Decoding and
  playback themselves are not modelled. The module's singleton (\<open>getAudioService\<close>,
  \<open>destroyAudioService\<close>) is an option of the service.
\<close>

section \<open>Data\<close>

datatype sound_type =
    Keypress | Correct | Wrong | Combo | ComboBreak | LevelComplete | GameOverSound
  | VictorySound | ButtonClick | Notification

record audio_service =
  sounds :: "sound_type \<rightharpoonup> real"
  as_settings :: audio_settings
  as_muted :: bool
  howler_volume :: real
  howler_muted :: bool
  playing :: "sound_type set"

text \<open>The sound configurations of \<open>initSounds\<close>, in the order \<open>Object.entries\<close> lists them
  (\<open>comboBreak\<close> and \<open>notification\<close> have none).\<close>

definition soundConfigs :: "(sound_type \<times> real) list" where
  "soundConfigs =
     [(Keypress, 1/10), (Correct, 3/10), (Wrong, 3/10), (Combo, 5/10), (LevelComplete, 6/10),
      (VictorySound, 7/10), (GameOverSound, 5/10), (ButtonClick, 2/10)]"

definition initSounds :: "audio_settings \<Rightarrow> sound_type \<rightharpoonup> real" where
  "initSounds st =
     fold (\<lambda>(t, v) m. m(t \<mapsto> v * sfxVolume st * masterVolume st)) soundConfigs Map.empty"

text \<open>The constructor; the global \<open>Howler\<close> state it finds is a parameter.\<close>

definition newAudioService :: "audio_settings \<Rightarrow> real \<Rightarrow> bool \<Rightarrow> audio_service" where
  "newAudioService st hv hm =
     \<lparr>sounds = initSounds st, as_settings = st, as_muted = False,
      howler_volume = hv, howler_muted = hm, playing = {}\<rparr>"

section \<open>Operations\<close>

definition applyVolume :: "audio_service \<Rightarrow> audio_service" where
  "applyVolume svc =
     (let st = as_settings svc in
      svc\<lparr>howler_volume := (if muted st \<or> as_muted svc then 0 else masterVolume st),
          sounds := (\<lambda>t. map_option
             (\<lambda>_. (if t = Keypress then 1/10 else if t = ButtonClick then 2/10 else 5/10)
                  * sfxVolume st * masterVolume st) (sounds svc t))\<rparr>)"

definition audio_updateSettings :: "audio_patch \<Rightarrow> audio_service \<Rightarrow> audio_service" where
  "audio_updateSettings ap svc = applyVolume (svc\<lparr>as_settings := assign_audio ap (as_settings svc)\<rparr>)"

definition mute :: "audio_service \<Rightarrow> audio_service" where
  "mute svc = svc\<lparr>as_muted := True, howler_muted := True\<rparr>"

definition unmute :: "audio_service \<Rightarrow> audio_service" where
  "unmute svc =
     (let svc1 = svc\<lparr>as_muted := False\<rparr> in
      if \<not> muted (as_settings svc) then svc1\<lparr>howler_muted := False\<rparr> else svc1)"

definition toggleMute :: "audio_service \<Rightarrow> audio_service \<times> bool" where
  "toggleMute svc = (let svc' = (if as_muted svc then unmute svc else mute svc) in (svc', as_muted svc'))"

definition play :: "sound_type \<Rightarrow> audio_service \<Rightarrow> audio_service" where
  "play t svc =
     (if muted (as_settings svc) \<or> as_muted svc then svc
      else if sounds svc t \<noteq> None then svc\<lparr>playing := insert t (playing svc)\<rparr> else svc)"

definition stop :: "sound_type \<Rightarrow> audio_service \<Rightarrow> audio_service" where
  "stop t svc = (if sounds svc t \<noteq> None then svc\<lparr>playing := playing svc - {t}\<rparr> else svc)"

definition stopAll :: "audio_service \<Rightarrow> audio_service" where
  "stopAll svc = svc\<lparr>playing := playing svc \<inter> {t. sounds svc t = None}\<rparr>"

definition destroy :: "audio_service \<Rightarrow> audio_service" where
  "destroy svc = svc\<lparr>sounds := Map.empty, playing := playing svc \<inter> {t. sounds svc t = None}\<rparr>"

text \<open>The module singleton. \<open>getAudioService\<close> builds the service on first use (with the
  given settings or the defaults), and otherwise applies the given settings, if any, as an
  update; \<open>Howler\<close>'s state before the first construction is a parameter.\<close>

definition defaultAudioSettings :: audio_settings where
  "defaultAudioSettings = \<lparr>masterVolume = 8/10, musicVolume = 5/10, sfxVolume = 7/10, muted = False\<rparr>"

definition full_patch :: "audio_settings \<Rightarrow> audio_patch" where
  "full_patch st = \<lparr>ap_masterVolume = Some (masterVolume st), ap_musicVolume = Some (musicVolume st),
                    ap_sfxVolume = Some (sfxVolume st), ap_muted = Some (muted st)\<rparr>"

definition getAudioService ::
  "real \<Rightarrow> bool \<Rightarrow> audio_settings option \<Rightarrow> audio_service option \<Rightarrow> audio_service" where
  "getAudioService hv hm settings defaultService =
     (case defaultService of
        None \<Rightarrow> newAudioService (opt_or settings defaultAudioSettings) hv hm
      | Some svc \<Rightarrow> (case settings of Some st \<Rightarrow> audio_updateSettings (full_patch st) svc | None \<Rightarrow> svc))"

definition destroyAudioService :: "audio_service option \<Rightarrow> audio_service option" where
  "destroyAudioService defaultService = None"

datatype audio_op = UpdateAudio audio_patch | Mute | Unmute | ToggleMute | Play sound_type
  | Stop sound_type | StopAll

fun audio_step :: "audio_op \<Rightarrow> audio_service \<Rightarrow> audio_service" where
  "audio_step (UpdateAudio ap) svc = audio_updateSettings ap svc"
| "audio_step Mute svc = mute svc"
| "audio_step Unmute svc = unmute svc"
| "audio_step ToggleMute svc = fst (toggleMute svc)"
| "audio_step (Play t) svc = play t svc"
| "audio_step (Stop t) svc = stop t svc"
| "audio_step StopAll svc = stopAll svc"

definition audio_run :: "audio_op list \<Rightarrow> audio_service \<Rightarrow> audio_service" where
  "audio_run ops svc = fold audio_step ops svc"

definition no_audio_patch :: audio_patch where
  "no_audio_patch = \<lparr>ap_masterVolume = None, ap_musicVolume = None, ap_sfxVolume = None, ap_muted = None\<rparr>"

definition audio_mute_inv :: "audio_service \<Rightarrow> bool" where
  "audio_mute_inv svc \<longleftrightarrow> (as_muted svc \<longrightarrow> howler_muted svc)"

section \<open>Lemmas\<close>

lemma initSounds_eq:
  "initSounds st t =
     (if t = ComboBreak \<or> t = Notification then None
      else Some ((if t = Keypress then 1/10 else if t = ButtonClick then 2/10
                  else if t = Correct \<or> t = Wrong then 3/10 else if t = LevelComplete then 6/10
                  else if t = VictorySound then 7/10 else 5/10) * sfxVolume st * masterVolume st))"
  by (cases t) (simp_all add: initSounds_def soundConfigs_def)

lemma audio_updateSettings_sounds:
  "sounds (audio_updateSettings ap svc) t =
     map_option (\<lambda>_. (if t = Keypress then 1/10 else if t = ButtonClick then 2/10 else 5/10) *
        sfxVolume (assign_audio ap (as_settings svc)) * masterVolume (assign_audio ap (as_settings svc)))
      (sounds svc t)"
  by (simp add: audio_updateSettings_def applyVolume_def Let_def)

lemma assign_audio_none [simp]: "assign_audio no_audio_patch a = a"
  by (simp add: assign_audio_def no_audio_patch_def)

lemma audio_step_mute_inv: "audio_mute_inv svc \<Longrightarrow> audio_mute_inv (audio_step op svc)"
  by (cases op)
     (auto simp: audio_mute_inv_def audio_updateSettings_def applyVolume_def mute_def unmute_def
        toggleMute_def play_def stop_def stopAll_def Let_def)

lemma audio_run_mute_inv: "audio_mute_inv svc \<Longrightarrow> audio_mute_inv (audio_run ops svc)"
  unfolding audio_run_def by (induction ops arbitrary: svc) (simp_all add: audio_step_mute_inv)

text \<open>Only an un-mute lifts \<open>Howler\<close>'s mute, and no operation other than a mute or an
  un-mute touches the service's own flag.\<close>

lemma audio_step_howler_muted:
  "howler_muted svc \<Longrightarrow> op \<noteq> Unmute \<Longrightarrow> op \<noteq> ToggleMute \<Longrightarrow>
   howler_muted (audio_step op svc) \<and> (op \<noteq> Mute \<longrightarrow> as_muted (audio_step op svc) = as_muted svc)"
  by (cases op)
     (auto simp: audio_updateSettings_def applyVolume_def mute_def play_def stop_def stopAll_def Let_def)

lemma audio_run_howler_muted:
  "howler_muted svc \<Longrightarrow> list_all (\<lambda>op. op \<noteq> Unmute \<and> op \<noteq> ToggleMute \<and> op \<noteq> Mute) ops \<Longrightarrow>
   howler_muted (audio_run ops svc) \<and> as_muted (audio_run ops svc) = as_muted svc"
  unfolding audio_run_def
  by (induction ops arbitrary: svc) (simp_all add: audio_step_howler_muted)

definition muted_settings_service :: audio_service where
  "muted_settings_service = newAudioService (defaultAudioSettings\<lparr>muted := True\<rparr>) 1 False"

lemmas audio_eval = muted_settings_service_def newAudioService_def defaultAudioSettings_def
  audio_run_def mute_def unmute_def audio_updateSettings_def applyVolume_def play_def
  assign_audio_def no_audio_patch_def initSounds_eq Let_def audio_mute_inv_def

section \<open>Properties\<close>

text \<open>
  C28: \<open>applyVolume\<close> uses other base volumes than \<open>initSounds\<close>: an update that changes no
  setting at all still changes the volume of the correct, wrong, level-complete and victory
  sounds (from 0.3, 0.3, 0.6 and 0.7 to 0.5 times the effect and master volumes), and of
  no other sound, unless that product is zero.
\<close>

theorem audio_update_volume_drift:
  "sounds (audio_updateSettings no_audio_patch (newAudioService st hv hm)) t =
     sounds (newAudioService st hv hm) t \<longleftrightarrow>
   t \<notin> {Correct, Wrong, LevelComplete, VictorySound} \<or> sfxVolume st * masterVolume st = 0"
  by (cases t) (auto simp: audio_updateSettings_sounds initSounds_eq newAudioService_def)

text \<open>
  Whatever sequence of operations the service receives, while its own mute flag is
  set the global \<open>Howler\<close> mute is set too.
\<close>

theorem audio_run_mute:
  "audio_mute_inv svc \<Longrightarrow> audio_mute_inv (audio_run ops svc)"
  by (rule audio_run_mute_inv)

text \<open>
  C32: with the settings muted, \<open>mute()\<close> then \<open>unmute()\<close> leaves \<open>Howler\<close> muted (unmute
  only lifts it when the settings are not muted), and no later sequence of settings
  updates, plays and stops lifts it (\<open>applyVolume\<close> sets the volume, not the mute flag),
  although the service's own flag is clear: once the settings are un-muted the service
  starts every loaded sound it is asked to play while everything stays silent.
\<close>

theorem audio_stuck_muted:
  "muted (as_settings svc) \<Longrightarrow>
   list_all (\<lambda>op. op \<noteq> Unmute \<and> op \<noteq> ToggleMute \<and> op \<noteq> Mute) ops \<Longrightarrow>
   (let svc' = audio_run (Mute # Unmute # ops) svc
    in howler_muted svc' \<and> \<not> as_muted svc' \<and>
       (\<not> muted (as_settings svc') \<longrightarrow> sounds svc' t \<noteq> None \<longrightarrow> t \<in> playing (play t svc')))"
proof -
  assume m: "muted (as_settings svc)" and ops: "list_all (\<lambda>op. op \<noteq> Unmute \<and> op \<noteq> ToggleMute \<and> op \<noteq> Mute) ops"
  let ?s2 = "unmute (mute svc)"
  from m have s2: "howler_muted ?s2" "\<not> as_muted ?s2" by (simp_all add: mute_def unmute_def Let_def)
  have run: "audio_run (Mute # Unmute # ops) svc = audio_run ops ?s2" by (simp add: audio_run_def)
  from audio_run_howler_muted [OF s2(1) ops] s2(2) run show ?thesis
    by (simp add: Let_def play_def)
qed

section \<open>Witnesses\<close>

theorem audio_run_mute_witness:
  "audio_mute_inv muted_settings_service \<and>
   audio_mute_inv (audio_run [Mute, Unmute, Play Correct] muted_settings_service)"
proof -
  have i: "audio_mute_inv muted_settings_service" by (simp add: audio_eval)
  from i audio_run_mute [OF i] show ?thesis by blast
qed

theorem audio_update_volume_drift_witness:
  "sounds (audio_updateSettings no_audio_patch (newAudioService defaultAudioSettings 1 False)) Correct \<noteq>
   sounds (newAudioService defaultAudioSettings 1 False) Correct"
  using audio_update_volume_drift [of defaultAudioSettings 1 False Correct]
  by (simp add: defaultAudioSettings_def)

theorem audio_stuck_muted_witness:
  "muted (as_settings muted_settings_service) \<and>
   (let svc' = audio_run [Mute, Unmute, UpdateAudio (no_audio_patch\<lparr>ap_muted := Some False\<rparr>)] muted_settings_service
    in howler_muted svc' \<and> \<not> as_muted svc' \<and> \<not> muted (as_settings svc') \<and> Correct \<in> playing (play Correct svc'))"
proof -
  have m: "muted (as_settings muted_settings_service)" by (simp add: audio_eval)
  have o: "list_all (\<lambda>op. op \<noteq> Unmute \<and> op \<noteq> ToggleMute \<and> op \<noteq> Mute)
             [UpdateAudio (no_audio_patch\<lparr>ap_muted := Some False\<rparr>)]" by simp
  have u: "\<not> muted (as_settings (audio_run [Mute, Unmute, UpdateAudio (no_audio_patch\<lparr>ap_muted := Some False\<rparr>)] muted_settings_service))"
    and l: "sounds (audio_run [Mute, Unmute, UpdateAudio (no_audio_patch\<lparr>ap_muted := Some False\<rparr>)] muted_settings_service) Correct \<noteq> None"
    by (simp_all add: audio_eval)
  from audio_stuck_muted [OF m o, where t = Correct] m u l show ?thesis by (simp add: Let_def)
qed

end
