(* ===== verification/Storage.thy ===== *)
theory Storage
  imports Prelude "HOL-Library.Char_ord" "HOL-Library.List_Lexorder"
begin

text \<open>
  The key-value persistence of \<open>src/services/storage/StorageService.ts\<close> over
  \<open>idb-keyval\<close>. The IndexedDB object store is a finite map from string keys to stored
  values; a stored value is a JavaScript value, \<open>null\<close>, \<open>undefined\<close> or an object, and a
  missing key reads as \<open>undefined\<close>. \<open>keys()\<close> lists the keys in IndexedDB's key order, the
  lexicographic order of the strings. Every \<open>idb-keyval\<close> call may fail; whether it
  succeeds is the boolean parameter \<open>ok\<close> of each operation, and a failing call leaves the
  store unchanged (a \<open>clear\<close> that fails half-way through its deletions is not modelled).
  Each operation returns its result and the new store.
\<close>

section \<open>Data\<close>

datatype 'v js_value = JNull | JUndefined | JVal 'v

type_synonym 'v idb = "string \<rightharpoonup> 'v js_value"

definition storage_prefix :: string where
  "storage_prefix = ''typing-adventure-''"

definition getKey :: "string \<Rightarrow> string \<Rightarrow> string" where
  "getKey pfx key = pfx @ key"

definition idb_keys :: "'v idb \<Rightarrow> string list" where
  "idb_keys db = sorted_list_of_set (dom db)"

section \<open>Operations\<close>

definition storage_get :: "bool \<Rightarrow> string \<Rightarrow> string \<Rightarrow> 'v idb \<Rightarrow> 'v js_value" where
  "storage_get ok pfx key db =
     (if ok then (case db (getKey pfx key) of Some v \<Rightarrow> v | None \<Rightarrow> JUndefined) else JNull)"

definition storage_set :: "bool \<Rightarrow> string \<Rightarrow> string \<Rightarrow> 'v js_value \<Rightarrow> 'v idb \<Rightarrow> bool \<times> 'v idb" where
  "storage_set ok pfx key v db =
     (if ok then (True, db(getKey pfx key \<mapsto> v)) else (False, db))"

definition storage_delete :: "bool \<Rightarrow> string \<Rightarrow> string \<Rightarrow> 'v idb \<Rightarrow> bool \<times> 'v idb" where
  "storage_delete ok pfx key db =
     (if ok then (True, db(getKey pfx key := None)) else (False, db))"

definition storage_clear :: "bool \<Rightarrow> string \<Rightarrow> 'v idb \<Rightarrow> bool \<times> 'v idb" where
  "storage_clear ok pfx db =
     (if ok then (True, fold (\<lambda>k d. if prefix pfx k then d(k := None) else d) (idb_keys db) db)
      else (False, db))"

definition storage_getAllKeys :: "bool \<Rightarrow> string \<Rightarrow> 'v idb \<Rightarrow> string list" where
  "storage_getAllKeys ok pfx db =
     (if ok then map (drop (length pfx)) (filter (prefix pfx) (idb_keys db)) else [])"

definition storage_has :: "bool \<Rightarrow> string \<Rightarrow> string \<Rightarrow> 'v idb \<Rightarrow> bool" where
  "storage_has ok pfx key db =
     (let value = storage_get ok pfx key db in value \<noteq> JNull \<and> value \<noteq> JUndefined)"

section \<open>Lemmas\<close>

lemma idb_keys_set: "finite (dom db) \<Longrightarrow> set (idb_keys db) = dom db"
  by (simp add: idb_keys_def)

lemma clear_fold_eq:
  "fold (\<lambda>k d. if prefix pfx k then d(k := None) else d) ks db =
   (\<lambda>k. if k \<in> set ks \<and> prefix pfx k then None else db k)"
  by (induction ks arbitrary: db) (auto simp: fun_eq_iff)

lemma storage_clear_eq:
  assumes "finite (dom db)"
  shows "snd (storage_clear True pfx db) = (\<lambda>k. if prefix pfx k then None else db k)"
proof
  fix k
  show "snd (storage_clear True pfx db) k = (if prefix pfx k then None else db k)"
    using idb_keys_set [OF assms] by (auto simp: storage_clear_def clear_fold_eq)
qed

lemma storage_getAllKeys_set:
  assumes "finite (dom db)"
  shows "set (storage_getAllKeys True pfx db) = {k. db (getKey pfx k) \<noteq> None}"
proof -
  have "set (storage_getAllKeys True pfx db) = drop (length pfx) ` {k \<in> dom db. prefix pfx k}"
    using idb_keys_set [OF assms] by (auto simp: storage_getAllKeys_def)
  also have "\<dots> = {k. db (pfx @ k) \<noteq> None}"
  proof (intro equalityI subsetI)
    fix x assume "x \<in> {k. db (pfx @ k) \<noteq> None}"
    then have "pfx @ x \<in> {k \<in> dom db. prefix pfx k}" by auto
    then show "x \<in> drop (length pfx) ` {k \<in> dom db. prefix pfx k}"
      by (rule rev_image_eqI) simp
  qed (auto simp: prefix_def)
  finally show ?thesis by (simp add: getKey_def)
qed

lemma finite_dom_set [simp]:
  "finite (dom (snd (storage_set ok pfx k v db))) = finite (dom db)"
  by (simp add: storage_set_def)

definition demo_db :: "nat idb" where
  "demo_db = [''typing-adventure-player'' \<mapsto> JVal 1, ''other-app'' \<mapsto> JNull]"

section \<open>Properties\<close>

text \<open>
  C27: Reading a key back after writing it gives the value written, and leaves every other
  key as it read before.
\<close>

theorem storage_get_set:
  "storage_get True pfx k' (snd (storage_set True pfx k v db)) =
   (if k' = k then v else storage_get True pfx k' db)"
  by (simp add: storage_get_def storage_set_def getKey_def)

text \<open>
  Listing the keys after a successful write adds exactly the key written (with the
  service prefix stripped) to the keys listed before.
\<close>

theorem storage_getAllKeys_set_insert:
  "finite (dom db) \<Longrightarrow>
   set (storage_getAllKeys True pfx (snd (storage_set True pfx k v db))) =
   insert k (set (storage_getAllKeys True pfx db))"
  by (simp add: storage_getAllKeys_set) (auto simp: storage_set_def getKey_def)

text \<open>
  A successful \<open>clear\<close> removes every key of the service (nothing is listed after it)
  and no key of any other prefix.
\<close>

theorem storage_clear_spec:
  "finite (dom db) \<Longrightarrow>
   storage_getAllKeys True pfx (snd (storage_clear True pfx db)) = [] \<and>
   (\<forall>k. \<not> prefix pfx k \<longrightarrow> snd (storage_clear True pfx db) k = db k)"
proof -
  assume f: "finite (dom db)"
  have f': "finite (dom (snd (storage_clear True pfx db)))"
    using f by (simp add: storage_clear_eq) (rule finite_subset [OF _ f], auto split: if_splits)
  have "set (storage_getAllKeys True pfx (snd (storage_clear True pfx db))) = {}"
    by (simp only: storage_getAllKeys_set [OF f']) (simp add: storage_clear_eq [OF f] getKey_def)
  then have l: "storage_getAllKeys True pfx (snd (storage_clear True pfx db)) = []" by simp
  have r: "\<forall>k. \<not> prefix pfx k \<longrightarrow> snd (storage_clear True pfx db) k = db k"
    by (simp add: storage_clear_eq [OF f])
  from l r show ?thesis by blast
qed

section \<open>Witnesses\<close>

theorem storage_getAllKeys_set_insert_witness:
  "finite (dom demo_db) \<and>
   set (storage_getAllKeys True storage_prefix (snd (storage_set True storage_prefix ''coins'' (JVal 5) demo_db))) =
   insert ''coins'' (set (storage_getAllKeys True storage_prefix demo_db))"
proof -
  have f: "finite (dom demo_db)" by (simp add: demo_db_def)
  from f storage_getAllKeys_set_insert [OF f] show ?thesis by blast
qed

theorem storage_clear_spec_witness:
  "finite (dom demo_db) \<and>
   storage_getAllKeys True storage_prefix (snd (storage_clear True storage_prefix demo_db)) = [] \<and>
   snd (storage_clear True storage_prefix demo_db) ''other-app'' = demo_db ''other-app''"
proof -
  have f: "finite (dom demo_db)" by (simp add: demo_db_def)
  have n: "\<not> prefix storage_prefix ''other-app''" by (simp add: storage_prefix_def)
  from f n storage_clear_spec [OF f] show ?thesis by blast
qed

end
