(* ===== verification/LLM.thy ===== *)
theory LLM
  imports Settings "HOL-Library.Multiset"
begin

text \<open>
  The word and sentence providers of \<open>src/services/llm/\<close>: the result cache of
  \<open>BaseLLMProvider\<close> (\<open>types.ts\<close>), the \<open>StaticDataProvider\<close>, the parsing of
  \<open>OpenAIProvider\<close> and the \<open>LLMService\<close> facade with its fallback.

  A provider's cache is one \<open>Map<string, CacheEntry>\<close> holding JSON text; the words and
  the texts stored in it live under keys with different literal prefixes
  (\<open>static-words-\<close>, \<open>static-sentence-\<close>, \<open>openai-words-\<close>, ...), so the model splits it
  into a map of word lists and a map of strings. \<open>JSON.stringify\<close> followed by
  \<open>JSON.parse\<close> returns an equal array of strings or an equal string, so entries hold the
  values themselves. \<open>Math.random()\<close> draws are a function from the draw's position to
  \<^typ>\<open>real\<close>, and \<open>Date.now()\<close> is the parameter \<open>now\<close>.
\<close>

section \<open>Configuration and cache\<close>

record llm_service_config =
  cfg_provider :: llm_provider
  cfg_apiKey :: "string option"
  cfg_baseUrl :: "string option"
  cfg_model :: "string option"
  cfg_cacheEnabled :: "bool option"
  cfg_timeout :: "int option"

record 'r cache_entry =
  ce_result :: 'r
  ce_timestamp :: ms
  ce_ttl :: int

type_synonym 'r cache = "string \<rightharpoonup> 'r cache_entry"

definition getCached :: "ms \<Rightarrow> string \<Rightarrow> 'r cache \<Rightarrow> 'r option \<times> 'r cache" where
  "getCached now key c =
     (case c key of
        Some entry \<Rightarrow>
          if now - ce_timestamp entry < ce_ttl entry then (Some (ce_result entry), c)
          else (None, c(key := None))
      | None \<Rightarrow> (None, c(key := None)))"

definition setCache :: "llm_service_config \<Rightarrow> ms \<Rightarrow> string \<Rightarrow> 'r \<Rightarrow> int \<Rightarrow> 'r cache \<Rightarrow> 'r cache" where
  "setCache cfg now key result ttl c =
     (if cfg_cacheEnabled cfg \<noteq> Some False
      then c(key \<mapsto> \<lparr>ce_result = result, ce_timestamp = now, ce_ttl = ttl\<rparr>) else c)"

section \<open>Static data provider\<close>

record static_provider =
  sp_config :: llm_service_config
  sp_words :: "string list cache"
  sp_texts :: "string cache"

definition new_static :: "llm_service_config \<Rightarrow> static_provider" where
  "new_static cfg = \<lparr>sp_config = cfg, sp_words = Map.empty, sp_texts = Map.empty\<rparr>"

definition wordSets :: "string \<Rightarrow> string list" where
  "wordSets k =
     (if k = ''asdf'' then [''as'', ''df'', ''asd'', ''fgh'', ''sad'', ''fad'', ''dad'', ''had'', ''ask'', ''gas'']
      else if k = ''jkl'' then [''jk'', ''kl'', ''jkl'', ''llk'', ''kjl'', ''ljk'', ''hjk'', ''jlk'', ''klj'', ''lkj'']
      else if k = ''home'' then [''ask'', ''dad'', ''fad'', ''had'', ''lad'', ''sad'', ''all'', ''fall'', ''gall'',
        ''halal'', ''lass'', ''pass'', ''mass'', ''jazz'', ''kick'', ''lick'', ''sick'', ''tick'', ''walk'', ''talk'']
      else if k = ''top'' then [''wet'', ''per'', ''try'', ''you'', ''our'', ''pot'', ''top'', ''pop'', ''wow'', ''row'',
        ''tow'', ''qop'', ''wee'', ''pee'', ''tee'', ''tree'', ''free'', ''grew'', ''new'', ''few'']
      else if k = ''bottom'' then [''zinc'', ''vim'', ''zen'', ''cave'', ''maze'', ''buzz'', ''jazz'', ''zoom'', ''zone'',
        ''zero'', ''cruz'', ''fuzz'', ''haze'', ''lazy'', ''size'', ''prize'', ''glide'', ''blade'', ''crane'', ''drake'']
      else if k = ''all'' then [''the'', ''and'', ''for'', ''are'', ''but'', ''not'', ''you'', ''all'', ''can'', ''her'',
        ''was'', ''one'', ''our'', ''out'', ''day'', ''get'', ''has'', ''him'', ''his'', ''how'', ''its'', ''may'', ''new'',
        ''now'', ''old'', ''see'', ''way'', ''who'', ''boy'', ''did'', ''car'', ''let'', ''put'', ''say'', ''she'', ''too'',
        ''use'', ''cat'', ''dog'', ''run'', ''jump'', ''play'', ''game'', ''word'', ''type'', ''fast'', ''slow'', ''home'', ''work'']
      else if k = ''numbers'' then [''123'', ''456'', ''789'', ''012'', ''345'', ''678'', ''901'', ''135'', ''246'', ''357'',
        ''468'', ''579'', ''680'', ''791'', ''802'', ''913'', ''024'']
      else if k = ''symbols'' then [''!@#'', ''$%^'', ''&*()'', ''123!'', ''abc@'', ''test#'', ''hello!'', ''world@'']
      else [])"

definition sentences :: "string \<Rightarrow> string list option" where
  "sentences d =
     (if d = ''easy'' then Some [''asdf jkl;'', ''asd fgh jkl'', ''the quick brown'', ''jump over the'',
        ''hello world'', ''a sad dad'', ''all fall down'', ''ask for help'', ''had a fall'', ''let us go'']
      else if d = ''medium'' then Some [''the quick brown fox'', ''jumps over the lazy dog'', ''pack my box with five'',
        ''dozen liquor jugs'', ''how vexingly quick'', ''daft zebras jump'', ''the five boxing wizards'',
        ''jump quickly now'', ''sphinx of black quartz'', ''judge my vow'']
      else if d = ''hard'' then Some [''the quick brown fox jumps over the lazy dog'',
        ''pack my box with five dozen liquor jugs'', ''how vexingly quick daft zebras jump'',
        ''the five boxing wizards jump quickly'', ''sphinx of black quartz judge my vow'',
        ''two driven jocks help fax my big quiz'', ''the jay pig fox zebra and my wolves'',
        ''quickly go and help them now'']
      else None)"

text \<open>The choice of the word set from the lower-cased concatenated keys, branch by branch.\<close>

definition select_wordSet :: "string \<Rightarrow> string list" where
  "select_wordSet keyStr =
     (let has = (\<lambda>c. c \<in> set keyStr) in
      if has CHR ''a'' \<and> has CHR ''s'' \<and> has CHR ''d'' \<and> has CHR ''f'' then
        (if has CHR ''j'' \<and> has CHR ''k'' \<and> has CHR ''l'' then wordSets ''home'' else wordSets ''asdf'')
      else if has CHR ''j'' \<and> has CHR ''k'' \<and> has CHR ''l'' then wordSets ''jkl''
      else if (\<exists>c \<in> set ''qwertyuiop''. has c) then wordSets ''top''
      else if (\<exists>c \<in> set ''zxcvbnm''. has c) then wordSets ''bottom''
      else if (\<exists>c \<in> set ''0123456789''. has c) then wordSets ''numbers''
      else if (\<exists>c \<in> set ''!@#$%^&*()''. has c) then wordSets ''symbols''
      else wordSets ''all'')"

definition difficulty_filter :: "string \<Rightarrow> string list \<Rightarrow> string list" where
  "difficulty_filter dif wordSet =
     (if dif = ''easy'' then filter (\<lambda>w. length w \<le> 4) wordSet
      else if dif = ''hard'' then filter (\<lambda>w. length w \<ge> 4) wordSet
      else wordSet)"

definition remove_nth :: "nat \<Rightarrow> 'a list \<Rightarrow> 'a list" where
  "remove_nth i xs = take i xs @ drop (Suc i) xs"

text \<open>The selection loop: draw \<open>i\<close> picks an index into what is still available, which is
  pushed and spliced out; the loop stops after \<open>count\<close> words or when nothing is left.\<close>

fun pick_words :: "(nat \<Rightarrow> real) \<Rightarrow> nat \<Rightarrow> nat \<Rightarrow> string list \<Rightarrow> string list" where
  "pick_words rnd i 0 available = []"
| "pick_words rnd i (Suc c) [] = []"
| "pick_words rnd i (Suc c) (a # as) =
     (let available = a # as; index = nat \<lfloor>rnd i * real (length available)\<rfloor>
      in available ! index # pick_words rnd (Suc i) c (remove_nth index available))"

definition static_generateWords ::
  "(nat \<Rightarrow> real) \<Rightarrow> ms \<Rightarrow> string list \<Rightarrow> nat \<Rightarrow> string \<Rightarrow> static_provider \<Rightarrow>
   string list \<times> static_provider" where
  "static_generateWords rnd now keys cnt dif sp =
     (let cacheKey = ''static-words-'' @ concat keys @ ''-'' @ nat_str cnt @ ''-'' @ dif;
          (cached, c1) = getCached now cacheKey (sp_words sp)
      in case cached of
           Some ws \<Rightarrow> (ws, sp\<lparr>sp_words := c1\<rparr>)
         | None \<Rightarrow>
             let keyStr = map to_lower (concat keys);
                 filtered = difficulty_filter dif (select_wordSet keyStr);
                 result = pick_words rnd 0 cnt filtered
             in (result, sp\<lparr>sp_words := setCache (sp_config sp) now cacheKey result 60000 c1\<rparr>))"

definition pick_sentence :: "real \<Rightarrow> string \<Rightarrow> string" where
  "pick_sentence r dif =
     (let ss = opt_or (sentences dif) (the (sentences ''medium''))
      in ss ! nat \<lfloor>r * real (length ss)\<rfloor>)"

text \<open>A cached sentence is used only when it is truthy, that is not empty.\<close>

definition static_generateSentence ::
  "real \<Rightarrow> ms \<Rightarrow> string \<Rightarrow> static_provider \<Rightarrow> string \<times> static_provider" where
  "static_generateSentence r now dif sp =
     (let cacheKey = ''static-sentence-'' @ dif;
          (cached, c1) = getCached now cacheKey (sp_texts sp)
      in if (case cached of Some s \<Rightarrow> s \<noteq> [] | None \<Rightarrow> False) then (the cached, sp\<lparr>sp_texts := c1\<rparr>)
         else let result = pick_sentence r dif
              in (result, sp\<lparr>sp_texts := setCache (sp_config sp) now cacheKey result 60000 c1\<rparr>))"

definition static_generateText :: "string \<Rightarrow> string" where
  "static_generateText prompt = ''This is a static response for typing practice.''"

section \<open>Prompts\<close>

definition nl :: string where "nl = [CHR 0x0A]"

definition quot :: string where "quot = [CHR 0x22]"

definition prompt_generateWords :: "string list \<Rightarrow> nat \<Rightarrow> string \<Rightarrow> string" where
  "prompt_generateWords keys cnt dif =
     ''Generate '' @ nat_str cnt @ '' simple typing practice words using only these letters: '' @
     js_join '', '' keys @ ''.'' @ nl @
     ''    Difficulty level: '' @ dif @ ''.'' @ nl @
     ''    Return only a JSON array of strings, no explanation.'' @ nl @
     ''    Example: ['' @ quot @ ''word1'' @ quot @ '', '' @ quot @ ''word2'' @ quot @ '', '' @
     quot @ ''word3'' @ quot @ '']''"

definition prompt_generateSentence :: "string \<Rightarrow> string" where
  "prompt_generateSentence dif =
     ''Generate a simple English sentence for typing practice.'' @ nl @
     ''    Difficulty level: '' @ dif @ ''.'' @ nl @
     ''    The sentence should be appropriate for children learning to type.'' @ nl @
     ''    Return only the sentence, no quotes or explanation.''"

section \<open>OpenAI provider\<close>

text \<open>
  The network is the environment: the reply to \<open>GET /models\<close> (ok or not, or a rejected
  fetch), the reply to the chat completion request (its \<open>ok\<close> flag, its status and the
  first choice's message content, if any; when there is none, whether the body lacks the
  \<open>choices\<close> array altogether, on which \<open>data.choices[0]\<close> throws), and \<open>JSON.parse\<close> on a reply text (an array
  of strings, another JSON value, or a syntax error). Each function returns its outcome,
  a value or a thrown error, together with the provider's new cache, which a call
  changes even when it throws (an expired entry is deleted before the request).
\<close>

record http_reply =
  hr_ok :: bool
  hr_status :: int
  hr_content :: "string option"
  hr_no_choices :: bool

datatype json_parse = JsonArray "string list" | JsonOther | JsonSyntaxError

record net_env =
  models_reply :: "js_error + bool"
  chat_reply :: "js_error + http_reply"
  json_of :: "string \<Rightarrow> json_parse"

record openai_provider =
  op_config :: llm_service_config
  op_baseUrl :: string
  op_words :: "string list cache"
  op_texts :: "string cache"

definition new_openai :: "llm_service_config \<Rightarrow> openai_provider" where
  "new_openai cfg =
     \<lparr>op_config = cfg, op_baseUrl = opt_or (cfg_baseUrl cfg) ''https://api.openai.com/v1'',
      op_words = Map.empty, op_texts = Map.empty\<rparr>"

definition openai_generateText ::
  "ms \<Rightarrow> net_env \<Rightarrow> string \<Rightarrow> openai_provider \<Rightarrow> (js_error + string) \<times> openai_provider" where
  "openai_generateText now env prompt op =
     (let cacheKey = ''openai-text-'' @ prompt;
          (cached, c1) = getCached now cacheKey (op_texts op);
          op1 = op\<lparr>op_texts := c1\<rparr>
      in if (case cached of Some s \<Rightarrow> s \<noteq> [] | None \<Rightarrow> False) then (Inr (the cached), op1)
         else case chat_reply env of
           Inl e \<Rightarrow> (Inl e, op1)
         | Inr reply \<Rightarrow>
             if \<not> hr_ok reply then (Inl (ApiError (hr_status reply)), op1)
             else if hr_content reply = None \<and> hr_no_choices reply then (Inl TypeError, op1)
             else let result = opt_or (hr_content reply) []
                  in (Inr result, op1\<lparr>op_texts := setCache (op_config op) now cacheKey result 3600000 c1\<rparr>))"

definition js_space :: "char \<Rightarrow> bool" where
  "js_space c \<longleftrightarrow> (of_char c :: nat) \<in> {9, 10, 11, 12, 13, 32}"

definition js_trim :: "string \<Rightarrow> string" where
  "js_trim s = rev (dropWhile js_space (rev (dropWhile js_space s)))"

fun split_on :: "(char \<Rightarrow> bool) \<Rightarrow> string \<Rightarrow> string list" where
  "split_on p [] = [[]]"
| "split_on p (c # cs) =
     (if p c then [] # split_on p cs
      else (case split_on p cs of w # ws \<Rightarrow> (c # w) # ws | [] \<Rightarrow> [[c]]))"

text \<open>The fallback of \<open>generateWords\<close> for a reply that is not JSON:
  \<open>split(/[,\n]/)\<close>, then \<open>trim()\<close> and \<open>replace(/["\[\]]/g, '')\<close> on each piece, then
  the non-empty pieces.\<close>

definition parse_word_list :: "string \<Rightarrow> string list" where
  "parse_word_list response =
     filter (\<lambda>w. w \<noteq> [])
       (map (\<lambda>w. filter (\<lambda>c. c \<notin> set (quot @ ''[]'')) (js_trim w))
          (split_on (\<lambda>c. c = CHR '','' \<or> c = CHR 0x0A) response))"

definition openai_generateWords ::
  "ms \<Rightarrow> net_env \<Rightarrow> string list \<Rightarrow> nat \<Rightarrow> string \<Rightarrow> openai_provider \<Rightarrow>
   (js_error + string list) \<times> openai_provider" where
  "openai_generateWords now env keys cnt dif op =
     (let cacheKey = ''openai-words-'' @ concat keys @ ''-'' @ nat_str cnt @ ''-'' @ dif;
          (cached, c1) = getCached now cacheKey (op_words op)
      in case cached of
           Some ws \<Rightarrow> (Inr ws, op\<lparr>op_words := c1\<rparr>)
         | None \<Rightarrow>
             let (r, op2) = openai_generateText now env (prompt_generateWords keys cnt dif) (op\<lparr>op_words := c1\<rparr>)
             in case r of
                  Inl e \<Rightarrow> (Inl e, op2)
                | Inr response \<Rightarrow>
                    (case json_of env response of
                       JsonArray ws \<Rightarrow> (Inr ws, op2\<lparr>op_words := setCache (op_config op) now cacheKey ws 3600000 (op_words op2)\<rparr>)
                     | JsonOther \<Rightarrow> (Inr [], op2)
                     | JsonSyntaxError \<Rightarrow>
                         let ws = parse_word_list response
                         in (Inr ws, op2\<lparr>op_words := setCache (op_config op) now cacheKey ws 3600000 (op_words op2)\<rparr>)))"

definition openai_isAvailable :: "net_env \<Rightarrow> openai_provider \<Rightarrow> bool" where
  "openai_isAvailable env op =
     (case cfg_apiKey (op_config op) of
        None \<Rightarrow> False
      | Some k \<Rightarrow> k \<noteq> [] \<and> (case models_reply env of Inr ok \<Rightarrow> ok | Inl _ \<Rightarrow> False))"

section \<open>The service facade\<close>

datatype provider_inst = PStatic static_provider | POpenAI openai_provider

record llm_service =
  svc_config :: llm_service_config
  svc_provider :: provider_inst
  svc_fallback :: static_provider

definition createProvider :: "llm_service_config \<Rightarrow> provider_inst" where
  "createProvider cfg = (case cfg_provider cfg of OpenAI \<Rightarrow> POpenAI (new_openai cfg) | _ \<Rightarrow> PStatic (new_static cfg))"

definition new_llm_service :: "llm_service_config \<Rightarrow> llm_service" where
  "new_llm_service cfg = \<lparr>svc_config = cfg, svc_provider = createProvider cfg, svc_fallback = new_static cfg\<rparr>"

fun providerName :: "provider_inst \<Rightarrow> string" where
  "providerName (PStatic _) = ''StaticData''"
| "providerName (POpenAI _) = ''OpenAI''"

record cfg_patch =
  cp_provider :: "llm_provider option"
  cp_apiKey :: "string option"
  cp_baseUrl :: "string option"
  cp_model :: "string option"
  cp_cacheEnabled :: "bool option"
  cp_timeout :: "int option"

text \<open>\<open>{ ...this.config, ...config }\<close>: a key the patch has overrides. A key the patch
  has with the value \<open>undefined\<close> is modelled as absent; the spread would copy the
  \<open>undefined\<close>.\<close>

definition merge_config :: "llm_service_config \<Rightarrow> cfg_patch \<Rightarrow> llm_service_config" where
  "merge_config c p =
     \<lparr>cfg_provider = opt_or (cp_provider p) (cfg_provider c),
      cfg_apiKey = (case cp_apiKey p of Some k \<Rightarrow> Some k | None \<Rightarrow> cfg_apiKey c),
      cfg_baseUrl = (case cp_baseUrl p of Some u \<Rightarrow> Some u | None \<Rightarrow> cfg_baseUrl c),
      cfg_model = (case cp_model p of Some m \<Rightarrow> Some m | None \<Rightarrow> cfg_model c),
      cfg_cacheEnabled = (case cp_cacheEnabled p of Some b \<Rightarrow> Some b | None \<Rightarrow> cfg_cacheEnabled c),
      cfg_timeout = (case cp_timeout p of Some t \<Rightarrow> Some t | None \<Rightarrow> cfg_timeout c)\<rparr>"

definition updateConfig :: "cfg_patch \<Rightarrow> llm_service \<Rightarrow> llm_service" where
  "updateConfig p svc =
     (let cfg = merge_config (svc_config svc) p
      in if cp_provider p \<noteq> None \<or> cp_apiKey p \<noteq> None
         then svc\<lparr>svc_config := cfg, svc_provider := createProvider cfg\<rparr>
         else svc\<lparr>svc_config := cfg\<rparr>)"

text \<open>\<open>generateWords\<close> of the facade: the primary provider if it reports itself available,
  the static fallback if it is not or if it throws.\<close>

definition service_generateWords ::
  "(nat \<Rightarrow> real) \<Rightarrow> ms \<Rightarrow> net_env \<Rightarrow> string list \<Rightarrow> nat \<Rightarrow> string \<Rightarrow> llm_service \<Rightarrow>
   string list \<times> llm_service" where
  "service_generateWords rnd now env keys cnt dif svc =
     (let fallback = (\<lambda>svc'. let (ws, fb) = static_generateWords rnd now keys cnt dif (svc_fallback svc')
                            in (ws, svc'\<lparr>svc_fallback := fb\<rparr>))
      in case svc_provider svc of
           PStatic sp \<Rightarrow>
             let (ws, sp') = static_generateWords rnd now keys cnt dif sp
             in (ws, svc\<lparr>svc_provider := PStatic sp'\<rparr>)
         | POpenAI op \<Rightarrow>
             if \<not> openai_isAvailable env op then fallback svc
             else let (r, op') = openai_generateWords now env keys cnt dif op;
                      svc1 = svc\<lparr>svc_provider := POpenAI op'\<rparr>
                  in case r of Inr ws \<Rightarrow> (ws, svc1) | Inl _ \<Rightarrow> fallback svc1)"

text \<open>The module's default instance: \<open>getLLMService\<close> builds a new service whenever it is
  given a configuration, and the static default on first use.\<close>

definition default_llm_config :: llm_service_config where
  "default_llm_config = \<lparr>cfg_provider = Static, cfg_apiKey = None, cfg_baseUrl = None, cfg_model = None,
     cfg_cacheEnabled = Some True, cfg_timeout = None\<rparr>"

definition getLLMService :: "llm_service_config option \<Rightarrow> llm_service option \<Rightarrow> llm_service" where
  "getLLMService cfg defaultService =
     (case (defaultService, cfg) of
        (Some svc, None) \<Rightarrow> svc
      | _ \<Rightarrow> new_llm_service (opt_or cfg default_llm_config))"

section \<open>Lemmas\<close>

lemma remove_nth_mset: "i < length xs \<Longrightarrow> add_mset (xs ! i) (mset (remove_nth i xs)) = mset xs"
proof -
  assume i: "i < length xs"
  have "xs = take i xs @ xs ! i # drop (Suc i) xs" using i by (simp add: id_take_nth_drop)
  then have "mset xs = mset (take i xs @ xs ! i # drop (Suc i) xs)" by simp
  then show ?thesis by (simp add: remove_nth_def)
qed

lemma remove_nth_length: "i < length xs \<Longrightarrow> length (remove_nth i xs) = length xs - 1"
  by (simp add: remove_nth_def)

lemma pick_words_spec:
  "draws_ok rnd \<Longrightarrow>
   length (pick_words rnd i c av) = min c (length av) \<and> mset (pick_words rnd i c av) \<subseteq># mset av"
proof (induction rnd i c av rule: pick_words.induct)
  case (3 rnd i c a as)
  let ?av = "a # as"
  let ?k = "nat \<lfloor>rnd i * real (length ?av)\<rfloor>"
  have k: "?k < length ?av" by (rule draw_index_less [OF "3.prems"]) simp
  from "3.IH" [OF refl refl "3.prems"]
  have ih: "length (pick_words rnd (Suc i) c (remove_nth ?k ?av)) = min c (length (remove_nth ?k ?av))"
    "mset (pick_words rnd (Suc i) c (remove_nth ?k ?av)) \<subseteq># mset (remove_nth ?k ?av)" by simp_all
  have "add_mset (?av ! ?k) (mset (pick_words rnd (Suc i) c (remove_nth ?k ?av))) \<subseteq># mset ?av"
    using ih(2) remove_nth_mset [OF k] by (metis mset_subset_eq_add_mset_cancel)
  with ih(1) remove_nth_length [OF k] show ?case by (simp add: Let_def)
qed simp_all

lemma getCached_set:
  "cfg_cacheEnabled cfg \<noteq> Some False \<Longrightarrow> now' - now < ttl \<Longrightarrow>
   fst (getCached now' key (setCache cfg now key r ttl c)) = Some r"
  by (simp add: getCached_def setCache_def)

lemma split_on_no_sep_all: "\<forall>w \<in> set (split_on p s). \<forall>c \<in> set w. \<not> p c"
proof (induction p s rule: split_on.induct)
  case (2 p c cs)
  show ?case
  proof (cases "p c")
    case True
    with "2.IH"(1) show ?thesis by simp
  next
    case False
    show ?thesis
    proof (cases "split_on p cs")
      case (Cons w ws)
      with False "2.IH"(2) show ?thesis by simp
    qed (use False in simp)
  qed
qed simp

lemma split_on_no_sep: "w \<in> set (split_on p s) \<Longrightarrow> c \<in> set w \<Longrightarrow> \<not> p c"
  using split_on_no_sep_all by blast

lemma js_trim_subset: "set (js_trim s) \<subseteq> set s"
  unfolding js_trim_def by (auto dest!: set_dropWhileD)

lemma static_fresh_miss:
  "static_generateWords rnd now keys cnt dif (new_static cfg) =
   (let cacheKey = ''static-words-'' @ concat keys @ ''-'' @ nat_str cnt @ ''-'' @ dif;
        result = pick_words rnd 0 cnt (difficulty_filter dif (select_wordSet (map to_lower (concat keys))))
    in (result, (new_static cfg)\<lparr>sp_words := setCache cfg now cacheKey result 60000 Map.empty\<rparr>))"
  by (simp add: static_generateWords_def new_static_def getCached_def Let_def)

definition openai_cfg :: llm_service_config where
  "openai_cfg = default_llm_config\<lparr>cfg_provider := OpenAI, cfg_model := Some ''gpt-3.5-turbo''\<rparr>"

definition offline_env :: net_env where
  "offline_env = \<lparr>models_reply = Inl FetchError, chat_reply = Inl FetchError, json_of = (\<lambda>_. JsonSyntaxError)\<rparr>"

lemmas llm_eval = openai_cfg_def default_llm_config_def offline_env_def new_llm_service_def createProvider_def
  new_openai_def new_static_def openai_isAvailable_def updateConfig_def merge_config_def

section \<open>Properties\<close>

text \<open>
  With random draws in [0, 1), a fresh static provider answers \<open>generateWords\<close> with
  as many words as asked for, or all the words of the pool if it has fewer, each taken from
  the pool the keys and the difficulty select, none more often than the pool holds it.
\<close>

theorem static_generateWords_fresh:
  "draws_ok rnd \<Longrightarrow>
   (let ws = fst (static_generateWords rnd now keys cnt dif (new_static cfg));
        pool = difficulty_filter dif (select_wordSet (map to_lower (concat keys)))
    in length ws = min cnt (length pool) \<and> mset ws \<subseteq># mset pool)"
  by (simp add: static_fresh_miss Let_def pick_words_spec)

text \<open>
  The static provider memoises: asked again with the same keys, count and difficulty
  less than a minute after it computed an answer (and with the cache not disabled), it
  returns the same words, whatever the new random draws.
\<close>

theorem static_generateWords_cached:
  "cfg_cacheEnabled cfg \<noteq> Some False \<Longrightarrow> now' - now < 60000 \<Longrightarrow>
   static_generateWords rnd now keys cnt dif (new_static cfg) = (ws, sp1) \<Longrightarrow>
   fst (static_generateWords rnd' now' keys cnt dif sp1) = ws"
  by (auto simp: static_fresh_miss static_generateWords_def getCached_def setCache_def new_static_def Let_def)

text \<open>
  The service falls back to the static provider: when the OpenAI provider is not
  available (no key, or \<open>/models\<close> fails) or its request throws, \<open>generateWords\<close> answers
  with the fallback provider's words and does not throw.
\<close>

theorem service_generateWords_fallback:
  "svc_provider svc = POpenAI op \<Longrightarrow>
   \<not> openai_isAvailable env op \<or> isl (fst (openai_generateWords now env keys cnt dif op)) \<Longrightarrow>
   fst (service_generateWords rnd now env keys cnt dif svc) =
   fst (static_generateWords rnd now keys cnt dif (svc_fallback svc))"
  by (auto simp: service_generateWords_def Let_def split: prod.splits sum.splits)

text \<open>
  C33: \<open>updateConfig\<close> rebuilds the provider only when the provider kind or the API key
  changes: a new model, base URL, timeout or cache setting is recorded in the service's
  configuration but the provider keeps the configuration it was built with.
\<close>

theorem updateConfig_keeps_provider:
  "cp_provider p = None \<Longrightarrow> cp_apiKey p = None \<Longrightarrow>
   svc_provider (updateConfig p svc) = svc_provider svc \<and>
   svc_config (updateConfig p svc) = merge_config (svc_config svc) p"
  by (simp add: updateConfig_def Let_def)

text \<open>
  Every word the fallback parser of the OpenAI provider extracts from a reply that is
  not JSON is non-empty and free of separators, quotes and brackets.
\<close>

theorem parse_word_list_clean:
  "w \<in> set (parse_word_list response) \<Longrightarrow>
   w \<noteq> [] \<and> (\<forall>c \<in> set w. c \<noteq> CHR '','' \<and> c \<noteq> CHR 0x0A \<and> c \<notin> set (quot @ ''[]''))"
  unfolding parse_word_list_def
  by (auto dest!: split_on_no_sep dest: subsetD [OF js_trim_subset])

section \<open>Witnesses\<close>

theorem static_generateWords_fresh_witness:
  "draws_ok (\<lambda>_. 0) \<and>
   (let ws = fst (static_generateWords (\<lambda>_. 0) 0 [''a'', ''s'', ''d'', ''f''] 3 ''easy'' (new_static default_llm_config));
        pool = difficulty_filter ''easy'' (select_wordSet (map to_lower (concat [''a'', ''s'', ''d'', ''f''])))
    in length ws = min 3 (length pool) \<and> mset ws \<subseteq># mset pool)"
proof -
  have d: "draws_ok (\<lambda>_. 0)" by (simp add: draws_ok_def)
  from d static_generateWords_fresh [OF d] show ?thesis by blast
qed

theorem static_generateWords_cached_witness:
  "cfg_cacheEnabled default_llm_config \<noteq> Some False \<and> (30000::int) - 0 < 60000 \<and>
   static_generateWords (\<lambda>_. 0) 0 [''j''] 2 ''easy'' (new_static default_llm_config) =
     (fst (static_generateWords (\<lambda>_. 0) 0 [''j''] 2 ''easy'' (new_static default_llm_config)),
      snd (static_generateWords (\<lambda>_. 0) 0 [''j''] 2 ''easy'' (new_static default_llm_config))) \<and>
   fst (static_generateWords (\<lambda>_. 1/2) 30000 [''j''] 2 ''easy''
          (snd (static_generateWords (\<lambda>_. 0) 0 [''j''] 2 ''easy'' (new_static default_llm_config)))) =
   fst (static_generateWords (\<lambda>_. 0) 0 [''j''] 2 ''easy'' (new_static default_llm_config))"
proof -
  have c: "cfg_cacheEnabled default_llm_config \<noteq> Some False" by (simp add: llm_eval)
  have t: "(30000::int) - 0 < 60000" by simp
  from c t static_generateWords_cached [OF c t prod.collapse [symmetric]] show ?thesis by simp
qed

theorem updateConfig_keeps_provider_witness:
  "cp_provider \<lparr>cp_provider = None, cp_apiKey = None, cp_baseUrl = None, cp_model = Some ''gpt-4'',
     cp_cacheEnabled = None, cp_timeout = None\<rparr> = None \<and>
   cp_apiKey \<lparr>cp_provider = None, cp_apiKey = None, cp_baseUrl = None, cp_model = Some ''gpt-4'',
     cp_cacheEnabled = None, cp_timeout = None\<rparr> = None \<and>
   svc_provider (updateConfig \<lparr>cp_provider = None, cp_apiKey = None, cp_baseUrl = None, cp_model = Some ''gpt-4'',
     cp_cacheEnabled = None, cp_timeout = None\<rparr> (new_llm_service openai_cfg)) = svc_provider (new_llm_service openai_cfg) \<and>
   svc_config (updateConfig \<lparr>cp_provider = None, cp_apiKey = None, cp_baseUrl = None, cp_model = Some ''gpt-4'',
     cp_cacheEnabled = None, cp_timeout = None\<rparr> (new_llm_service openai_cfg)) =
   merge_config (svc_config (new_llm_service openai_cfg)) \<lparr>cp_provider = None, cp_apiKey = None, cp_baseUrl = None,
     cp_model = Some ''gpt-4'', cp_cacheEnabled = None, cp_timeout = None\<rparr>"
  using updateConfig_keeps_provider [of "\<lparr>cp_provider = None, cp_apiKey = None, cp_baseUrl = None,
     cp_model = Some ''gpt-4'', cp_cacheEnabled = None, cp_timeout = None\<rparr>" "new_llm_service openai_cfg"]
  by simp

theorem parse_word_list_clean_witness:
  "''cat'' \<in> set (parse_word_list (''[cat, dog'' @ nl @ ''bird]'')) \<and> ''cat'' \<noteq> [] \<and>
   CHR ''['' \<notin> set ''cat''"
proof -
  have m: "''cat'' \<in> set (parse_word_list (''[cat, dog'' @ nl @ ''bird]''))"
    by (simp add: parse_word_list_def js_trim_def js_space_def nl_def quot_def)
  from m parse_word_list_clean [OF m] show ?thesis by (auto simp: quot_def)
qed

end
