(* ===== verification/LLMFacade.thy ===== *)
theory LLMFacade
  imports LLM Metrics
begin

text \<open>
  The rest of \<open>src/services/llm/\<close>: \<open>generateSentence\<close> of \<open>OpenAIProvider\<close> with the
  quote stripping of its reply, and the remaining methods of the \<open>LLMService\<close> facade
  (\<open>isAvailable\<close>, \<open>generateSentence\<close>, \<open>generateText\<close>, \<open>generateFeedback\<close>) and the
  module function \<open>updateLLMServiceConfig\<close>. Each facade method asks the primary provider
  whether it is available and answers with the static fallback provider when it is not or
  when its request throws, as \<open>service_generateWords\<close> of \<open>LLM\<close> does.
\<close>

section \<open>Quote stripping\<close>

definition is_quote :: "char \<Rightarrow> bool" where
  "is_quote c \<longleftrightarrow> c = CHR 0x22 \<or> c = CHR 0x27"

text \<open>\<open>replace(/^["']|["']$/g, '')\<close>: one quote character at the start and one at the
  end are removed. The global search resumes after the first match, so a string that is a
  single quote character loses it once and becomes empty.\<close>

definition strip_quotes :: "string \<Rightarrow> string" where
  "strip_quotes s =
     (let s1 = (case s of c # cs \<Rightarrow> if is_quote c then cs else s | [] \<Rightarrow> [])
      in if s1 \<noteq> [] \<and> is_quote (last s1) then butlast s1 else s1)"

section \<open>The OpenAI provider's sentences\<close>

text \<open>The sentence is cached under its own key in the provider's one cache, beside the
  texts (their keys start with \<open>openai-text-\<close>), with the default time to live of an
  hour; a cached empty sentence is falsy and is asked for again.\<close>

definition openai_generateSentence ::
  "ms \<Rightarrow> net_env \<Rightarrow> string \<Rightarrow> openai_provider \<Rightarrow> (js_error + string) \<times> openai_provider" where
  "openai_generateSentence now env dif op =
     (let cacheKey = ''openai-sentence-'' @ dif;
          (cached, c1) = getCached now cacheKey (op_texts op)
      in if (case cached of Some s \<Rightarrow> s \<noteq> [] | None \<Rightarrow> False) then (Inr (the cached), op\<lparr>op_texts := c1\<rparr>)
         else let (r, op2) = openai_generateText now env (prompt_generateSentence dif) (op\<lparr>op_texts := c1\<rparr>)
              in case r of
                   Inl e \<Rightarrow> (Inl e, op2)
                 | Inr result \<Rightarrow>
                     let sentence = strip_quotes (js_trim result)
                     in (Inr sentence,
                         op2\<lparr>op_texts := setCache (op_config op) now cacheKey sentence 3600000 (op_texts op2)\<rparr>))"

section \<open>The facade\<close>

text \<open>\<open>isAvailable\<close>: the static provider always is; the OpenAI provider's own check
  catches every error, so the facade's \<open>catch\<close> is never taken.\<close>

definition service_isAvailable :: "net_env \<Rightarrow> llm_service \<Rightarrow> bool" where
  "service_isAvailable env svc =
     (case svc_provider svc of PStatic _ \<Rightarrow> True | POpenAI op \<Rightarrow> openai_isAvailable env op)"

definition service_generateSentence ::
  "real \<Rightarrow> ms \<Rightarrow> net_env \<Rightarrow> string \<Rightarrow> llm_service \<Rightarrow> string \<times> llm_service" where
  "service_generateSentence r now env dif svc =
     (let fallback = (\<lambda>svc'. let (s, fb) = static_generateSentence r now dif (svc_fallback svc')
                            in (s, svc'\<lparr>svc_fallback := fb\<rparr>))
      in case svc_provider svc of
           PStatic sp \<Rightarrow>
             let (s, sp') = static_generateSentence r now dif sp
             in (s, svc\<lparr>svc_provider := PStatic sp'\<rparr>)
         | POpenAI op \<Rightarrow>
             if \<not> openai_isAvailable env op then fallback svc
             else let (res, op') = openai_generateSentence now env dif op;
                      svc1 = svc\<lparr>svc_provider := POpenAI op'\<rparr>
                  in case res of Inr s \<Rightarrow> (s, svc1) | Inl _ \<Rightarrow> fallback svc1)"

definition service_generateText ::
  "ms \<Rightarrow> net_env \<Rightarrow> string \<Rightarrow> llm_service \<Rightarrow> string \<times> llm_service" where
  "service_generateText now env prompt svc =
     (case svc_provider svc of
        PStatic _ \<Rightarrow> (static_generateText prompt, svc)
      | POpenAI op \<Rightarrow>
          if \<not> openai_isAvailable env op then (static_generateText prompt, svc)
          else let (res, op') = openai_generateText now env prompt op;
                   svc1 = svc\<lparr>svc_provider := POpenAI op'\<rparr>
               in case res of Inr s \<Rightarrow> (s, svc1) | Inl _ \<Rightarrow> (static_generateText prompt, svc1))"

text \<open>\<open>generateFeedback\<close> answers with one of five fixed Chinese messages; the model names
  the message, and the fourth carries the keys it lists (\<open>mistakes.slice(0, 3)\<close>, joined
  with an ideographic comma).\<close>

datatype feedback = FeedbackExcellent | FeedbackGood | FeedbackTryMore | FeedbackKeys "string list"
  | FeedbackKeepPractising

definition generateFeedback :: "real \<Rightarrow> real \<Rightarrow> string list \<Rightarrow> feedback" where
  "generateFeedback w acc mistakes =
     (if acc \<ge> 95 \<and> w \<ge> 40 then FeedbackExcellent
      else if acc \<ge> 85 then FeedbackGood
      else if acc \<ge> 70 then FeedbackTryMore
      else if length mistakes > 0 then FeedbackKeys (take 3 mistakes)
      else FeedbackKeepPractising)"

text \<open>\<open>updateLLMServiceConfig\<close> patches the module's default instance, creating the static
  default first if there is none; the result is the new default instance.\<close>

definition updateLLMServiceConfig :: "cfg_patch \<Rightarrow> llm_service option \<Rightarrow> llm_service" where
  "updateLLMServiceConfig p defaultService = updateConfig p (getLLMService None defaultService)"

section \<open>Prompt for quizzes\<close>

definition prompt_generateQuiz :: "string \<Rightarrow> string \<Rightarrow> string" where
  "prompt_generateQuiz topic dif =
     ''Generate a simple '' @ topic @ '' question for typing practice.'' @ nl @
     ''    Difficulty: '' @ dif @ ''.'' @ nl @
     ''    Format as JSON: {'' @ quot @ ''question'' @ quot @ '': '' @ quot @ ''...'' @ quot @ '', '' @
       quot @ ''answer'' @ quot @ '': '' @ quot @ ''...'' @ quot @ ''}'' @ nl @
     ''    The answer should be a single word or short phrase.''"

section \<open>Examples\<close>

definition quoted_reply :: http_reply where
  "quoted_reply = \<lparr>hr_ok = True, hr_status = 200, hr_content = Some (CHR 0x22 # ''The cat sat.'' @ [CHR 0x22]),
                   hr_no_choices = False\<rparr>"

definition quoted_env :: net_env where
  "quoted_env = \<lparr>models_reply = Inr True, chat_reply = Inr quoted_reply, json_of = (\<lambda>_. JsonSyntaxError)\<rparr>"

section \<open>Lemmas\<close>

lemma is_quote_not_space: "is_quote c \<Longrightarrow> \<not> js_space c"
  by (auto simp: is_quote_def js_space_def)

lemma strip_quotes_quoted: "is_quote q1 \<Longrightarrow> is_quote q2 \<Longrightarrow> strip_quotes (q1 # s @ [q2]) = s"
  by (simp add: strip_quotes_def)

lemma js_trim_quoted: "is_quote q1 \<Longrightarrow> is_quote q2 \<Longrightarrow> js_trim (q1 # s @ [q2]) = q1 # s @ [q2]"
  by (simp add: js_trim_def is_quote_not_space)

text \<open>The facade's message of praise is given exactly when the result card shows three
  stars.\<close>

lemma generateFeedback_excellent: "generateFeedback w acc ms = FeedbackExcellent \<longleftrightarrow> calculateStars acc w = 3"
  by (simp add: generateFeedback_def calculateStars_def)

section \<open>Properties\<close>

text \<open>
  C29: the facade falls back to the static provider: when the OpenAI provider is not
  available (no key, or \<open>/models\<close> fails) or its request throws, each of \<open>generateWords\<close>,
  \<open>generateSentence\<close> and \<open>generateText\<close> answers with what the static fallback provider
  answers, and none of them throws.
\<close>

theorem service_fallback:
  assumes "svc_provider svc = POpenAI op"
  shows "(\<not> openai_isAvailable env op \<or> isl (fst (openai_generateWords now env keys cnt dif op)) \<longrightarrow>
          fst (service_generateWords rnd now env keys cnt dif svc) =
          fst (static_generateWords rnd now keys cnt dif (svc_fallback svc))) \<and>
         (\<not> openai_isAvailable env op \<or> isl (fst (openai_generateSentence now env dif op)) \<longrightarrow>
          fst (service_generateSentence r now env dif svc) =
          fst (static_generateSentence r now dif (svc_fallback svc))) \<and>
         (\<not> openai_isAvailable env op \<or> isl (fst (openai_generateText now env prompt op)) \<longrightarrow>
          fst (service_generateText now env prompt svc) = static_generateText prompt)"
proof (intro conjI impI)
  assume "\<not> openai_isAvailable env op \<or> isl (fst (openai_generateWords now env keys cnt dif op))"
  from service_generateWords_fallback [OF assms this]
  show "fst (service_generateWords rnd now env keys cnt dif svc) =
        fst (static_generateWords rnd now keys cnt dif (svc_fallback svc))" .
next
  assume "\<not> openai_isAvailable env op \<or> isl (fst (openai_generateSentence now env dif op))"
  with assms show "fst (service_generateSentence r now env dif svc) =
        fst (static_generateSentence r now dif (svc_fallback svc))"
    by (cases "openai_generateSentence now env dif op", rename_tac res op', case_tac res)
       (auto simp: service_generateSentence_def Let_def split: prod.split)
next
  assume "\<not> openai_isAvailable env op \<or> isl (fst (openai_generateText now env prompt op))"
  with assms show "fst (service_generateText now env prompt svc) = static_generateText prompt"
    by (cases "openai_generateText now env prompt op", rename_tac res op', case_tac res)
       (auto simp: service_generateText_def)
qed

text \<open>
  C39: a sentence the OpenAI model returns in single or double quotes reaches the caller
  without them, whatever the sentence holds between them; and, when it is not empty and the
  cache is enabled, the provider answers the same difficulty from its cache for an hour,
  whatever the network does then.
\<close>

theorem openai_generateSentence_unquotes:
  "chat_reply env = Inr rep \<Longrightarrow> hr_ok rep \<Longrightarrow> hr_content rep = Some (q1 # s @ [q2]) \<Longrightarrow>
   is_quote q1 \<Longrightarrow> is_quote q2 \<Longrightarrow>
   openai_generateSentence now env dif (new_openai cfg) = (res, op1) \<Longrightarrow>
   res = Inr s \<and>
   (s \<noteq> [] \<and> cfg_cacheEnabled cfg \<noteq> Some False \<and> now' - now < 3600000 \<longrightarrow>
    fst (openai_generateSentence now' env' dif op1) = Inr s)"
  by (auto simp: openai_generateSentence_def openai_generateText_def new_openai_def getCached_def
      setCache_def Let_def strip_quotes_quoted js_trim_quoted split: prod.splits)

section \<open>Witnesses\<close>

theorem service_fallback_witness:
  "svc_provider (new_llm_service openai_cfg) = POpenAI (new_openai openai_cfg) \<and>
   fst (service_generateSentence 0 0 offline_env ''easy'' (new_llm_service openai_cfg)) =
   fst (static_generateSentence 0 0 ''easy'' (svc_fallback (new_llm_service openai_cfg))) \<and>
   fst (service_generateText 0 offline_env ''hi'' (new_llm_service openai_cfg)) = static_generateText ''hi''"
proof -
  have p: "svc_provider (new_llm_service openai_cfg) = POpenAI (new_openai openai_cfg)" by (simp add: llm_eval)
  have n: "\<not> openai_isAvailable offline_env (new_openai openai_cfg)" by (simp add: llm_eval)
  from p n service_fallback [OF p, where env = offline_env and now = 0 and dif = "''easy''" and r = 0 and prompt = "''hi''"]
  show ?thesis by blast
qed

theorem openai_generateSentence_unquotes_witness:
  "fst (openai_generateSentence 0 quoted_env ''easy'' (new_openai openai_cfg)) = Inr ''The cat sat.'' \<and>
   fst (openai_generateSentence 60000 offline_env ''easy''
          (snd (openai_generateSentence 0 quoted_env ''easy'' (new_openai openai_cfg)))) = Inr ''The cat sat.''"
proof -
  have h: "chat_reply quoted_env = Inr quoted_reply" "hr_ok quoted_reply"
    "hr_content quoted_reply = Some (CHR 0x22 # ''The cat sat.'' @ [CHR 0x22])" "is_quote (CHR 0x22)"
    by (simp_all add: quoted_env_def quoted_reply_def is_quote_def)
  have c: "cfg_cacheEnabled openai_cfg \<noteq> Some False" by (simp add: llm_eval)
  from openai_generateSentence_unquotes [OF h h(4) prod.collapse [symmetric], where now' = 60000 and env' = offline_env] c
  show ?thesis by simp
qed

end
