(* ===== verification/Hooks.thy ===== *)
theory Hooks
  imports Dispatch Player
begin

text \<open>
  The hooks of \<open>src/hooks/\<close>. A hook's React state (\<open>useState\<close>) and refs are a
  record; each callback the hook returns is a function on it, and the timers it registers
  with \<open>setInterval\<close> are modelled by their tick, which fires only while the hook's
  effect keeps an interval registered. React re-runs an effect whenever one of its
  dependencies changes, so the interval of \<open>useTimer\<close> is registered exactly when the
  timer runs with time left, and that of \<open>useStopwatch\<close> exactly when it runs. Several
  state updates made in one handler are applied in order, and the last one wins.
  The sound effects the hooks trigger are not modelled; the callbacks the caller passes
  (\<open>onEnd\<close>, \<open>onCorrect\<close>, \<open>onComplete\<close>, ...) are recorded by counting their calls.
\<close>

section \<open>useTimer and useStopwatch\<close>

record timer_state =
  tm_time :: real
  tm_running :: bool
  tm_ended :: nat

datatype timer_event = TimerStart | TimerPause | TimerReset | TimerSetTime real | TimerTick

text \<open>The interval callback: \<open>setTime(prev => prev <= 1 ? (setIsRunning(false), onEnd(), 0)
  : prev - 1)\<close>, firing only while the effect keeps it registered.\<close>

definition timer_tick :: "timer_state \<Rightarrow> timer_state" where
  "timer_tick s =
     (if tm_running s \<and> tm_time s > 0 then
        (if tm_time s \<le> 1 then s\<lparr>tm_time := 0, tm_running := False, tm_ended := Suc (tm_ended s)\<rparr>
         else s\<lparr>tm_time := tm_time s - 1\<rparr>)
      else s)"

fun timer_step :: "real \<Rightarrow> timer_event \<Rightarrow> timer_state \<Rightarrow> timer_state" where
  "timer_step initialTime TimerStart s = s\<lparr>tm_running := True\<rparr>"
| "timer_step initialTime TimerPause s = s\<lparr>tm_running := False\<rparr>"
| "timer_step initialTime TimerReset s = s\<lparr>tm_running := False, tm_time := initialTime\<rparr>"
| "timer_step initialTime (TimerSetTime t) s = s\<lparr>tm_time := t\<rparr>"
| "timer_step initialTime TimerTick s = timer_tick s"

definition useTimer_init :: "real \<Rightarrow> bool \<Rightarrow> timer_state" where
  "useTimer_init initialTime autoStart = \<lparr>tm_time = initialTime, tm_running = autoStart, tm_ended = 0\<rparr>"

definition timer_run :: "real \<Rightarrow> timer_event list \<Rightarrow> timer_state \<Rightarrow> timer_state" where
  "timer_run initialTime evs s = fold (timer_step initialTime) evs s"

record stopwatch_state =
  sw_time :: nat
  sw_running :: bool

fun stopwatch_step :: "timer_event \<Rightarrow> stopwatch_state \<Rightarrow> stopwatch_state" where
  "stopwatch_step TimerStart s = s\<lparr>sw_running := True\<rparr>"
| "stopwatch_step TimerPause s = s\<lparr>sw_running := False\<rparr>"
| "stopwatch_step TimerReset s = \<lparr>sw_time = 0, sw_running = False\<rparr>"
| "stopwatch_step (TimerSetTime t) s = s"
| "stopwatch_step TimerTick s = (if sw_running s then s\<lparr>sw_time := Suc (sw_time s)\<rparr> else s)"

section \<open>useTyping\<close>

text \<open>
  The hook keeps the word it has locked onto and the text typed into it. Unlocked, a key is
  matched against the entities the canvas exposes as \<open>window.__gameEntities\<close> (the array
  \<open>entitiesRef.current\<close> had when the canvas effect last ran; \<open>None\<close> when the canvas is
  not mounted); the optional chaining \<open>nextChar?.toLowerCase()\<close> makes an exhausted word
  a mismatch instead of an error. Locked, a key is matched against the locked word at the
  position of the typed text. The key is the string \<open>KeyboardEvent.key\<close>.
\<close>

record typing_state =
  currentInput :: string
  currentWord :: "string option"
  ty_corrects :: nat
  ty_wrongs :: nat
  ty_completed :: "string list"

definition key_eq :: "char option \<Rightarrow> string \<Rightarrow> bool" where
  "key_eq c key = (case c of Some ch \<Rightarrow> [to_lower ch] = map to_lower key | None \<Rightarrow> False)"

text \<open>
  The scan over the exposed entities. A match calls \<open>setCurrentWord(entity.word)\<close> and
  then assigns \<open>entity.typed\<close>, which throws on a frozen entity: the result records the
  error next to the effects that ran before it (the queued state update survives the
  exception). \<open>None\<close>: no entity matched.
\<close>

fun typing_scan ::
  "ms \<Rightarrow> string \<Rightarrow> falling_word list \<Rightarrow> typing_state \<Rightarrow> game_session \<Rightarrow>
   (js_error option \<times> falling_word list \<times> typing_state \<times> game_session) option" where
  "typing_scan now key [] ts s = None"
| "typing_scan now key (e # es) ts s =
     (if fw_active e \<and> key_eq (nextChar e) key then
        let ts0 = ts\<lparr>currentWord := Some (fw_word e)\<rparr> in
        case type_next e of
          Inl err \<Rightarrow> Some (Some err, e # es, ts0, s)
        | Inr e1 \<Rightarrow>
            let s1 = incrementCombo (recordKeystroke True now s);
                ts1 = ts0\<lparr>currentInput := currentInput ts @ key, ty_corrects := Suc (ty_corrects ts)\<rparr>
            in if fw_typed e1 = fw_word e1 then
                 (case deactivate e1 of
                    Inl err \<Rightarrow> Some (Some err, e1 # es, ts1, s1)
                  | Inr e2 \<Rightarrow>
                      Some (None, e2 # es,
                            ts1\<lparr>currentWord := None, currentInput := [], ty_completed := ty_completed ts @ [fw_word e]\<rparr>,
                            completeWord (updateScore (real (fw_points e) * (1 + real (combo s) * (1/10))) s1)))
               else Some (None, e1 # es, ts1, s1)
      else map_option (\<lambda>(r, es', ts', s'). (r, e # es', ts', s')) (typing_scan now key es ts s))"

text \<open>The handler; its result is the returned boolean, or the exception it throws.\<close>

definition useTyping_handleKeyPress ::
  "ms \<Rightarrow> string \<Rightarrow> falling_word list option \<Rightarrow> typing_state \<Rightarrow> game_session \<Rightarrow>
   (js_error + bool) \<times> falling_word list option \<times> typing_state \<times> game_session" where
  "useTyping_handleKeyPress now key exposed ts s =
     (case currentWord ts of
        None \<Rightarrow>
          (let miss = (Inr False, exposed, ts\<lparr>ty_wrongs := Suc (ty_wrongs ts)\<rparr>,
                       breakCombo (recordKeystroke False now s))
           in case exposed of
                Some es \<Rightarrow>
                  if es \<noteq> [] then
                    (case typing_scan now key es ts s of
                       Some (r, es', ts', s') \<Rightarrow>
                         ((case r of None \<Rightarrow> Inr True | Some err \<Rightarrow> Inl err), Some es', ts', s')
                     | None \<Rightarrow> miss)
                  else miss
              | None \<Rightarrow> miss)
      | Some w \<Rightarrow>
          if key_eq (js_at w (length (currentInput ts))) key then
            let s1 = incrementCombo (recordKeystroke True now s);
                ts1 = ts\<lparr>currentInput := currentInput ts @ key, ty_corrects := Suc (ty_corrects ts)\<rparr>
            in if length (currentInput ts) + 1 = length w then
                 (Inr True, exposed, ts1\<lparr>currentWord := None, currentInput := [], ty_completed := ty_completed ts @ [w]\<rparr>,
                  completeWord (updateScore (real (length w * 10) * (1 + real (combo s) * (1/10))) s1))
               else (Inr True, exposed, ts1, s1)
          else (Inr False, exposed, ts\<lparr>ty_wrongs := Suc (ty_wrongs ts)\<rparr>, breakCombo (recordKeystroke False now s)))"

definition useTyping_init :: typing_state where
  "useTyping_init = \<lparr>currentInput = [], currentWord = None, ty_corrects = 0, ty_wrongs = 0, ty_completed = []\<rparr>"

definition resetInput :: "typing_state \<Rightarrow> typing_state" where
  "resetInput ts = ts\<lparr>currentInput := [], currentWord := None\<rparr>"

definition setInput :: "string \<Rightarrow> typing_state \<Rightarrow> typing_state" where
  "setInput inp ts = ts\<lparr>currentInput := inp\<rparr>"

text \<open>Keys typed one after the other at one clock reading each, against the same exposed
  array (the canvas effect does not re-run in between). A key whose handler throws is
  followed by the next one: each key is its own event.\<close>

fun typing_run ::
  "(ms \<times> string) list \<Rightarrow> falling_word list option \<Rightarrow> typing_state \<Rightarrow> game_session \<Rightarrow>
   (js_error + bool) list \<times> falling_word list option \<times> typing_state \<times> game_session" where
  "typing_run [] ents ts s = ([], ents, ts, s)"
| "typing_run ((now, k) # ks) ents ts s =
     (let (b, ents1, ts1, s1) = useTyping_handleKeyPress now k ents ts s;
          (bs, ents2, ts2, s2) = typing_run ks ents1 ts1 s1
      in (b # bs, ents2, ts2, s2))"

section \<open>useGame\<close>

text \<open>
  The game-control hook: the elapsed seconds (state), the start reference (a ref) and
  whether its one-second interval is registered. The effect on \<open>session.state\<close> re-bases
  the start reference when play starts or resumes and clears the interval otherwise.
  \<open>end\<close> ends the session, adds the session's counters to the player's statistics and
  grants the victory reward; the audio calls and the caller's \<open>onGameEnd\<close> are not
  modelled.
\<close>

record game_hook =
  gh_elapsed :: int
  gh_startTime :: ms
  gh_interval :: bool

definition useGame_effect :: "ms \<Rightarrow> game_state \<Rightarrow> game_hook \<Rightarrow> game_hook" where
  "useGame_effect now st gh =
     (if st = Playing then gh\<lparr>gh_startTime := now - gh_elapsed gh * 1000, gh_interval := True\<rparr>
      else gh\<lparr>gh_interval := False\<rparr>)"

definition useGame_tick :: "ms \<Rightarrow> game_hook \<Rightarrow> game_hook" where
  "useGame_tick now gh =
     (if gh_interval gh then gh\<lparr>gh_elapsed := (now - gh_startTime gh) div 1000\<rparr> else gh)"

definition useGame_stats_patch :: "int \<Rightarrow> game_session \<Rightarrow> player_stats \<Rightarrow> stats_patch" where
  "useGame_stats_patch elapsed s st =
     \<lparr>sp_totalWordsTyped = Some (totalWordsTyped st + wordsCompleted s),
      sp_totalCharactersTyped = Some (totalCharactersTyped st + charactersTyped s),
      sp_totalCorrectChars = Some (totalCorrectChars st + correctChars s),
      sp_totalGamesPlayed = Some (totalGamesPlayed st + 1),
      sp_totalTimePlayed = Some (totalTimePlayed st + elapsed),
      sp_averageWPM = None, sp_averageAccuracy = None,
      sp_maxCombo = Some (max (st_maxCombo st) (maxCombo s)),
      sp_perfectLevels = None\<rparr>"

definition useGame_end :: "bool \<Rightarrow> game_hook \<Rightarrow> game_session \<times> player_data \<Rightarrow> game_session \<times> player_data" where
  "useGame_end victory gh sp =
     (let (s, p) = sp;
          s' = endGame victory s;
          p1 = updateStats (useGame_stats_patch (gh_elapsed gh) s (pl_stats p)) p
      in (s', if victory then addCoins 50 (addExp 100 p1) else p1))"

text \<open>React re-runs the effect only when \<open>session.state\<close> differs from the value of the
  previous render.\<close>

definition useGame_sync :: "ms \<Rightarrow> game_session \<Rightarrow> game_session \<Rightarrow> game_hook \<Rightarrow> game_hook" where
  "useGame_sync now s s' gh = (if state s' \<noteq> state s then useGame_effect now (state s') gh else gh)"

definition useGame_start :: "game_mode \<Rightarrow> string option \<Rightarrow> ms \<Rightarrow> game_hook \<times> game_session \<Rightarrow> game_hook \<times> game_session" where
  "useGame_start md lvl now hs = (let (gh, s) = hs; s' = startGame md lvl now s
                                  in (useGame_sync now s s' (gh\<lparr>gh_elapsed := 0\<rparr>), s'))"

definition useGame_pause :: "ms \<Rightarrow> game_hook \<times> game_session \<Rightarrow> game_hook \<times> game_session" where
  "useGame_pause now hs = (let (gh, s) = hs; s' = pauseGame s in (useGame_sync now s s' gh, s'))"

definition useGame_resume :: "ms \<Rightarrow> game_hook \<times> game_session \<Rightarrow> game_hook \<times> game_session" where
  "useGame_resume now hs = (let (gh, s) = hs; s' = resumeGame s in (useGame_sync now s s' gh, s'))"

definition useGame_reset :: "ms \<Rightarrow> game_hook \<times> game_session \<Rightarrow> game_hook \<times> game_session" where
  "useGame_reset now hs = (let (gh, s) = hs; s' = resetGame s
                           in (useGame_sync now s s' (gh\<lparr>gh_elapsed := 0\<rparr>), s'))"

section \<open>useKeyboard\<close>

text \<open>\<open>useKeyboard\<close> keeps the latest handlers in refs and registers one \<open>keydown\<close> and
  one \<open>keyup\<close> listener on its target; a listener reads the ref when it runs and calls
  \<open>preventDefault\<close> as its effect run captured it. Handlers are identities (numbers). A
  key event reaches the focused element and bubbles through \<open>document\<close> to \<open>window\<close>, so it
  reaches the listeners of both targets. Effects run after their render, in order, when
  their dependencies changed; unmounting runs the cleanup and drops the refs.\<close>

datatype kb_target = KbWindow | KbDocument

datatype key_phase = KeyDownPhase | KeyUpPhase

record kb_props =
  kp_onKeyDown :: "nat option"
  kp_onKeyUp :: "nat option"
  kp_preventDefault :: "bool option"
  kp_target :: "kb_target option"

record kb_state =
  kb_downRef :: "nat option"
  kb_upRef :: "nat option"
  kb_refDeps :: "(nat option \<times> nat option) option"
  kb_listenDeps :: "(bool \<times> kb_target) option"
  kb_listeners :: "(kb_target \<times> key_phase \<times> bool) list"
  kb_calls :: "(key_phase \<times> nat) list"
  kb_prevented :: nat

datatype kb_event = KbRender kb_props | KbKey key_phase | KbUnmount

definition kb_init :: kb_state where
  "kb_init = \<lparr>kb_downRef = None, kb_upRef = None, kb_refDeps = None, kb_listenDeps = None,
     kb_listeners = [], kb_calls = [], kb_prevented = 0\<rparr>"

definition kb_listen :: "bool \<Rightarrow> kb_target \<Rightarrow> kb_state \<Rightarrow> kb_state" where
  "kb_listen pd tgt s =
     s\<lparr>kb_listeners := kb_listeners s @ [(tgt, KeyDownPhase, pd), (tgt, KeyUpPhase, pd)],
       kb_listenDeps := Some (pd, tgt)\<rparr>"

definition kb_unlisten :: "kb_state \<Rightarrow> kb_state" where
  "kb_unlisten s =
     (case kb_listenDeps s of
        None \<Rightarrow> s
      | Some (pd, tgt) \<Rightarrow>
          s\<lparr>kb_listeners := remove1 (tgt, KeyUpPhase, pd) (remove1 (tgt, KeyDownPhase, pd) (kb_listeners s)),
            kb_listenDeps := None\<rparr>)"

definition kb_dispatch :: "key_phase \<Rightarrow> kb_target \<times> key_phase \<times> bool \<Rightarrow> kb_state \<Rightarrow> kb_state" where
  "kb_dispatch ph l s =
     (let (_, ph', pd) = l;
          handler = (if ph = KeyDownPhase then kb_downRef s else kb_upRef s)
      in if ph' \<noteq> ph then s
         else s\<lparr>kb_prevented := kb_prevented s + (if pd then 1 else 0),
                kb_calls := kb_calls s @ (case handler of Some h \<Rightarrow> [(ph, h)] | None \<Rightarrow> [])\<rparr>)"

fun kb_step :: "kb_event \<Rightarrow> kb_state \<Rightarrow> kb_state" where
  "kb_step (KbRender p) s =
     (let pd = opt_or (kp_preventDefault p) False; tgt = opt_or (kp_target p) KbWindow;
          hs = (kp_onKeyDown p, kp_onKeyUp p);
          s1 = (if kb_refDeps s = Some hs then s
                else s\<lparr>kb_downRef := fst hs, kb_upRef := snd hs, kb_refDeps := Some hs\<rparr>)
      in if kb_listenDeps s1 = Some (pd, tgt) then s1 else kb_listen pd tgt (kb_unlisten s1))"
| "kb_step (KbKey ph) s = fold (kb_dispatch ph) (kb_listeners s) s"
| "kb_step KbUnmount s = (kb_unlisten s)\<lparr>kb_refDeps := None\<rparr>"

definition kb_ok :: "kb_state \<Rightarrow> bool" where
  "kb_ok s \<longleftrightarrow>
     kb_listeners s = (case kb_listenDeps s of None \<Rightarrow> []
                        | Some (pd, t) \<Rightarrow> [(t, KeyDownPhase, pd), (t, KeyUpPhase, pd)]) \<and>
     (case kb_refDeps s of None \<Rightarrow> True | Some (d, u) \<Rightarrow> kb_downRef s = d \<and> kb_upRef s = u)"

section \<open>useHotkey\<close>

record hotkey_event = key_event +
  ev_shift :: bool

text \<open>A modifier the hotkey does not ask for is not checked at all.\<close>

definition hotkey_matches :: "string \<Rightarrow> bool \<Rightarrow> bool \<Rightarrow> bool \<Rightarrow> 'a hotkey_event_scheme \<Rightarrow> bool" where
  "hotkey_matches k ctrlKey shiftKey altKey ev \<longleftrightarrow>
     map to_lower (ev_key ev) = map to_lower k \<and>
     (if ctrlKey then ev_ctrl ev \<or> ev_meta ev else True) \<and>
     (if shiftKey then ev_shift ev else True) \<and>
     (if altKey then ev_alt ev else True)"

definition useEscapeKey_matches :: "'a hotkey_event_scheme \<Rightarrow> bool" where
  "useEscapeKey_matches ev = hotkey_matches ''Escape'' False False False ev"

definition cat_entity :: falling_word where
  "cat_entity = spawn_entity ''u1'' 800 0 0 0 ''cat''"


section \<open>Lemmas\<close>

lemma timer_tick_down:
  "tm_running s \<Longrightarrow> tm_time s = real (Suc (Suc n)) \<Longrightarrow>
   timer_tick s = s\<lparr>tm_time := real (Suc n)\<rparr>"
  by (simp add: timer_tick_def)

lemma timer_tick_last:
  "tm_running s \<Longrightarrow> tm_time s = 1 \<Longrightarrow>
   timer_tick s = s\<lparr>tm_time := 0, tm_running := False, tm_ended := Suc (tm_ended s)\<rparr>"
  by (simp add: timer_tick_def)

lemma timer_ticks_stopped: "\<not> tm_running s \<Longrightarrow> timer_run it (replicate m TimerTick) s = s"
  by (induction m) (simp_all add: timer_run_def timer_tick_def)

lemma timer_run_Cons: "timer_run it (e # es) s = timer_run it es (timer_step it e s)"
  by (simp add: timer_run_def)

lemma cat_entity_fields [simp]:
  "fw_word cat_entity = ''cat''" "fw_typed cat_entity = []" "fw_active cat_entity" "fw_points cat_entity = 30"
  by (simp_all add: cat_entity_def spawn_entity_def)

text \<open>On frozen entities the scan throws at the first match, after locking onto its word.\<close>

lemma typing_scan_frozen:
  "list_all fw_frozen es \<Longrightarrow>
   typing_scan now key es ts s =
     map_option (\<lambda>e. (Some TypeError, es, ts\<lparr>currentWord := Some (fw_word e)\<rparr>, s))
       (find (\<lambda>e. fw_active e \<and> key_eq (nextChar e) key) es)"
  by (induction es) (auto simp: Let_def option.map_comp o_def)

lemma timer_ticks_down:
  "tm_running s \<Longrightarrow> tm_time s = real (Suc n) \<Longrightarrow> k \<le> n \<Longrightarrow>
   timer_run it (replicate k TimerTick) s = s\<lparr>tm_time := real (Suc n - k)\<rparr>"
proof (induction k arbitrary: s n)
  case 0
  then show ?case by (cases s) (simp add: timer_run_def)
next
  case (Suc k)
  then obtain n' where n: "n = Suc n'" "k \<le> n'" by (cases n) auto
  let ?s1 = "s\<lparr>tm_time := real (Suc n')\<rparr>"
  from Suc.prems n have step: "timer_step it TimerTick s = ?s1" by (simp add: timer_tick_down)
  from Suc.prems(1) have "tm_running ?s1" "tm_time ?s1 = real (Suc n')" by simp_all
  from Suc.IH [OF this n(2)] step n show ?case by (simp add: timer_run_Cons)
qed

lemma timer_ticks_end:
  "tm_running s \<Longrightarrow> tm_time s = real (Suc n) \<Longrightarrow> Suc n \<le> m \<Longrightarrow>
   timer_run it (replicate m TimerTick) s =
   s\<lparr>tm_time := 0, tm_running := False, tm_ended := Suc (tm_ended s)\<rparr>"
proof (induction n arbitrary: s m)
  case 0
  then obtain m' where m: "m = Suc m'" by (cases m) auto
  from 0 have "timer_step it TimerTick s = s\<lparr>tm_time := 0, tm_running := False, tm_ended := Suc (tm_ended s)\<rparr>"
    by (simp add: timer_tick_last)
  then show ?case by (simp add: m timer_run_Cons timer_ticks_stopped)
next
  case (Suc n)
  then obtain m' where m: "m = Suc m'" "Suc n \<le> m'" by (cases m) auto
  let ?s1 = "s\<lparr>tm_time := real (Suc n)\<rparr>"
  from Suc.prems have step: "timer_step it TimerTick s = ?s1" by (simp add: timer_tick_down)
  from Suc.prems(1) have "tm_running ?s1" "tm_time ?s1 = real (Suc n)" by simp_all
  from Suc.IH [OF this m(2)] step show ?case by (simp add: m timer_run_Cons)
qed

lemma kb_dispatch_fields [simp]:
  "kb_listeners (kb_dispatch ph l s) = kb_listeners s" "kb_listenDeps (kb_dispatch ph l s) = kb_listenDeps s"
  "kb_refDeps (kb_dispatch ph l s) = kb_refDeps s" "kb_downRef (kb_dispatch ph l s) = kb_downRef s"
  "kb_upRef (kb_dispatch ph l s) = kb_upRef s"
  by (simp_all add: kb_dispatch_def split: prod.split)

lemma kb_fold_dispatch_fields [simp]:
  "kb_listeners (fold (kb_dispatch ph) ls s) = kb_listeners s"
  "kb_listenDeps (fold (kb_dispatch ph) ls s) = kb_listenDeps s"
  "kb_refDeps (fold (kb_dispatch ph) ls s) = kb_refDeps s"
  "kb_downRef (fold (kb_dispatch ph) ls s) = kb_downRef s"
  "kb_upRef (fold (kb_dispatch ph) ls s) = kb_upRef s"
  by (induction ls arbitrary: s) simp_all

lemma kb_ok_step: "kb_ok s \<Longrightarrow> kb_ok (kb_step ev s)"
  by (cases ev)
     (auto simp: kb_ok_def kb_listen_def kb_unlisten_def Let_def split: option.splits if_splits prod.splits)

lemma kb_ok_run: "kb_ok (fold kb_step evs kb_init)"
proof -
  have "kb_ok s \<Longrightarrow> kb_ok (fold kb_step evs s)" for s
    by (induction evs arbitrary: s) (simp_all add: kb_ok_step)
  then show ?thesis by (simp add: kb_ok_def kb_init_def)
qed

lemma kb_render_ok:
  assumes "kb_ok s"
  shows "kb_downRef (kb_step (KbRender p) s) = kp_onKeyDown p \<and> kb_upRef (kb_step (KbRender p) s) = kp_onKeyUp p \<and>
         kb_listeners (kb_step (KbRender p) s) =
           [(opt_or (kp_target p) KbWindow, KeyDownPhase, opt_or (kp_preventDefault p) False),
            (opt_or (kp_target p) KbWindow, KeyUpPhase, opt_or (kp_preventDefault p) False)]"
  using assms
  by (auto simp: kb_ok_def kb_listen_def kb_unlisten_def Let_def split: option.splits if_splits prod.splits)

section \<open>Properties\<close>

text \<open>
  \<open>useKeyboard\<close> never calls a stale handler: after any render, whatever happened
  before, a key press runs exactly the handler of that render, once, and calls
  \<open>preventDefault\<close> exactly when that render asked for it.
\<close>

theorem useKeyboard_latest_handler:
  assumes "kb_ok s"
  shows "let s' = kb_step (KbRender p) s; s'' = kb_step (KbKey KeyDownPhase) s'
         in kb_calls s'' = kb_calls s' @ (case kp_onKeyDown p of Some h \<Rightarrow> [(KeyDownPhase, h)] | None \<Rightarrow> []) \<and>
            kb_prevented s'' = kb_prevented s' + (if opt_or (kp_preventDefault p) False then 1 else 0)"
  using kb_render_ok [OF assms, of p]
  by (simp add: kb_dispatch_def Let_def split: option.split)

text \<open>
  C9: a running countdown started at \<open>n\<close> seconds (a whole number, at least one) counts down one second per tick of its interval and reaches zero after exactly \<open>n\<close> ticks: after \<open>k < n\<close> ticks it still runs with \<open>n - k\<close> seconds left and has not called \<open>onEnd\<close>; from the \<open>n\<close>-th tick on it is stopped at zero and has called \<open>onEnd\<close> once.
\<close>

theorem timer_countdown_terminates:
  "tm_running s \<Longrightarrow> tm_time s = real (Suc n) \<Longrightarrow>
   (\<forall>k \<le> n. timer_run it (replicate k TimerTick) s = s\<lparr>tm_time := real (Suc n - k)\<rparr>) \<and>
   (\<forall>m \<ge> Suc n. timer_run it (replicate m TimerTick) s =
      s\<lparr>tm_time := 0, tm_running := False, tm_ended := Suc (tm_ended s)\<rparr>)"
  by (intro conjI allI impI; (rule timer_ticks_down timer_ticks_end; assumption))

text \<open>
  C30: The \<open>useGame\<close> hook's \<open>end\<close> ends the session and adds exactly the session's
  completed words, typed and correct characters and one game to the player's totals (the
  best combo becomes the larger of the two), and grants 100 experience and 50 coins on a
  victory only.
\<close>

theorem useGame_end_stats:
  "(let (s', p') = useGame_end victory gh (s, p); st = pl_stats p; st' = pl_stats p' in
    s' = endGame victory s \<and>
    totalWordsTyped st' = totalWordsTyped st + wordsCompleted s \<and>
    totalCharactersTyped st' = totalCharactersTyped st + charactersTyped s \<and>
    totalCorrectChars st' = totalCorrectChars st + correctChars s \<and>
    totalGamesPlayed st' = totalGamesPlayed st + 1 \<and>
    st_maxCombo st' = max (st_maxCombo st) (maxCombo s) \<and>
    pl_exp p' = pl_exp p + (if victory then 100 else 0) \<and>
    pl_coins p' = pl_coins p + (if victory then 50 else 0))"
  by (simp add: useGame_end_def useGame_stats_patch_def updateStats_def addCoins_def Let_def)

text \<open>
  C17: the entities the canvas exposes are all frozen, so an unlocked key press that an active entity matches throws a \<open>TypeError\<close> at the assignment to \<open>entity.typed\<close>; by then the hook has locked onto that entity's word with the typed text unchanged, and nothing was counted in the store, so the hook next expects the word's first character again.
\<close>

theorem useTyping_frozen_lock:
  "list_all fw_frozen es \<Longrightarrow> currentWord ts = None \<Longrightarrow>
   find (\<lambda>e. fw_active e \<and> key_eq (nextChar e) key) es = Some e \<Longrightarrow>
   useTyping_handleKeyPress now key (Some es) ts s =
     (Inl TypeError, Some es, ts\<lparr>currentWord := Some (fw_word e)\<rparr>, s)"
  by (cases es) (simp_all add: useTyping_handleKeyPress_def typing_scan_frozen del: typing_scan.simps)

section \<open>Witnesses\<close>

theorem timer_countdown_terminates_witness:
  "tm_running (useTimer_init 3 True) \<and> tm_time (useTimer_init 3 True) = real (Suc 2) \<and>
   timer_run 3 (replicate 2 TimerTick) (useTimer_init 3 True) = (useTimer_init 3 True)\<lparr>tm_time := 1\<rparr> \<and>
   timer_run 3 (replicate 5 TimerTick) (useTimer_init 3 True) =
   (useTimer_init 3 True)\<lparr>tm_time := 0, tm_running := False, tm_ended := Suc (tm_ended (useTimer_init 3 True))\<rparr>"
proof -
  have r: "tm_running (useTimer_init 3 True)" and t: "tm_time (useTimer_init 3 True) = real (Suc 2)"
    by (simp_all add: useTimer_init_def)
  from timer_countdown_terminates [OF r t] have
    "timer_run 3 (replicate 2 TimerTick) (useTimer_init 3 True) = (useTimer_init 3 True)\<lparr>tm_time := real (Suc 2 - 2)\<rparr>"
    "timer_run 3 (replicate 5 TimerTick) (useTimer_init 3 True) =
     (useTimer_init 3 True)\<lparr>tm_time := 0, tm_running := False, tm_ended := Suc (tm_ended (useTimer_init 3 True))\<rparr>"
    by auto
  with r t show ?thesis by simp
qed

theorem useTyping_frozen_lock_witness:
  "list_all fw_frozen [freeze cat_entity] \<and> currentWord useTyping_init = None \<and>
   find (\<lambda>e. fw_active e \<and> key_eq (nextChar e) ''c'') [freeze cat_entity] = Some (freeze cat_entity) \<and>
   useTyping_handleKeyPress 1 ''c'' (Some [freeze cat_entity]) useTyping_init initialSession =
     (Inl TypeError, Some [freeze cat_entity], useTyping_init\<lparr>currentWord := Some ''cat''\<rparr>, initialSession)"
proof -
  have h: "list_all fw_frozen [freeze cat_entity]" "currentWord useTyping_init = None"
    "find (\<lambda>e. fw_active e \<and> key_eq (nextChar e) ''c'') [freeze cat_entity] = Some (freeze cat_entity)"
    by (simp_all add: useTyping_init_def key_eq_def nextChar_def js_at_def to_lower_def)
  from useTyping_frozen_lock [OF h, where now = 1 and s = initialSession] h show ?thesis by simp
qed

end
