(* ===== verification/Utils.thy ===== *)
theory Utils
  imports Prelude "HOL-Library.Multiset"
begin

text \<open>
  The helpers of \<open>src/utils/index.ts\<close> that the metrics theory does not cover, and the
  constant tables of \<open>src/config/index.ts\<close>. Random draws are a function from the draw's
  position (for \<open>shuffleArray\<close>, the loop index) to \<^typ>\<open>real\<close>; whole seconds are
  \<^typ>\<open>nat\<close>. The keys of the finger table are the one-character strings of the source,
  the backslash and the apostrophe written by their codes.
\<close>

section \<open>Random words and shuffling\<close>

definition generateRandomWord :: "(nat \<Rightarrow> real) \<Rightarrow> string list \<Rightarrow> nat \<Rightarrow> string" where
  "generateRandomWord rnd chars len =
     concat (map (\<lambda>i. chars ! nat \<lfloor>rnd i * real (length chars)\<rfloor>) [0..<len])"

text \<open>\<open>[a[i], a[j]] = [a[j], a[i]]\<close>: both reads happen before the two writes.\<close>

definition swap_js :: "nat \<Rightarrow> nat \<Rightarrow> 'a list \<Rightarrow> 'a list" where
  "swap_js i j xs = xs[i := xs ! j, j := xs ! i]"

fun fisher_yates :: "(nat \<Rightarrow> real) \<Rightarrow> nat \<Rightarrow> 'a list \<Rightarrow> 'a list" where
  "fisher_yates rnd 0 xs = xs"
| "fisher_yates rnd (Suc i) xs =
     (let j = nat \<lfloor>rnd (Suc i) * real (Suc i + 1)\<rfloor> in fisher_yates rnd i (swap_js (Suc i) j xs))"

definition shuffleArray :: "(nat \<Rightarrow> real) \<Rightarrow> 'a list \<Rightarrow> 'a list" where
  "shuffleArray rnd array = fisher_yates rnd (length array - 1) array"

definition getRandomItem :: "real \<Rightarrow> 'a list \<Rightarrow> 'a option" where
  "getRandomItem r array = js_at array (nat \<lfloor>r * real (length array)\<rfloor>)"

section \<open>Formatting and arithmetic\<close>

definition padStart2 :: "string \<Rightarrow> string" where
  "padStart2 s = replicate (2 - length s) CHR ''0'' @ s"

definition formatTime :: "nat \<Rightarrow> string" where
  "formatTime seconds = nat_str (seconds div 60) @ '':'' @ padStart2 (nat_str (seconds mod 60))"

text \<open>Reading a \<open>M:SS\<close> string back into seconds (not in the sources; the inverse the
  round trip is stated with).\<close>

definition parseTime :: "string \<Rightarrow> nat" where
  "parseTime str =
     parse_nat (takeWhile (\<lambda>c. c \<noteq> CHR '':'') str) * 60 +
     parse_nat (drop 1 (dropWhile (\<lambda>c. c \<noteq> CHR '':'') str))"

text \<open>\<open>formatNumber\<close> on whole numbers below \<open>2^53\<close>, each of which is a double. The
  quotient \<open>num / d\<close> is the double nearest to the exact quotient, the even one on a tie:
  for a quotient with \<open>2^k \<le> num / d < 2^(k+1)\<close> a multiple \<open>m\<close> of \<open>2^(k-52)\<close>, kept
  as \<open>m\<close> and the scale \<open>2^(52-k)\<close>. \<open>toFixed(1)\<close> then prints the \<open>n\<close> for which \<open>n/10\<close>
  is nearest to that double, the larger on a tie.\<close>

fun log2_floor :: "nat \<Rightarrow> nat" where
  "log2_floor n = (if n < 2 then 0 else Suc (log2_floor (n div 2)))"

definition double_quotient :: "nat \<Rightarrow> nat \<Rightarrow> nat \<times> nat" where
  "double_quotient a d =
     (let k = log2_floor (a div d); sc = 2 ^ (52 - k); q = (a * sc) div d; r = (a * sc) mod d;
          m = (if 2 * r > d then q + 1 else if 2 * r < d then q else if even q then q else q + 1)
      in (m, sc))"

definition toFixed1 :: "nat \<times> nat \<Rightarrow> string" where
  "toFixed1 x =
     (let (m, sc) = x; n = (20 * m + sc) div (2 * sc)
      in nat_str (n div 10) @ ''.'' @ nat_str (n mod 10))"

definition formatNumber :: "nat \<Rightarrow> string" where
  "formatNumber num =
     (if num \<ge> 1000000 then toFixed1 (double_quotient num 1000000) @ ''M''
      else if num \<ge> 1000 then toFixed1 (double_quotient num 1000) @ ''K''
      else nat_str num)"

text \<open>\<open>generateId\<close> returns \<open>crypto.randomUUID()\<close>: the host's draw, a parameter.\<close>

definition generateId :: "string \<Rightarrow> string" where
  "generateId uuid = uuid"

definition clamp :: "real \<Rightarrow> real \<Rightarrow> real \<Rightarrow> real" where
  "clamp value mn mx = min (max value mn) mx"

definition lerp :: "real \<Rightarrow> real \<Rightarrow> real \<Rightarrow> real" where
  "lerp start e t = start + (e - start) * t"

section \<open>Fingers and the keyboard layout\<close>

definition backslash :: string where "backslash = [CHR 0x5C]"
definition apostrophe :: string where "apostrophe = [CHR 0x27]"

definition fingerTable :: "(string \<times> string) list" where
  "fingerTable =
     [(''`'', ''leftPinky''), (''1'', ''leftPinky''), (''q'', ''leftPinky''), (''a'', ''leftPinky''), (''z'', ''leftPinky''),
      (''2'', ''leftRing''), (''w'', ''leftRing''), (''s'', ''leftRing''), (''x'', ''leftRing''),
      (''3'', ''leftMiddle''), (''e'', ''leftMiddle''), (''d'', ''leftMiddle''), (''c'', ''leftMiddle''),
      (''4'', ''leftIndex''), (''5'', ''leftIndex''), (''r'', ''leftIndex''), (''t'', ''leftIndex''),
      (''f'', ''leftIndex''), (''g'', ''leftIndex''), (''v'', ''leftIndex''), (''b'', ''leftIndex''),
      ('' '', ''thumbs''),
      (''6'', ''rightIndex''), (''7'', ''rightIndex''), (''y'', ''rightIndex''), (''u'', ''rightIndex''),
      (''h'', ''rightIndex''), (''j'', ''rightIndex''), (''n'', ''rightIndex''), (''m'', ''rightIndex''),
      (''8'', ''rightMiddle''), (''i'', ''rightMiddle''), (''k'', ''rightMiddle''), ('','', ''rightMiddle''),
      (''9'', ''rightRing''), (''o'', ''rightRing''), (''l'', ''rightRing''), (''.'', ''rightRing''),
      (''0'', ''rightPinky''), (''-'', ''rightPinky''), (''='', ''rightPinky''),
      (''p'', ''rightPinky''), (''['', ''rightPinky''), ('']'', ''rightPinky''), (backslash, ''rightPinky''),
      ('';'', ''rightPinky''), (apostrophe, ''rightPinky''), (''/'', ''rightPinky'')]"

definition getFingerForKey :: "string \<Rightarrow> string" where
  "getFingerForKey key = (case map_of fingerTable (map to_lower key) of Some f \<Rightarrow> f | None \<Rightarrow> ''unknown'')"

definition layout_rows :: "string list list" where
  "layout_rows =
     [''`'' # split_chars ''1234567890'' @ [''-'', ''=''],
      [''q'', ''w'', ''e'', ''r'', ''t'', ''y'', ''u'', ''i'', ''o'', ''p'', ''['', '']'', backslash],
      [''a'', ''s'', ''d'', ''f'', ''g'', ''h'', ''j'', ''k'', ''l'', '';'', apostrophe],
      [''z'', ''x'', ''c'', ''v'', ''b'', ''n'', ''m'', '','', ''.'', ''/'']]"

definition layout_homeRow :: "string list" where
  "layout_homeRow = [''a'', ''s'', ''d'', ''f'', ''j'', ''k'', ''l'', '';'']"

definition layout_fingerMap :: "(string \<times> string list) list" where
  "layout_fingerMap =
     [(''leftPinky'', [''`'', ''1'', ''q'', ''a'', ''z'']),
      (''leftRing'', [''2'', ''w'', ''s'', ''x'']),
      (''leftMiddle'', [''3'', ''e'', ''d'', ''c'']),
      (''leftIndex'', [''4'', ''5'', ''r'', ''t'', ''f'', ''g'', ''v'', ''b'']),
      (''thumbs'', ['' '']),
      (''rightIndex'', [''6'', ''7'', ''y'', ''u'', ''h'', ''j'', ''n'', ''m'']),
      (''rightMiddle'', [''8'', ''i'', ''k'', '','']),
      (''rightRing'', [''9'', ''o'', ''l'', ''.'']),
      (''rightPinky'', [''0'', ''-'', ''='', ''p'', ''['', '']'', backslash, '';'', apostrophe, ''/''])]"

section \<open>Game constants\<close>

record game_config =
  GAME_DURATION :: nat
  SPAWN_INTERVAL :: nat
  MIN_SPAWN_INTERVAL :: nat
  MAX_WORDS_ON_SCREEN :: nat
  WORD_FALL_SPEED :: real
  WORD_POINTS_PER_CHAR :: nat
  COMBO_MULTIPLIER :: real
  DIFFICULTY_SCALE_FACTOR :: real
  STAR_accuracy :: "real list"
  STAR_wpm :: "real list"
  EXP_PER_LEVEL :: nat
  INITIAL_COINS :: nat
  CANVAS_PADDING :: nat
  DANGER_ZONE_HEIGHT :: nat

definition GAME_CONFIG :: game_config where
  "GAME_CONFIG =
     \<lparr>GAME_DURATION = 60, SPAWN_INTERVAL = 2000, MIN_SPAWN_INTERVAL = 800, MAX_WORDS_ON_SCREEN = 5,
      WORD_FALL_SPEED = 3/2, WORD_POINTS_PER_CHAR = 10, COMBO_MULTIPLIER = 1/10,
      DIFFICULTY_SCALE_FACTOR = 1/10, STAR_accuracy = [70, 85, 95], STAR_wpm = [20, 30, 40],
      EXP_PER_LEVEL = 1000, INITIAL_COINS = 0, CANVAS_PADDING = 50, DANGER_ZONE_HEIGHT = 60\<rparr>"

section \<open>Lemmas\<close>

lemma swap_js_mset:
  "i < length xs \<Longrightarrow> j < length xs \<Longrightarrow> mset (swap_js i j xs) = mset xs"
  by (cases "i = j") (simp_all add: swap_js_def list_update_swap mset_swap)

lemma swap_js_length [simp]: "length (swap_js i j xs) = length xs"
  by (simp add: swap_js_def)

lemma fisher_yates_mset:
  "draws_ok rnd \<Longrightarrow> i < length xs \<Longrightarrow> mset (fisher_yates rnd i xs) = mset xs"
proof (induction i arbitrary: xs)
  case 0
  then show ?case by simp
next
  case (Suc i)
  let ?j = "nat \<lfloor>rnd (Suc i) * real (Suc i + 1)\<rfloor>"
  have "?j < Suc i + 1" by (rule draw_index_less [OF Suc.prems(1)]) simp
  with Suc.prems(2) have j: "?j < length xs" by simp
  from Suc.prems(2) have i: "i < length (swap_js (Suc i) ?j xs)" by simp
  from Suc.IH [OF Suc.prems(1) i] swap_js_mset [OF Suc.prems(2) j] show ?case by (simp add: Let_def)
qed

lemma colon_not_digit: "CHR '':'' \<notin> set (nat_str n)"
  using nat_str_digits [of "CHR '':''" n] by auto

lemma parse_nat_zeros: "parse_nat (replicate k CHR ''0'' @ s) = parse_nat s"
proof -
  have "foldl (\<lambda>acc c. acc * 10 + (of_char c - 48)) (0::nat) (replicate k CHR ''0'') = 0"
    by (induction k) simp_all
  then show ?thesis by (simp add: parse_nat_def)
qed

lemma nat_str_colon:
  "takeWhile (\<lambda>c. c \<noteq> CHR '':'') (nat_str n @ ys) = nat_str n @ takeWhile (\<lambda>c. c \<noteq> CHR '':'') ys"
  "dropWhile (\<lambda>c. c \<noteq> CHR '':'') (nat_str n @ ys) = dropWhile (\<lambda>c. c \<noteq> CHR '':'') ys"
  using colon_not_digit [of n] by (auto intro!: takeWhile_append2 dropWhile_append2)

text \<open>\<open>formatNumber\<close> on both sides of its boundaries: \<open>1.15\<close> is not a double and its
  nearest double lies below it, so 1150000 prints as \<open>1.1M\<close>, while the exact tie \<open>1.25\<close>
  rounds up; and 999950 stays in the thousands branch, where its quotient rounds up to
  \<open>1000.0K\<close> instead of \<open>1.0M\<close>.\<close>

lemma formatNumber_examples:
  "formatNumber 999 = ''999''" "formatNumber 1500 = ''1.5K''" "formatNumber 1250000 = ''1.3M''"
  "formatNumber 1150000 = ''1.1M''" "formatNumber 999950 = ''1000.0K''"
  by (simp_all add: formatNumber_def double_quotient_def toFixed1_def nat_str_ge)

section \<open>Properties\<close>

text \<open>
  C11: with random draws in [0, 1), \<open>shuffleArray\<close> returns a permutation of its argument:
  every swap of the Fisher-Yates loop stays inside the array.
\<close>

theorem shuffleArray_permutation:
  "draws_ok rnd \<Longrightarrow> mset (shuffleArray rnd xs) = mset xs"
  by (cases xs) (simp_all add: shuffleArray_def fisher_yates_mset)


text \<open>
  The finger table of \<open>getFingerForKey\<close> and the finger map of \<open>KEYBOARD_LAYOUT\<close> agree:
  every key the layout assigns to a finger is mapped to that finger, and the keys of the rows together with the space bar are exactly the keys the
  finger map lists.
\<close>

theorem finger_tables_agree:
  "list_all (\<lambda>(f, ks). list_all (\<lambda>k. getFingerForKey k = f) ks) layout_fingerMap \<and>
   list_all (\<lambda>k. k \<in> set (concat (map snd layout_fingerMap))) ('' '' # concat layout_rows) \<and>
   list_all (\<lambda>k. k \<in> set ('' '' # concat layout_rows)) (concat (map snd layout_fingerMap))"
  by (simp add: getFingerForKey_def fingerTable_def layout_fingerMap_def layout_rows_def
      backslash_def apostrophe_def to_lower_def)

section \<open>Witnesses\<close>

theorem shuffleArray_permutation_witness:
  "draws_ok (\<lambda>_. 1/2) \<and> mset (shuffleArray (\<lambda>_. 1/2) [''a'', ''b'', ''c'']) = mset [''a'', ''b'', ''c'']"
proof -
  have d: "draws_ok (\<lambda>_. 1/2)" by (simp add: draws_ok_def)
  from d shuffleArray_permutation [OF d] show ?thesis by blast
qed

end
