(* ===== verification/Levels.thy ===== *)
theory Levels
  imports Game Player "HOL-Library.Char_ord" "HOL-Library.List_Lexorder" "HOL-Library.Multiset"
begin

text \<open>
  The campaign around the canvas: the level table of the level-select page
  (\<open>src/pages/LevelSelect/index.tsx\<close>) with its unlock rule and level cards, the level table
  and word generator of the level page (\<open>src/pages/Game/index.tsx\<close>) with its
  \<open>handleGameEnd\<close> and \<open>handleRestart\<close> on the game and player stores, and the progress
  displays of the statistics page (\<open>src/pages/Stats/index.tsx\<close>) and the home page
  (\<open>src/pages/Home/index.tsx\<close>). Level names, icons and descriptions are display text
  and are left out; a level is its id and its mode. Random draws are functions from the
  iteration index to [0, 1); the comparator sort \<open>[...keys].sort(() => Math.random() - 0.5)\<close>
  depends on the engine's sorting algorithm and is a parameter \<open>shuf\<close>, of which the
  properties only assume that it permutes the keys.
\<close>

section \<open>Level select\<close>

record level_entry =
  le_id :: string
  le_mode :: game_mode

record world =
  w_id :: nat
  w_levels :: "level_entry list"

definition worlds :: "world list" where
  "worlds =
     [\<lparr>w_id = 1, w_levels = [\<lparr>le_id = ''1-1'', le_mode = Gravity\<rparr>, \<lparr>le_id = ''1-2'', le_mode = Gravity\<rparr>,
                             \<lparr>le_id = ''1-3'', le_mode = Gravity\<rparr>]\<rparr>,
      \<lparr>w_id = 2, w_levels = [\<lparr>le_id = ''2-1'', le_mode = Runner\<rparr>, \<lparr>le_id = ''2-2'', le_mode = Runner\<rparr>,
                             \<lparr>le_id = ''2-3'', le_mode = Runner\<rparr>]\<rparr>,
      \<lparr>w_id = 3, w_levels = [\<lparr>le_id = ''3-1'', le_mode = Bubble\<rparr>, \<lparr>le_id = ''3-2'', le_mode = Bubble\<rparr>,
                             \<lparr>le_id = ''3-3'', le_mode = Bubble\<rparr>]\<rparr>,
      \<lparr>w_id = 4, w_levels = [\<lparr>le_id = ''4-1'', le_mode = Boss\<rparr>, \<lparr>le_id = ''4-2'', le_mode = Boss\<rparr>,
                             \<lparr>le_id = ''4-3'', le_mode = Boss\<rparr>]\<rparr>]"

text \<open>\<open>player.levelProgress[id]?.completed || false\<close>.\<close>

definition progress_completed :: "(string \<rightharpoonup> level_progress) \<Rightarrow> string \<Rightarrow> bool" where
  "progress_completed lp i = (case lp i of Some r \<Rightarrow> completed r | None \<Rightarrow> False)"

text \<open>Reading \<open>.id\<close> of a level past the end of a world's list throws; \<open>levels[-1]\<close> is
  \<open>undefined\<close>.\<close>

definition isLevelUnlocked :: "(string \<rightharpoonup> level_progress) \<Rightarrow> nat \<Rightarrow> nat \<Rightarrow> js_error + bool" where
  "isLevelUnlocked lp worldId levelIndex =
     (if worldId = 1 \<and> levelIndex = 0 then Inr True
      else case (if 0 < levelIndex then find (\<lambda>w. w_id w = worldId) worlds else None) of
        Some prevWorld \<Rightarrow>
          (case js_at (w_levels prevWorld) (levelIndex - 1) of
             Some prevLevel \<Rightarrow> Inr (progress_completed lp (le_id prevLevel))
           | None \<Rightarrow> Inl TypeError)
      | None \<Rightarrow>
          (case (if 1 < worldId then find (\<lambda>w. w_id w = worldId - 1) worlds else None) of
             Some prevWorld \<Rightarrow>
               (if w_levels prevWorld = [] then Inl TypeError
                else Inr (progress_completed lp (le_id (last (w_levels prevWorld)))))
           | None \<Rightarrow> Inr False))"

text \<open>What a level card shows: its id, whether it is unlocked, whether it is completed,
  and, on an unlocked card only, the link to \<open>/game/<id>\<close>, the best WPM and how many of
  the three stars are filled.\<close>

record level_card =
  card_id :: string
  card_unlocked :: bool
  card_completed :: bool
  card_link :: "string option"
  card_bestWPM :: "int option"
  card_filled :: "nat option"

definition level_card :: "(string \<rightharpoonup> level_progress) \<Rightarrow> level_entry \<Rightarrow> bool \<Rightarrow> level_card" where
  "level_card lp level unlocked =
     (let progress = lp (le_id level);
          ps = (case progress of Some r \<Rightarrow> stars r | None \<Rightarrow> 0)
      in \<lparr>card_id = le_id level, card_unlocked = unlocked, card_completed = progress_completed lp (le_id level),
          card_link = (if unlocked then Some (''/game/'' @ le_id level) else None),
          card_bestWPM = (if unlocked then Some (case progress of Some r \<Rightarrow> bestWPM r | None \<Rightarrow> 0) else None),
          card_filled = (if unlocked then Some (length (filter (\<lambda>star. star \<le> ps) [1, 2, 3])) else None)\<rparr>)"

definition levelCards :: "(string \<rightharpoonup> level_progress) \<Rightarrow> js_error + level_card list" where
  "levelCards lp =
     js_map (\<lambda>(world, index, level). js_bind (isLevelUnlocked lp (w_id world) index) (\<lambda>u. Inr (level_card lp level u)))
       (concat (map (\<lambda>world. map (\<lambda>(index, level). (world, index, level)) (enumerate 0 (w_levels world))) worlds))"

text \<open>The campaign order the worlds list: level after level, world after world.\<close>

definition campaign_ids :: "string list" where
  "campaign_ids = concat (map (\<lambda>world. map le_id (w_levels world)) worlds)"

section \<open>Level page\<close>

record level_config =
  lc_mode :: game_mode
  lc_keys :: "string list"

definition letters :: "string list" where
  "letters = split_chars ''abcdefghijklmnopqrstuvwxyz''"

text \<open>The object literal \<open>levelConfigs\<close>, as a map from its own keys. A lookup
  \<open>levelConfigs[id]\<close> in JavaScript also finds the keys every object inherits
  (\<open>toString\<close>, \<open>constructor\<close>, ...), whose values are functions; the model leaves
  those out, so it says nothing of a level path such as \<open>/game/toString\<close>.\<close>

definition levelConfigs :: "string \<rightharpoonup> level_config" where
  "levelConfigs = map_of
     [(''1-1'', \<lparr>lc_mode = Gravity, lc_keys = [''a'', ''s'', ''d'', ''f'']\<rparr>),
      (''1-2'', \<lparr>lc_mode = Gravity, lc_keys = [''j'', ''k'', ''l'', '';'']\<rparr>),
      (''1-3'', \<lparr>lc_mode = Gravity, lc_keys = [''a'', ''s'', ''d'', ''f'', ''j'', ''k'', ''l'', '';'']\<rparr>),
      (''2-1'', \<lparr>lc_mode = Runner, lc_keys = [''q'', ''w'', ''e'', ''r'', ''t'', ''y'', ''u'', ''i'', ''o'', ''p'']\<rparr>),
      (''2-2'', \<lparr>lc_mode = Runner, lc_keys = [''z'', ''x'', ''c'', ''v'', ''b'', ''n'', ''m'']\<rparr>),
      (''2-3'', \<lparr>lc_mode = Runner, lc_keys = letters\<rparr>),
      (''3-1'', \<lparr>lc_mode = Bubble, lc_keys = split_chars ''1234567890''\<rparr>),
      (''3-2'', \<lparr>lc_mode = Bubble, lc_keys = [''!'', ''@'', ''#'', ''$'', ''%'', ''^'', ''&'', ''*'', ''('', '')'']\<rparr>),
      (''3-3'', \<lparr>lc_mode = Bubble, lc_keys = letters @ split_chars ''1234567890''\<rparr>),
      (''4-1'', \<lparr>lc_mode = Boss, lc_keys = letters\<rparr>),
      (''4-2'', \<lparr>lc_mode = Boss, lc_keys = letters\<rparr>),
      (''4-3'', \<lparr>lc_mode = Boss, lc_keys = letters\<rparr>)]"

text \<open>The four word patterns; the last reads a random key and throws on an empty key list.
  \<open>rk i\<close> is its draw in iteration \<open>i\<close>.\<close>

definition wordPatterns :: "(nat \<Rightarrow> real) \<Rightarrow> nat \<Rightarrow> (string list \<Rightarrow> js_error + string) list" where
  "wordPatterns rk i =
     [\<lambda>k. Inr (concat (take 2 k)), \<lambda>k. Inr (concat (take 3 k)), \<lambda>k. Inr (concat (take 4 k)),
      \<lambda>k. (case js_at k (nat \<lfloor>rk i * real (length k)\<rfloor>) of Some c \<Rightarrow> Inr (c @ c) | None \<Rightarrow> Inl TypeError)]"

definition generateWords ::
  "(nat \<Rightarrow> real) \<Rightarrow> (nat \<Rightarrow> real) \<Rightarrow> (nat \<Rightarrow> string list \<Rightarrow> string list) \<Rightarrow> string list \<Rightarrow> nat \<Rightarrow>
   js_error + string list" where
  "generateWords rp rk shuf keys cnt =
     js_map (\<lambda>i. (wordPatterns rk i ! nat \<lfloor>rp i * 4\<rfloor>) (shuf i keys)) [0..<cnt]"

text \<open>\<open>handleGameEnd\<close> of the level page on the session and the player. The session it reads
  is the one of the render that created the callback, before \<open>endGame\<close>; an empty route
  parameter is falsy.\<close>

definition level_page_end ::
  "ms \<Rightarrow> string option \<Rightarrow> bool \<Rightarrow> game_session \<times> player_data \<Rightarrow> game_session \<times> player_data" where
  "level_page_end now lid victory sp =
     (let (s, p) = sp; s' = endGame victory s in
      case lid of
        Some l \<Rightarrow>
          if l \<noteq> [] \<and> victory then
            (let st = handleGameEnd_stars (accuracy s);
                 old = levelProgress p l;
                 p1 = updateLevelProgress
                        \<lparr>lp_levelId = l, completed = True, stars = st,
                         bestWPM = max (wpm s) (case old of Some r \<Rightarrow> bestWPM r | None \<Rightarrow> 0),
                         bestAccuracy = max (accuracy s) (case old of Some r \<Rightarrow> bestAccuracy r | None \<Rightarrow> 0),
                         attempts = (case old of Some r \<Rightarrow> attempts r | None \<Rightarrow> 0) + 1,
                         completedAt = Some now\<rparr> p
             in (s', addCoins (50 * int st) (addExp (100 * int st) p1)))
          else (s', p)
      | None \<Rightarrow> (s', p))"

definition level_page_restart :: "ms \<Rightarrow> string option \<Rightarrow> game_session \<Rightarrow> game_session" where
  "level_page_restart now lid s =
     (let s1 = resetGame s in
      case lid of
        Some l \<Rightarrow> (case levelConfigs l of Some cfg \<Rightarrow> startGame (lc_mode cfg) (Some l) now s1 | None \<Rightarrow> s1)
      | None \<Rightarrow> s1)"

section \<open>Statistics and home pages\<close>

text \<open>The star cell of a progress row: the numbers of filled and empty stars of a
  completed level (\<open>repeat(stars)\<close> and \<open>repeat(3 - stars)\<close> of a star character, the
  second throwing a \<open>RangeError\<close> on a negative count), or the lock.\<close>

definition star_display :: "(string \<rightharpoonup> level_progress) \<Rightarrow> string \<Rightarrow> js_error + (nat \<times> nat) option" where
  "star_display lp i =
     (let sts = (case lp i of Some r \<Rightarrow> stars r | None \<Rightarrow> 0)
      in if progress_completed lp i then
           (if int 3 - int sts < 0 then Inl RangeError else Inr (Some (sts, 3 - sts)))
         else Inr None)"

definition levelNames :: "string list" where
  "levelNames = [''1-1'', ''1-2'', ''1-3'', ''2-1'', ''2-2'', ''2-3'', ''3-1'', ''3-2'', ''3-3'',
                 ''4-1'', ''4-2'', ''4-3'']"

definition progressRows :: "(string \<rightharpoonup> level_progress) \<Rightarrow> js_error + (string \<times> (nat \<times> nat) option) list" where
  "progressRows lp = js_map (\<lambda>i. js_bind (star_display lp i) (\<lambda>d. Inr (i, d))) levelNames"

datatype play_time = HoursMinutes nat nat | Minutes nat

definition stats_formatTime :: "nat \<Rightarrow> play_time" where
  "stats_formatTime seconds =
     (let hours = seconds div 3600; minutes = (seconds mod 3600) div 60
      in if hours > 0 then HoursMinutes hours minutes else Minutes minutes)"

definition completedLevels :: "(string \<rightharpoonup> level_progress) \<Rightarrow> nat" where
  "completedLevels lp = length (filter (progress_completed lp) (sorted_list_of_set (dom lp)))"

text \<open>The campaign's levels in order, and the well-typedness of the stored progress: only
  campaign levels, each completed with one to three stars.\<close>

definition campaign_levels :: "level_entry list" where
  "campaign_levels = concat (map w_levels worlds)"

definition progress_ok :: "(string \<rightharpoonup> level_progress) \<Rightarrow> bool" where
  "progress_ok lp \<longleftrightarrow> dom lp \<subseteq> set campaign_ids \<and> (\<forall>r\<in>ran lp. completed r \<and> 1 \<le> stars r \<and> stars r \<le> 3)"

section \<open>Lemmas and properties\<close>


lemma levelCards_eq:
  "levelCards lp =
   Inr (map2 (level_card lp) campaign_levels (True # map (progress_completed lp) (butlast campaign_ids)))"
  by (simp add: levelCards_def worlds_def isLevelUnlocked_def campaign_ids_def campaign_levels_def js_at_def)

lemma length_campaign [simp]: "length campaign_ids = 12" "length campaign_levels = 12"
  by (simp_all add: campaign_ids_def campaign_levels_def worlds_def)

lemma campaign_ids_levels: "campaign_ids = map le_id campaign_levels"
  by (simp add: campaign_ids_def campaign_levels_def worlds_def)

text \<open>
  C6: the level-select page renders without throwing one card per campaign level, in
  campaign order, and a level's card is unlocked exactly when it is the first level or the
  level before it in the campaign is completed: the world-by-world rule of
  \<open>isLevelUnlocked\<close> refines the linear unlock chain.
\<close>

theorem levelCards_unlock_chain:
  "\<exists>cs. levelCards lp = Inr cs \<and> map card_id cs = campaign_ids \<and>
        map card_unlocked cs = True # map (progress_completed lp) (butlast campaign_ids)"
  by (simp add: levelCards_eq campaign_ids_levels level_card_def Let_def map2_map_map
      campaign_levels_def worlds_def)


lemma handleGameEnd_stars_range: "1 \<le> handleGameEnd_stars a \<and> handleGameEnd_stars a \<le> 3"
  by (simp add: handleGameEnd_stars_def)

lemma levelProgress_addCoins [simp]: "levelProgress (addCoins c p) = levelProgress p"
  by (simp add: addCoins_def)

lemma level_page_end_progress:
  "levelProgress (snd (level_page_end now lid v (s, p))) =
   (case lid of Some l \<Rightarrow>
      if l \<noteq> [] \<and> v then
        levelProgress (updateLevelProgress
          \<lparr>lp_levelId = l, completed = True, stars = handleGameEnd_stars (accuracy s),
           bestWPM = max (wpm s) (case levelProgress p l of Some r \<Rightarrow> bestWPM r | None \<Rightarrow> 0),
           bestAccuracy = max (accuracy s) (case levelProgress p l of Some r \<Rightarrow> bestAccuracy r | None \<Rightarrow> 0),
           attempts = (case levelProgress p l of Some r \<Rightarrow> attempts r | None \<Rightarrow> 0) + 1,
           completedAt = Some now\<rparr> p)
      else levelProgress p
    | None \<Rightarrow> levelProgress p)"
  by (simp add: level_page_end_def Let_def split: option.split)

lemma updateLevelProgress_cases:
  "levelProgress (updateLevelProgress pr p) = levelProgress p \<or>
   levelProgress (updateLevelProgress pr p) = (levelProgress p)(lp_levelId pr \<mapsto> pr)"
  by (simp add: updateLevelProgress_def split: option.split)

lemma ran_upd_sub: "ran (m(k \<mapsto> v)) \<subseteq> insert v (ran m)"
  by (auto simp: ran_def)

lemma updateLevelProgress_ok:
  assumes "progress_ok (levelProgress p)" "completed pr" "1 \<le> stars pr" "stars pr \<le> 3"
      and "lp_levelId pr \<in> set campaign_ids"
  shows "progress_ok (levelProgress (updateLevelProgress pr p))"
  using updateLevelProgress_cases [of pr p]
proof
  assume "levelProgress (updateLevelProgress pr p) = (levelProgress p)(lp_levelId pr \<mapsto> pr)"
  with assms ran_upd_sub [of "levelProgress p" "lp_levelId pr" pr] show ?thesis
    by (auto simp: progress_ok_def)
qed (use assms in simp)

text \<open>
  C15: the stored level progress keeps its type: the level page's \<open>handleGameEnd\<close> for a
  campaign level (or none) only stores records of campaign levels that are completed with
  one to three stars.
\<close>

theorem level_page_end_progress_ok:
  assumes "progress_ok (levelProgress p)"
      and "case lid of Some l \<Rightarrow> l \<in> set campaign_ids | None \<Rightarrow> True"
  shows "progress_ok (levelProgress (snd (level_page_end now lid v (s, p))))"
proof (cases "\<exists>l. lid = Some l \<and> l \<noteq> [] \<and> v")
  case True
  then obtain l where l: "lid = Some l" "l \<noteq> []" "v" by blast
  with assms(2) have lc: "l \<in> set campaign_ids" by simp
  show ?thesis
    using updateLevelProgress_ok [OF assms(1)] handleGameEnd_stars_range [of "accuracy s"] lc
    by (simp add: level_page_end_progress l)
next
  case False
  then have "levelProgress (snd (level_page_end now lid v (s, p))) = levelProgress p"
    by (auto simp: level_page_end_progress split: option.split)
  with assms(1) show ?thesis by simp
qed


lemma level_page_end_completed:
  assumes "progress_ok (levelProgress p)" "l \<noteq> []"
  shows "progress_completed (levelProgress (snd (level_page_end now (Some l) True (s, p)))) l"
  using updateLevelProgress_cases [of _ p] assms(1)
  by (auto simp: level_page_end_progress assms(2) progress_completed_def updateLevelProgress_def
      progress_ok_def ran_def split: option.split)

lemma campaign_ids_nonempty: "x \<in> set campaign_ids \<Longrightarrow> x \<noteq> []"
  by (auto simp: campaign_ids_def worlds_def)

text \<open>
  C7: winning a campaign level on the level page unlocks the next level on the
  level-select page, whatever was stored for the level before.
\<close>

theorem win_unlocks_next:
  assumes "progress_ok (levelProgress p)" "Suc k < length campaign_ids"
  shows "\<exists>cs. levelCards (levelProgress (snd (level_page_end now (Some (campaign_ids ! k)) True (s, p)))) = Inr cs \<and>
             card_unlocked (cs ! Suc k)"
proof -
  let ?lp = "levelProgress (snd (level_page_end now (Some (campaign_ids ! k)) True (s, p)))"
  from assms(2) have k: "k < 11" by simp
  have "progress_completed ?lp (campaign_ids ! k)"
    using assms(2) by (intro level_page_end_completed [OF assms(1)] campaign_ids_nonempty) simp
  with k show ?thesis
    by (simp add: levelCards_eq level_card_def Let_def nth_butlast)
qed

lemma star_display_ok: "progress_ok lp \<Longrightarrow> \<exists>d. star_display lp i = Inr d"
  by (auto simp: star_display_def progress_ok_def progress_completed_def ran_def Let_def
      split: option.split)

lemma completedLevels_le: "progress_ok lp \<Longrightarrow> completedLevels lp \<le> 12"
proof -
  assume ok: "progress_ok lp"
  then have sub: "dom lp \<subseteq> set campaign_ids" by (simp add: progress_ok_def)
  then have fin: "finite (dom lp)" by (rule finite_subset) simp
  have "completedLevels lp \<le> length (sorted_list_of_set (dom lp))"
    unfolding completedLevels_def by (rule length_filter_le)
  also have "\<dots> = card (dom lp)" by simp
  also have "\<dots> \<le> card (set campaign_ids)" using sub by (rule card_mono [rotated]) simp
  also have "\<dots> \<le> 12" using card_length [of campaign_ids] by simp
  finally show ?thesis .
qed

text \<open>
  With well-typed stored progress the statistics page renders its progress rows without
  the \<open>RangeError\<close> of a negative star count, and the home page never shows more than
  12 of 12 levels completed.
\<close>

theorem progress_pages_safe:
  "progress_ok lp \<Longrightarrow> (\<exists>rows. progressRows lp = Inr rows) \<and> completedLevels lp \<le> 12"
proof -
  assume ok: "progress_ok lp"
  have "\<exists>y. js_bind (star_display lp i) (\<lambda>d. Inr (i, d)) = Inr y \<and> True" for i
  proof -
    from star_display_ok [OF ok] obtain d where "star_display lp i = Inr d" by blast
    then show ?thesis by simp
  qed
  then obtain rows where "progressRows lp = Inr rows"
    unfolding progressRows_def
    using js_map_Inr [of levelNames "\<lambda>i. js_bind (star_display lp i) (\<lambda>d. Inr (i, d))" "\<lambda>_. True"]
    by auto
  with completedLevels_le [OF ok] show ?thesis by blast
qed


lemma levelConfigs_keys:
  "levelConfigs lid = Some cfg \<Longrightarrow> 4 \<le> length (lc_keys cfg) \<and> (\<forall>k\<in>set (lc_keys cfg). length k = 1)"
  by (auto simp: levelConfigs_def letters_def split: if_splits)

lemma length_concat_singletons: "\<forall>x\<in>set xs. length x = 1 \<Longrightarrow> length (concat xs) = length xs"
  by (induction xs) auto

lemma wordPattern_ok:
  assumes "draws_ok rk" "4 \<le> length k" "\<forall>x\<in>set k. length x = 1" "j < 4"
  shows "\<exists>w. (wordPatterns rk i ! j) k = Inr w \<and> 2 \<le> length w \<and> length w \<le> 4 \<and> set w \<subseteq> set (concat k)"
proof -
  have take: "length (concat (take n k)) = n \<and> set (concat (take n k)) \<subseteq> set (concat k)" if "n \<le> 4" for n
    using assms(2,3) that length_concat_singletons [of "take n k"] set_take_subset [of n k]
    by (auto dest: in_set_takeD)
  let ?n = "nat \<lfloor>rk i * real (length k)\<rfloor>"
  have n: "?n < length k"
    using draw_index_less [OF assms(1), of "length k" i] assms(2) by fastforce
  then have "k ! ?n \<in> set k" by simp
  with assms(3) have cc: "length (k ! ?n @ k ! ?n) = 2" "set (k ! ?n @ k ! ?n) \<subseteq> set (concat k)" by auto
  from assms(4) consider "j = 0" | "j = 1" | "j = 2" | "j = 3" by linarith
  then show ?thesis
    using n cc take [of 2] take [of 3] take [of 4]
    by cases (simp_all add: wordPatterns_def js_at_def)
qed

text \<open>
  C25: for every configured level, with draws in [0, 1) and a comparator sort that permutes
  the keys, \<open>generateWords(keys, 20)\<close> does not throw and returns 20 words of two to four
  characters, each made of the level's keys.
\<close>

theorem level_words_ok:
  assumes "levelConfigs lid = Some cfg" "draws_ok rp" "draws_ok rk"
      and "\<And>i. mset (shuf i (lc_keys cfg)) = mset (lc_keys cfg)"
  shows "\<exists>ws. generateWords rp rk shuf (lc_keys cfg) 20 = Inr ws \<and> length ws = 20 \<and>
             (\<forall>w\<in>set ws. 2 \<le> length w \<and> length w \<le> 4 \<and> set w \<subseteq> set (concat (lc_keys cfg)))"
proof -
  let ?P = "\<lambda>w. 2 \<le> length w \<and> length w \<le> 4 \<and> set w \<subseteq> set (concat (lc_keys cfg))"
  have "\<exists>w. (wordPatterns rk i ! nat \<lfloor>rp i * 4\<rfloor>) (shuf i (lc_keys cfg)) = Inr w \<and> ?P w" for i
  proof -
    have perm: "set (shuf i (lc_keys cfg)) = set (lc_keys cfg)" "length (shuf i (lc_keys cfg)) = length (lc_keys cfg)"
      using arg_cong [OF assms(4) [of i], of set_mset] arg_cong [OF assms(4) [of i], of "size :: string multiset \<Rightarrow> nat"] by simp_all
    have j: "nat \<lfloor>rp i * 4\<rfloor> < 4" using draw_index_less [OF assms(2), of 4 i] by simp
    from levelConfigs_keys [OF assms(1)] perm
    have "4 \<le> length (shuf i (lc_keys cfg))" "\<forall>x\<in>set (shuf i (lc_keys cfg)). length x = 1" by auto
    from wordPattern_ok [OF assms(3) this j] perm(1) show ?thesis by simp
  qed
  then show ?thesis
    unfolding generateWords_def
    using js_map_Inr [of "[0..<20]" "\<lambda>i. (wordPatterns rk i ! nat \<lfloor>rp i * 4\<rfloor>) (shuf i (lc_keys cfg))" ?P]
    by auto
qed

text \<open>
  The three level tables of the pages agree: the level-select worlds, the statistics
  page's level names and the level page's configurations list the same twelve levels,
  and each configuration has the mode the level-select page shows.
\<close>

theorem level_tables_agree:
  "campaign_ids = levelNames \<and> dom levelConfigs = set campaign_ids \<and>
   map (\<lambda>l. map_option lc_mode (levelConfigs (le_id l))) campaign_levels = map (\<lambda>l. Some (le_mode l)) campaign_levels"
  by (simp add: campaign_ids_def levelNames_def levelConfigs_def campaign_levels_def worlds_def)

section \<open>Witnesses\<close>

lemma progress_ok_empty: "progress_ok Map.empty"
  by (simp add: progress_ok_def)

theorem level_page_end_progress_ok_witness:
  "progress_ok (levelProgress demo_player) \<and> ''1-1'' \<in> set campaign_ids \<and>
   progress_ok (levelProgress (snd (level_page_end 0 (Some ''1-1'') True (initialSession, demo_player))))"
proof -
  have ok: "progress_ok (levelProgress demo_player)"
    by (simp add: demo_player_def initialPlayer_def progress_ok_empty)
  have c: "''1-1'' \<in> set campaign_ids" by (simp add: campaign_ids_def worlds_def)
  from level_page_end_progress_ok [OF ok, of "Some ''1-1''"] ok c show ?thesis by simp
qed

theorem win_unlocks_next_witness:
  "progress_ok (levelProgress demo_player) \<and> Suc 0 < length campaign_ids \<and>
   (\<exists>cs. levelCards (levelProgress (snd (level_page_end 0 (Some (campaign_ids ! 0)) True (initialSession, demo_player)))) = Inr cs \<and>
         card_unlocked (cs ! Suc 0))"
proof -
  have ok: "progress_ok (levelProgress demo_player)"
    by (simp add: demo_player_def initialPlayer_def progress_ok_empty)
  from win_unlocks_next [OF ok, of 0] ok show ?thesis by simp
qed

theorem progress_pages_safe_witness:
  "progress_ok (levelProgress demo_player) \<and>
   (\<exists>rows. progressRows (levelProgress demo_player) = Inr rows) \<and> completedLevels (levelProgress demo_player) \<le> 12"
proof -
  have ok: "progress_ok (levelProgress demo_player)"
    by (simp add: demo_player_def initialPlayer_def progress_ok_empty)
  from progress_pages_safe [OF ok] ok show ?thesis by simp
qed

theorem level_words_ok_witness:
  "levelConfigs ''1-1'' = Some \<lparr>lc_mode = Gravity, lc_keys = [''a'', ''s'', ''d'', ''f'']\<rparr> \<and>
   draws_ok (\<lambda>_. 0) \<and>
   (\<forall>i. mset ((\<lambda>i ks. rev ks) i [''a'', ''s'', ''d'', ''f'']) = mset [''a'', ''s'', ''d'', ''f'']) \<and>
   (\<exists>ws. generateWords (\<lambda>_. 0) (\<lambda>_. 0) (\<lambda>i ks. rev ks) [''a'', ''s'', ''d'', ''f''] 20 = Inr ws \<and> length ws = 20 \<and>
         (\<forall>w\<in>set ws. 2 \<le> length w \<and> length w \<le> 4 \<and> set w \<subseteq> set (concat [''a'', ''s'', ''d'', ''f''])))"
proof -
  have c: "levelConfigs ''1-1'' = Some \<lparr>lc_mode = Gravity, lc_keys = [''a'', ''s'', ''d'', ''f'']\<rparr>"
    by (simp add: levelConfigs_def)
  have d: "draws_ok (\<lambda>_. 0)" by (simp add: draws_ok_def)
  have m: "\<And>i. mset ((\<lambda>i ks. rev ks) i (lc_keys \<lparr>lc_mode = Gravity, lc_keys = [''a'', ''s'', ''d'', ''f'']\<rparr>)) =
               mset (lc_keys \<lparr>lc_mode = Gravity, lc_keys = [''a'', ''s'', ''d'', ''f'']\<rparr>)" by simp
  from level_words_ok [of "''1-1''" _ "\<lambda>_. 0" "\<lambda>_. 0" "\<lambda>i ks. rev ks", OF c d d m] c d show ?thesis by simp
qed

end
