(* ===== verification/Pages.thy ===== *)
theory Pages
  imports Levels LLM
begin

text \<open>
  The two remaining pages that change state. The settings page
  (\<open>src/pages/Settings/index.tsx\<close>) keeps the name being edited and whether the reset
  dialog is open, and forwards every control to the settings and player stores; a control
  that is not rendered (the API key unless a network provider is chosen, the base URL
  unless the local one is) cannot fire, so its event changes nothing. A range slider
  reports a whole number between its \<open>min\<close> and \<open>max\<close>. The endless page
  (\<open>src/pages/EndlessMode/index.tsx\<close>) keeps its difficulty and two flags, generates its
  words from the difficulty and reacts to the canvas's \<open>onGameEnd\<close> with rewards or a
  higher difficulty. \<open>initial\<close> is the module constant \<open>initialPlayer\<close> the player store
  resets to.
\<close>

section \<open>Settings page\<close>

record settings_page =
  nameInput :: string
  showResetModal :: bool

datatype settings_event =
    EditName string | SaveName | ToggleMute | SetMasterVolume nat | SetSfxVolume nat
  | ToggleHints | ToggleFingerGuide | SelectDifficulty settings_difficulty
  | SelectProvider llm_provider | EditApiKey string | EditBaseUrl string
  | ResetSettings | OpenResetModal | CloseResetModal | ConfirmReset

definition settings_page_init :: "player_data \<Rightarrow> settings_page" where
  "settings_page_init p = \<lparr>nameInput = pl_name p, showResetModal = False\<rparr>"

definition no_audio :: audio_patch where
  "no_audio = \<lparr>ap_masterVolume = None, ap_musicVolume = None, ap_sfxVolume = None, ap_muted = None\<rparr>"

definition no_settings :: settings_patch where
  "no_settings = \<lparr>sp_theme = None, sp_language = None, sp_audio = None, sp_llm = None,
                  sp_showKeyboardHints = None, sp_showFingerGuide = None, sp_difficulty = None\<rparr>"

definition no_llm :: llm_patch where
  "no_llm = \<lparr>lp_provider = None, lp_apiKey = None, lp_baseUrl = None, lp_model = None\<rparr>"

definition handleSavePlayerName :: "settings_page \<Rightarrow> player_data \<Rightarrow> player_data" where
  "handleSavePlayerName pg p =
     (if js_trim (nameInput pg) \<noteq> [] then setPlayerName (js_trim (nameInput pg)) p else p)"

definition handleResetProgress ::
  "player_data \<Rightarrow> settings_page \<times> player_data \<Rightarrow> settings_page \<times> player_data" where
  "handleResetProgress initial pp =
     (let (pg, p) = pp in (pg\<lparr>showResetModal := False\<rparr>, resetPlayer initial p))"

fun settings_step ::
  "player_data \<Rightarrow> settings_event \<Rightarrow> settings_page \<times> game_settings \<times> player_data \<Rightarrow>
   settings_page \<times> game_settings \<times> player_data" where
  "settings_step initial (EditName v) (pg, st, p) = (pg\<lparr>nameInput := v\<rparr>, st, p)"
| "settings_step initial SaveName (pg, st, p) = (pg, st, handleSavePlayerName pg p)"
| "settings_step initial ToggleMute (pg, st, p) =
     (pg, updateAudio (no_audio\<lparr>ap_muted := Some (\<not> muted (audio st))\<rparr>) st, p)"
| "settings_step initial (SetMasterVolume v) (pg, st, p) =
     (pg, updateAudio (no_audio\<lparr>ap_masterVolume := Some (real v / 100)\<rparr>) st, p)"
| "settings_step initial (SetSfxVolume v) (pg, st, p) =
     (pg, updateAudio (no_audio\<lparr>ap_sfxVolume := Some (real v / 100)\<rparr>) st, p)"
| "settings_step initial ToggleHints (pg, st, p) =
     (pg, updateSettings (no_settings\<lparr>sp_showKeyboardHints := Some (\<not> showKeyboardHints st)\<rparr>) st, p)"
| "settings_step initial ToggleFingerGuide (pg, st, p) =
     (pg, updateSettings (no_settings\<lparr>sp_showFingerGuide := Some (\<not> showFingerGuide st)\<rparr>) st, p)"
| "settings_step initial (SelectDifficulty d) (pg, st, p) =
     (pg, updateSettings (no_settings\<lparr>sp_difficulty := Some d\<rparr>) st, p)"
| "settings_step initial (SelectProvider pr) (pg, st, p) =
     (pg, updateLLM (no_llm\<lparr>lp_provider := Some pr\<rparr>) st, p)"
| "settings_step initial (EditApiKey k) (pg, st, p) =
     (if provider (llm st) \<noteq> Static then (pg, updateLLM (no_llm\<lparr>lp_apiKey := Some k\<rparr>) st, p)
      else (pg, st, p))"
| "settings_step initial (EditBaseUrl u) (pg, st, p) =
     (if provider (llm st) = Local then (pg, updateLLM (no_llm\<lparr>lp_baseUrl := Some u\<rparr>) st, p)
      else (pg, st, p))"
| "settings_step initial ResetSettings (pg, st, p) = (pg, resetSettings st, p)"
| "settings_step initial OpenResetModal (pg, st, p) = (pg\<lparr>showResetModal := True\<rparr>, st, p)"
| "settings_step initial CloseResetModal (pg, st, p) = (pg\<lparr>showResetModal := False\<rparr>, st, p)"
| "settings_step initial ConfirmReset (pg, st, p) =
     (if showResetModal pg then (let (pg', p') = handleResetProgress initial (pg, p) in (pg', st, p'))
      else (pg, st, p))"

definition settings_run ::
  "player_data \<Rightarrow> settings_event list \<Rightarrow> settings_page \<times> game_settings \<times> player_data \<Rightarrow>
   settings_page \<times> game_settings \<times> player_data" where
  "settings_run initial evs x = fold (settings_step initial) evs x"

text \<open>What the range inputs can report: whole numbers from 0 to 100.\<close>

fun slider_ok :: "settings_event \<Rightarrow> bool" where
  "slider_ok (SetMasterVolume v) = (v \<le> 100)"
| "slider_ok (SetSfxVolume v) = (v \<le> 100)"
| "slider_ok _ = True"

definition volumes_ok :: "audio_settings \<Rightarrow> bool" where
  "volumes_ok a \<longleftrightarrow> 0 \<le> masterVolume a \<and> masterVolume a \<le> 1 \<and> 0 \<le> musicVolume a \<and>
     musicVolume a \<le> 1 \<and> 0 \<le> sfxVolume a \<and> sfxVolume a \<le> 1"

section \<open>Endless page\<close>

record endless_page =
  ep_difficulty :: nat
  ep_isStarted :: bool
  ep_isGameOver :: bool

definition endless_page_init :: endless_page where
  "endless_page_init = \<lparr>ep_difficulty = 1, ep_isStarted = False, ep_isGameOver = False\<rparr>"

text \<open>\<open>word += allKeys[i]\<close>: an index past the end reads \<open>undefined\<close>, which string
  concatenation spells out.\<close>

definition endless_char :: "real \<Rightarrow> string" where
  "endless_char r = (case js_at letters (nat \<lfloor>r * real (length letters)\<rfloor>) of Some c \<Rightarrow> c | None \<Rightarrow> ''undefined'')"

definition generateEndlessWords :: "(nat \<Rightarrow> nat \<Rightarrow> real) \<Rightarrow> nat \<Rightarrow> string list" where
  "generateEndlessWords rnd dif =
     (let wordLength = min (3 + dif div 5) 8
      in map (\<lambda>i. concat (map (\<lambda>j. endless_char (rnd i j)) [0..<wordLength])) [0..<30])"

definition endless_handleStart :: "ms \<Rightarrow> endless_page \<times> game_session \<Rightarrow> endless_page \<times> game_session" where
  "endless_handleStart now ps =
     (let (pg, s) = ps
      in (pg\<lparr>ep_isStarted := True, ep_isGameOver := False, ep_difficulty := 1\<rparr>, startGame Gravity None now s))"

definition endless_page_end ::
  "bool \<Rightarrow> endless_page \<times> game_session \<times> player_data \<Rightarrow> endless_page \<times> game_session \<times> player_data" where
  "endless_page_end victory x =
     (let (pg, s, p) = x
      in if \<not> victory then
           (pg\<lparr>ep_isGameOver := True\<rparr>, endGame False s,
            addCoins (int (ep_difficulty pg) * 5) (addExp (int (ep_difficulty pg) * 10) p))
         else (pg\<lparr>ep_difficulty := ep_difficulty pg + 1\<rparr>, s, p))"

definition endless_handleRestart :: "ms \<Rightarrow> endless_page \<times> game_session \<Rightarrow> endless_page \<times> game_session" where
  "endless_handleRestart now ps =
     (let (pg, s) = ps
      in (pg\<lparr>ep_isGameOver := False, ep_difficulty := 1\<rparr>, startGame Gravity None now (resetGame s)))"

section \<open>Lemmas and properties\<close>


lemma volumes_ok_step:
  "volumes_ok (audio st) \<Longrightarrow> slider_ok ev \<Longrightarrow>
   settings_step initial ev (pg, st, p) = (pg', st', p') \<Longrightarrow> volumes_ok (audio st')"
  by (cases ev)
     (auto simp: volumes_ok_def updateAudio_def assign_audio_def no_audio_def updateSettings_def
        no_settings_def updateLLM_def resetSettings_def initialSettings_def handleResetProgress_def
        split: if_splits)

text \<open>
  C34: the settings page keeps every audio volume in [0, 1]: whatever controls are used, in
  any order, the sliders (reporting 0 to 100) and the reset only ever store volumes in
  range.
\<close>

theorem settings_volumes_ok:
  "volumes_ok (audio st) \<Longrightarrow> list_all slider_ok evs \<Longrightarrow>
   volumes_ok (audio (fst (snd (settings_run initial evs (pg, st, p)))))"
proof (induction evs arbitrary: pg st p)
  case Nil
  then show ?case by (simp add: settings_run_def)
next
  case (Cons ev evs)
  obtain pg' st' p' where s: "settings_step initial ev (pg, st, p) = (pg', st', p')"
    by (cases "settings_step initial ev (pg, st, p)") auto
  from Cons.prems s have "volumes_ok (audio st')" by (auto intro: volumes_ok_step)
  with Cons.IH [of st' pg' p'] Cons.prems(2) s show ?case by (simp add: settings_run_def)
qed

text \<open>
  C35: resetting the progress on the settings page resets the player's name, but the name
  field keeps the old name (its state is initialised once, at mount), so a later "save"
  writes the old name back.
\<close>

theorem reset_then_save_restores_name:
  assumes "js_trim (pl_name p) = pl_name p" "pl_name p \<noteq> []"
  shows "(let (pg1, st1, p1) = settings_run initial [OpenResetModal, ConfirmReset] (settings_page_init p, st, p);
              (pg2, st2, p2) = settings_step initial SaveName (pg1, st1, p1)
          in pl_name p1 = pl_name initial \<and> nameInput pg1 = pl_name p \<and> pl_name p2 = pl_name p)"
  using assms
  by (simp add: settings_run_def settings_page_init_def handleResetProgress_def resetPlayer_def
      handleSavePlayerName_def setPlayerName_def)

lemma endless_char_letter:
  assumes r: "0 \<le> r" "r < 1"
  shows "\<exists>c. endless_char r = [c] \<and> c \<in> set ''abcdefghijklmnopqrstuvwxyz''"
proof -
  define abc where "abc = ''abcdefghijklmnopqrstuvwxyz''"
  have l: "letters = map (\<lambda>c. [c]) abc" by (simp add: letters_def split_chars_def abc_def)
  define n where "n = nat \<lfloor>r * real (length letters)\<rfloor>"
  have n: "n < length abc"
    using random_index_less [OF r, of "length letters"] by (simp add: n_def l abc_def)
  have "endless_char r = [abc ! n]"
    unfolding endless_char_def n_def [symmetric] using n by (simp add: l js_at_def)
  with nth_mem [OF n] show ?thesis unfolding abc_def by blast
qed

text \<open>
  With draws in [0, 1), the endless page generates 30 words of
  \<open>min(3 + floor(difficulty / 5), 8)\<close> lower-case letters each (never the text
  "undefined" of an index past the alphabet).
\<close>

theorem endless_words_ok:
  "(\<forall>i. draws_ok (rnd i)) \<Longrightarrow>
   length (generateEndlessWords rnd dif) = 30 \<and>
   (\<forall>w\<in>set (generateEndlessWords rnd dif).
      length w = min (3 + dif div 5) 8 \<and> set w \<subseteq> set ''abcdefghijklmnopqrstuvwxyz'')"
proof -
  assume d: "\<forall>i. draws_ok (rnd i)"
  have c: "\<exists>c. endless_char (rnd i j) = [c] \<and> c \<in> set ''abcdefghijklmnopqrstuvwxyz''" for i j
    using d endless_char_letter [of "rnd i j"] by (simp add: draws_ok_def)
  have len: "length (concat (map (\<lambda>j. endless_char (rnd i j)) [0..<n])) = n" for i n
    using c [of i] by (induction n) (auto, metis length_Cons list.size(3))
  have chars: "set (concat (map (\<lambda>j. endless_char (rnd i j)) [0..<n])) \<subseteq> set ''abcdefghijklmnopqrstuvwxyz''" for i n
  proof (induction n)
    case (Suc n)
    from c [of i n] obtain ch where "endless_char (rnd i n) = [ch]" "ch \<in> set ''abcdefghijklmnopqrstuvwxyz''"
      by blast
    with Suc show ?case by simp
  qed simp
  show ?thesis using len chars by (auto simp: generateEndlessWords_def Let_def)
qed

section \<open>Witnesses\<close>

theorem settings_volumes_ok_witness:
  "volumes_ok (audio initialSettings) \<and> list_all slider_ok [SetMasterVolume 50, ToggleMute, SetSfxVolume 100] \<and>
   volumes_ok (audio (fst (snd (settings_run demo_player [SetMasterVolume 50, ToggleMute, SetSfxVolume 100]
     (settings_page_init demo_player, initialSettings, demo_player)))))"
proof -
  have v: "volumes_ok (audio initialSettings)" by (simp add: volumes_ok_def initialSettings_def)
  have l: "list_all slider_ok [SetMasterVolume 50, ToggleMute, SetSfxVolume 100]" by simp
  from settings_volumes_ok [OF v l] v l show ?thesis by simp
qed

theorem reset_then_save_restores_name_witness:
  "js_trim (pl_name (setPlayerName ''ann'' demo_player)) = pl_name (setPlayerName ''ann'' demo_player) \<and>
   pl_name (setPlayerName ''ann'' demo_player) \<noteq> [] \<and>
   (let (pg1, st1, p1) = settings_run demo_player [OpenResetModal, ConfirmReset]
                           (settings_page_init (setPlayerName ''ann'' demo_player), initialSettings, setPlayerName ''ann'' demo_player);
        (pg2, st2, p2) = settings_step demo_player SaveName (pg1, st1, p1)
    in pl_name p1 = pl_name demo_player \<and> nameInput pg1 = pl_name (setPlayerName ''ann'' demo_player) \<and>
       pl_name p2 = pl_name (setPlayerName ''ann'' demo_player))"
proof -
  have t: "js_trim (pl_name (setPlayerName ''ann'' demo_player)) = pl_name (setPlayerName ''ann'' demo_player)"
    by (simp add: setPlayerName_def js_trim_def js_space_def)
  have n: "pl_name (setPlayerName ''ann'' demo_player) \<noteq> []" by (simp add: setPlayerName_def)
  from reset_then_save_restores_name [OF t n, of demo_player initialSettings] t n show ?thesis by simp
qed

theorem endless_words_ok_witness:
  "(\<forall>i. draws_ok ((\<lambda>_ _. 0) i)) \<and> length (generateEndlessWords (\<lambda>_ _. 0) 7) = 30 \<and>
   list_all (\<lambda>w. length w = min (3 + 7 div 5) 8 \<and> set w \<subseteq> set ''abcdefghijklmnopqrstuvwxyz'')
     (generateEndlessWords (\<lambda>_ _. 0) 7)"
proof -
  have d: "\<forall>i. draws_ok ((\<lambda>_ _. 0) i)" by (simp add: draws_ok_def)
  from endless_words_ok [OF d, of 7] d show ?thesis by (simp only: list_all_iff) blast
qed

end
