(* ===== verification/Display.thy ===== *)
theory Display
  imports Session
begin

text \<open>
  The values the presentational components compute from the session before drawing them:
  the head-up display (\<open>src/components/game/GameHUD.tsx\<close>), the progress bar
  (\<open>src/components/common/ProgressBar.tsx\<close>), the result card
  (\<open>src/components/level/LevelResult.tsx\<close>) and the navigation highlight of the header
  (\<open>src/components/layout/Header.tsx\<close>). Colours and variants are datatypes named after
  what the code selects; the markup around them is not modelled.
\<close>

section \<open>Number formatting\<close>

text \<open>\<open>x.toFixed(0)\<close> for \<open>x \<ge> 0\<close>: the nearest integer, the larger one on a tie.\<close>

definition toFixed0 :: "real \<Rightarrow> string" where
  "toFixed0 x = nat_str (nat (round x))"

definition is_digit :: "char \<Rightarrow> bool" where
  "is_digit c \<longleftrightarrow> 48 \<le> (of_char c :: nat) \<and> (of_char c :: nat) < 58"

text \<open>\<open>Number(s)\<close> on a string of decimal digits followed by a suffix that is not white
  space and does not continue the number (such as \<open>%\<close>): \<open>NaN\<close>, here \<open>None\<close>, as soon
  as the suffix is not empty. Strings of other shapes do not reach it.\<close>

definition js_Number_digits :: "string \<Rightarrow> real option" where
  "js_Number_digits s =
     (let ds = takeWhile is_digit s; rest = dropWhile is_digit s
      in if ds \<noteq> [] \<and> rest = [] then Some (real (parse_nat ds)) else None)"

section \<open>Head-up display\<close>

definition formatAccuracy :: "real \<Rightarrow> string" where
  "formatAccuracy acc = toFixed0 acc @ ''%''"

datatype text_colour = Green | Amber | Red

text \<open>The colour of \<open>AccuracyValue\<close>: computed from \<open>Number(children)\<close>; every comparison
  with \<open>NaN\<close> is false.\<close>

definition accuracyColour :: "string \<Rightarrow> text_colour" where
  "accuracyColour children =
     (case js_Number_digits children of
        Some v \<Rightarrow> if v \<ge> 95 then Green else if v \<ge> 85 then Amber else Red
      | None \<Rightarrow> Red)"

datatype bar_variant = BarDefault | BarHealth | BarMana | BarExp | BarCombo | BarTimer

definition accuracyVariant :: "real \<Rightarrow> bar_variant" where
  "accuracyVariant acc =
     (if acc \<ge> 90 then BarDefault else if acc \<ge> 70 then BarCombo else BarHealth)"

section \<open>Progress bar\<close>

definition progress_percentage :: "real \<Rightarrow> real \<Rightarrow> real" where
  "progress_percentage value mx = value / mx * 100"

definition fill_width :: "real \<Rightarrow> real" where
  "fill_width percentage = min 100 (max 0 percentage)"

text \<open>The component: \<open>max\<close> defaults to 100, the variant to \<open>default\<close>; the label row,
  shown only with \<open>showLabel\<close>, reads \<open>label\<close> and \<open>value/max\<close>; the size only styles.\<close>

record progress_props =
  pb_value :: real
  pb_max :: "real option"
  pb_variant :: "bar_variant option"
  pb_showLabel :: "bool option"
  pb_label :: "string option"
  pb_animated :: "bool option"

record progress_view =
  pv_label :: "(string option \<times> real \<times> real) option"
  pv_width :: real
  pv_variant :: bar_variant
  pv_animated :: bool

definition progressBar :: "progress_props \<Rightarrow> progress_view" where
  "progressBar p =
     (let mx = opt_or (pb_max p) 100; percentage = progress_percentage (pb_value p) mx
      in \<lparr>pv_label = (if opt_or (pb_showLabel p) False then Some (pb_label p, pb_value p, mx) else None),
          pv_width = fill_width percentage, pv_variant = opt_or (pb_variant p) BarDefault,
          pv_animated = opt_or (pb_animated p) False\<rparr>)"

record hud_view =
  hud_time :: int
  hud_time_width :: real
  hud_score :: int
  hud_combo :: nat
  hud_combo_active :: bool
  hud_maxCombo :: nat
  hud_wpm :: int
  hud_accuracy :: string
  hud_accuracy_colour :: text_colour
  hud_accuracy_width :: real
  hud_accuracy_variant :: bar_variant
  hud_words :: nat

definition gameHUD :: "game_session \<Rightarrow> hud_view" where
  "gameHUD s =
     \<lparr>hud_time = timeRemaining s,
      hud_time_width = fill_width (progress_percentage (real_of_int (timeRemaining s)) 60),
      hud_score = \<lfloor>score s\<rfloor>, hud_combo = combo s, hud_combo_active = (combo s > 0),
      hud_maxCombo = maxCombo s, hud_wpm = wpm s,
      hud_accuracy = formatAccuracy (accuracy s),
      hud_accuracy_colour = accuracyColour (formatAccuracy (accuracy s)),
      hud_accuracy_width = fill_width (progress_percentage (accuracy s) 100),
      hud_accuracy_variant = accuracyVariant (accuracy s),
      hud_words = wordsCompleted s\<rparr>"

section \<open>Result card\<close>

text \<open>\<open>LevelResult.tsx\<close> has its own copy of the star rule.\<close>

definition result_calculateStars :: "real \<Rightarrow> real \<Rightarrow> nat" where
  "result_calculateStars acc wp =
     (if acc \<ge> 95 \<and> wp \<ge> 40 then 3
      else if acc \<ge> 85 \<and> wp \<ge> 30 then 2
      else if acc \<ge> 70 then 1 else 0)"

record result_view =
  rv_victory :: bool
  rv_stars :: "bool list option"
  rv_score :: int
  rv_wpm :: int
  rv_accuracy :: string
  rv_maxCombo :: nat

definition levelResult :: "bool \<Rightarrow> real \<Rightarrow> int \<Rightarrow> real \<Rightarrow> nat \<Rightarrow> result_view" where
  "levelResult victory sc w acc mc =
     (let st = (if victory then result_calculateStars acc (real_of_int w) else 0)
      in \<lparr>rv_victory = victory,
          rv_stars = (if victory then Some (map (\<lambda>i. i \<le> st) [1, 2, 3]) else None),
          rv_score = \<lfloor>sc\<rfloor>, rv_wpm = w, rv_accuracy = toFixed0 acc @ ''%'', rv_maxCombo = mc\<rparr>)"

text \<open>The result card of the level page, from the session it renders with.\<close>

definition level_result_of :: "game_session \<Rightarrow> result_view" where
  "level_result_of s = levelResult (state s = Victory) (score s) (wpm s) (accuracy s) (maxCombo s)"

section \<open>Header\<close>

definition isActive :: "string \<Rightarrow> string \<Rightarrow> bool" where
  "isActive pathname path = (if path = ''/'' then pathname = ''/'' else prefix path pathname)"

definition nav_paths :: "string list" where
  "nav_paths = [''/'', ''/levels'', ''/endless'', ''/stats'', ''/settings'']"

definition active_links :: "string \<Rightarrow> string list" where
  "active_links pathname = filter (isActive pathname) nav_paths"

section \<open>Lemmas and properties\<close>

text \<open>A bar's fill stays within its track, whatever value and maximum it is given.\<close>

lemma progressBar_width: "0 \<le> pv_width (progressBar p) \<and> pv_width (progressBar p) \<le> 100"
  by (simp add: progressBar_def fill_width_def Let_def)


lemma nat_str_all_digits: "\<forall>c\<in>set (nat_str n). is_digit c"
  using nat_str_digits by (auto simp: is_digit_def)

lemma percent_not_digit: "\<not> is_digit CHR ''%''"
  by (simp add: is_digit_def)

lemma js_Number_digits_percent: "js_Number_digits (nat_str n @ ''%'') = None"
proof -
  have "dropWhile is_digit (nat_str n @ ''%'') = ''%''"
    using nat_str_all_digits [of n] percent_not_digit by (simp add: dropWhile_append2)
  then show ?thesis by (simp add: js_Number_digits_def Let_def)
qed

text \<open>
  C36: the accuracy of the head-up display is always drawn in the "bad" colour: the colour
  is computed from \<open>Number("96%")\<close>, which is \<open>NaN\<close>, so neither threshold is ever met.
\<close>

theorem hud_accuracy_always_red: "hud_accuracy_colour (gameHUD s) = Red"
  by (simp add: gameHUD_def accuracyColour_def formatAccuracy_def toFixed0_def js_Number_digits_percent)

text \<open>
  The result card and the statistics helpers use the same star rule: the copy in
  \<open>LevelResult.tsx\<close> agrees with \<open>calculateStars\<close> of \<open>utils/index.ts\<close>, and a won level's
  card fills exactly that many of its three stars.
\<close>

theorem result_stars_agree:
  "result_calculateStars a w = calculateStars a w \<and>
   rv_stars (levelResult True sc wi acc mc) =
     Some (map (\<lambda>i. i \<le> calculateStars acc (real_of_int wi)) [1, 2, 3])"
  by (simp add: result_calculateStars_def calculateStars_def levelResult_def Let_def)

end
