(* ===== verification/Shell.thy ===== *)
theory Shell
  imports Pages Display
begin

text \<open>
  The application shell: the route table of \<open>src/app/router.tsx\<close> with React Router's
  path matching, the dialog of \<open>src/components/common/Modal.tsx\<close> with the effect that
  registers its Escape listener on \<open>document\<close> and locks the page scroll, the disabled
  rule of \<open>src/components/common/Button.tsx\<close>, the figures of the home page
  (\<open>src/pages/Home/index.tsx\<close>), and the stat cards and achievement grid of the
  statistics page (\<open>src/pages/Stats/index.tsx\<close>), and what the endless page draws
  (\<open>src/pages/EndlessMode/index.tsx\<close>). A route's element is the page it renders; the lazy
  loading and the \<open>Suspense\<close> fallback only delay it. A callback's identity is a number:
  a new arrow function on every render is a new number.
\<close>

section \<open>Router\<close>

datatype route_page =
    HomePage | LevelSelectPage | GamePage string | EndlessModePage | SettingsPage | StatsPage

text \<open>React Router compiles each path to a case-insensitive regular expression that
  allows trailing slashes: \<open>^/*$\<close> for the index route, \<open>^/levels/*$\<close>,
  \<open>^/game/([^/]+)/*$\<close> and so on; a dynamic segment is any non-empty text without a
  slash (the ids are ASCII, so URL decoding changes nothing). A path no route matches
  renders the router's error element.\<close>

definition strip_trailing_slashes :: "string \<Rightarrow> string" where
  "strip_trailing_slashes p = rev (dropWhile (\<lambda>c. c = CHR ''/'') (rev p))"

definition static_page :: "string \<Rightarrow> route_page option" where
  "static_page s =
     (let t = map to_lower s
      in if t = ''levels'' then Some LevelSelectPage
         else if t = ''endless'' then Some EndlessModePage
         else if t = ''settings'' then Some SettingsPage
         else if t = ''stats'' then Some StatsPage
         else None)"

definition matchRoute :: "string \<Rightarrow> route_page option" where
  "matchRoute pathname =
     (case pathname of
        c # _ \<Rightarrow>
          if c \<noteq> CHR ''/'' then None
          else (let p = strip_trailing_slashes pathname
                in if p = [] then Some HomePage
                   else (case split_on (\<lambda>c. c = CHR ''/'') (tl p) of
                           [s] \<Rightarrow> static_page s
                         | [s, lid] \<Rightarrow> if map to_lower s = ''game'' \<and> lid \<noteq> [] then Some (GamePage lid) else None
                         | _ \<Rightarrow> None))
      | [] \<Rightarrow> None)"

text \<open>What the level page shows for its route parameter: the level, or the "level does not
  exist" screen when \<open>levelConfigs\<close> has no entry; only a found level starts a game.\<close>

datatype level_screen = LevelScreen level_config | LevelNotFound

definition level_screen :: "string \<Rightarrow> level_screen" where
  "level_screen lid = (case levelConfigs lid of Some cfg \<Rightarrow> LevelScreen cfg | None \<Rightarrow> LevelNotFound)"

definition level_page_mount :: "ms \<Rightarrow> string \<Rightarrow> game_session \<Rightarrow> game_session" where
  "level_page_mount now lid s =
     (case levelConfigs lid of Some cfg \<Rightarrow> startGame (lc_mode cfg) (Some lid) now s | None \<Rightarrow> s)"

section \<open>Modal\<close>

record modal_props =
  mp_isOpen :: bool
  mp_onClose :: nat

text \<open>The document as the dialog sees it: the keydown listeners registered on it (by the
  identity of \<open>handleEscape\<close>, which \<open>useCallback\<close> keeps as long as \<open>onClose\<close>),
  \<open>document.body.style.overflow\<close>, the dependencies of the last committed effect
  (\<open>None\<close> while the dialog is not mounted) and the calls of \<open>onClose\<close> so far.\<close>

record modal_sys =
  ms_deps :: "modal_props option"
  ms_listeners :: "nat list"
  ms_overflow :: string
  ms_closes :: "nat list"

datatype modal_event =
    MRender bool nat | MUnmount | MEscape | MOtherKey | MOverlayClick | MContainerClick | MCloseButton

definition modal_init :: modal_sys where
  "modal_init = \<lparr>ms_deps = None, ms_listeners = [], ms_overflow = [], ms_closes = []\<rparr>"

text \<open>\<open>addEventListener\<close> ignores a listener already registered;
  \<open>removeEventListener\<close> removes it.\<close>

definition addListener :: "nat \<Rightarrow> nat list \<Rightarrow> nat list" where
  "addListener h ls = (if h \<in> set ls then ls else ls @ [h])"

definition modal_effect :: "modal_props \<Rightarrow> modal_sys \<Rightarrow> modal_sys" where
  "modal_effect p m =
     (if mp_isOpen p then m\<lparr>ms_listeners := addListener (mp_onClose p) (ms_listeners m), ms_overflow := ''hidden''\<rparr>
      else m)"

definition modal_cleanup :: "modal_props \<Rightarrow> modal_sys \<Rightarrow> modal_sys" where
  "modal_cleanup q m = m\<lparr>ms_listeners := removeAll (mp_onClose q) (ms_listeners m), ms_overflow := []\<rparr>"

text \<open>A render commits the effect when it is the first one or a dependency changed, after
  the cleanup of the previous one. The overlay and the close button exist only while the
  dialog is open; a click inside the dialog stops at the container.\<close>

fun modal_step :: "modal_event \<Rightarrow> modal_sys \<Rightarrow> modal_sys" where
  "modal_step (MRender opn h) m =
     (let p = \<lparr>mp_isOpen = opn, mp_onClose = h\<rparr>
      in case ms_deps m of
           None \<Rightarrow> (modal_effect p m)\<lparr>ms_deps := Some p\<rparr>
         | Some q \<Rightarrow> if q = p then m else (modal_effect p (modal_cleanup q m))\<lparr>ms_deps := Some p\<rparr>)"
| "modal_step MUnmount m =
     (case ms_deps m of None \<Rightarrow> m | Some q \<Rightarrow> (modal_cleanup q m)\<lparr>ms_deps := None\<rparr>)"
| "modal_step MEscape m = m\<lparr>ms_closes := ms_closes m @ ms_listeners m\<rparr>"
| "modal_step MOtherKey m = m"
| "modal_step MOverlayClick m =
     (case ms_deps m of
        Some q \<Rightarrow> if mp_isOpen q then m\<lparr>ms_closes := ms_closes m @ [mp_onClose q]\<rparr> else m
      | None \<Rightarrow> m)"
| "modal_step MContainerClick m = m"
| "modal_step MCloseButton m =
     (case ms_deps m of
        Some q \<Rightarrow> if mp_isOpen q then m\<lparr>ms_closes := ms_closes m @ [mp_onClose q]\<rparr> else m
      | None \<Rightarrow> m)"

inductive modal_reachable :: "modal_sys \<Rightarrow> bool" where
  modal_init: "modal_reachable modal_init"
| modal_next: "modal_reachable m \<Longrightarrow> modal_reachable (modal_step ev m)"

definition modal_open :: "modal_sys \<Rightarrow> bool" where
  "modal_open m = (case ms_deps m of Some q \<Rightarrow> mp_isOpen q | None \<Rightarrow> False)"

definition modal_ok :: "modal_sys \<Rightarrow> bool" where
  "modal_ok m \<longleftrightarrow>
     ms_listeners m = (case ms_deps m of Some q \<Rightarrow> if mp_isOpen q then [mp_onClose q] else [] | None \<Rightarrow> []) \<and>
     ms_overflow m = (if modal_open m then ''hidden'' else [])"

section \<open>Button\<close>

datatype button_content = LoadingDots | ButtonIcon

record button_props =
  bp_disabled :: bool
  bp_loading :: bool

definition button_disabled :: "button_props \<Rightarrow> bool" where
  "button_disabled b \<longleftrightarrow> bp_disabled b \<or> bp_loading b"

definition button_content :: "button_props \<Rightarrow> button_content" where
  "button_content b = (if bp_loading b then LoadingDots else ButtonIcon)"

text \<open>A click on a disabled \<open>button\<close> element dispatches no click event.\<close>

definition button_click :: "button_props \<Rightarrow> nat \<Rightarrow> nat list \<Rightarrow> nat list" where
  "button_click b onClick calls = (if button_disabled b then calls else calls @ [onClick])"

section \<open>Home page\<close>

record home_view =
  hv_level :: int
  hv_completed :: nat
  hv_total :: nat
  hv_averageWPM :: real
  hv_averageAccuracy :: string

definition home_view :: "player_data \<Rightarrow> home_view" where
  "home_view p =
     \<lparr>hv_level = pl_level p, hv_completed = completedLevels (levelProgress p), hv_total = 12,
      hv_averageWPM = averageWPM (pl_stats p), hv_averageAccuracy = toFixed0 (averageAccuracy (pl_stats p))\<rparr>"

section \<open>Statistics page\<close>

text \<open>The stat cards of \<open>src/pages/Stats/index.tsx\<close>. The total play time is never
  negative (it starts at zero and only grows), so it is read as a \<^typ>\<open>nat\<close>.\<close>

record stats_view =
  sv_words :: nat
  sv_chars :: nat
  sv_wpm :: real
  sv_accuracy :: string
  sv_maxCombo :: nat
  sv_games :: nat
  sv_time :: play_time
  sv_perfect :: nat

definition stats_view :: "player_data \<Rightarrow> stats_view" where
  "stats_view p =
     (let st = pl_stats p
      in \<lparr>sv_words = totalWordsTyped st, sv_chars = totalCharactersTyped st, sv_wpm = averageWPM st,
          sv_accuracy = toFixed0 (averageAccuracy st) @ ''%'', sv_maxCombo = st_maxCombo st,
          sv_games = totalGamesPlayed st, sv_time = stats_formatTime (nat (totalTimePlayed st)),
          sv_perfect = perfectLevels st\<rparr>)"

text \<open>The achievement grid: the page's catalogue by id, each card unlocked when the
  player's list includes its id.\<close>

definition allAchievements :: "string list" where
  "allAchievements =
     [''first_win'', ''combo_10'', ''combo_50'', ''combo_100'', ''speed_30'', ''speed_50'',
      ''accuracy_100'', ''level_5'', ''level_10'', ''all_levels'']"

definition achievement_cards :: "player_data \<Rightarrow> (string \<times> bool) list" where
  "achievement_cards p = map (\<lambda>a. (a, a \<in> set (achievements p))) allAchievements"

section \<open>Endless page view\<close>

text \<open>What the endless page draws from its state and the session: the difficulty badge once
  started, the text input while playing, the start overlay before the first start, and the
  game-over overlay with the score, the difficulty reached, the speed and the accuracy.
  Unmounting the page resets the session.\<close>

record endless_view =
  ew_badge :: "nat option"
  ew_typing :: bool
  ew_startOverlay :: bool
  ew_gameOver :: "(real \<times> nat \<times> int \<times> string) option"

definition endless_view :: "endless_page \<Rightarrow> game_session \<Rightarrow> endless_view" where
  "endless_view pg s =
     \<lparr>ew_badge = (if ep_isStarted pg then Some (ep_difficulty pg) else None),
      ew_typing = (state s = Playing), ew_startOverlay = (\<not> ep_isStarted pg),
      ew_gameOver = (if ep_isGameOver pg
                     then Some (score s, ep_difficulty pg, wpm s, toFixed0 (accuracy s) @ ''%'') else None)\<rparr>"

definition endless_unmount :: "game_session \<Rightarrow> game_session" where
  "endless_unmount s = resetGame s"

section \<open>Lemmas and properties\<close>


lemma modal_ok_step: "modal_ok m \<Longrightarrow> modal_ok (modal_step ev m)"
  by (cases ev)
     (auto simp: modal_ok_def modal_open_def modal_effect_def modal_cleanup_def addListener_def Let_def
        split: option.splits if_splits)

lemma modal_reachable_ok: "modal_reachable m \<Longrightarrow> modal_ok m"
proof (induction rule: modal_reachable.induct)
  case modal_init
  then show ?case by (simp add: modal_ok_def modal_open_def modal_init_def)
next
  case (modal_next m ev)
  from modal_next.IH show ?case by (rule modal_ok_step)
qed

text \<open>
  C37: whatever sequence of renders, unmounts, keys and clicks the dialog goes through, the
  document holds exactly one Escape listener while it is open and none otherwise, the page
  scroll is locked exactly while it is open, and Escape therefore calls \<open>onClose\<close> once
  when the dialog is open and never when it is closed.
\<close>

theorem modal_escape_once:
  "modal_reachable m \<Longrightarrow>
   modal_ok m \<and>
   ms_closes (modal_step MEscape m) =
     ms_closes m @ (case ms_deps m of Some q \<Rightarrow> if mp_isOpen q then [mp_onClose q] else [] | None \<Rightarrow> [])"
  using modal_reachable_ok [of m] by (simp add: modal_ok_def)

lemma level_links_ok:
  "list_all (\<lambda>l. matchRoute (''/game/'' @ le_id l) = Some (GamePage (le_id l)) \<and> level_screen (le_id l) \<noteq> LevelNotFound)
     campaign_levels"
  by (simp add: campaign_levels_def worlds_def matchRoute_def strip_trailing_slashes_def level_screen_def
      levelConfigs_def)

lemma nav_paths_ok: "list_all (\<lambda>p. matchRoute p \<noteq> None) nav_paths"
  by (simp add: nav_paths_def matchRoute_def strip_trailing_slashes_def static_page_def)


lemma card_links_ok:
  "list_all (\<lambda>l. matchRoute (''/game/'' @ le_id l) = Some (GamePage (le_id l)) \<and> level_screen (le_id l) \<noteq> LevelNotFound) ls \<Longrightarrow>
   list_all (\<lambda>c. case card_link c of
                    Some lnk \<Rightarrow> matchRoute lnk = Some (GamePage (card_id c)) \<and> level_screen (card_id c) \<noteq> LevelNotFound
                  | None \<Rightarrow> True) (map2 (level_card lp) ls us)"
proof (induction ls arbitrary: us)
  case (Cons l ls)
  then show ?case by (cases us) (auto simp: level_card_def Let_def)
qed simp

text \<open>
  Every link the application renders leads to a page: the link of every unlocked
  level card routes to the level page with that card's level, which is configured (never
  the "level does not exist" screen), and every header link matches a route.
\<close>

theorem rendered_links_resolve:
  "(case levelCards lp of
      Inr cs \<Rightarrow> list_all (\<lambda>c. case card_link c of
                               Some lnk \<Rightarrow> matchRoute lnk = Some (GamePage (card_id c)) \<and>
                                          level_screen (card_id c) \<noteq> LevelNotFound
                             | None \<Rightarrow> True) cs
    | Inl _ \<Rightarrow> False) \<and>
   list_all (\<lambda>p. matchRoute p \<noteq> None) nav_paths"
  using card_links_ok [OF level_links_ok] nav_paths_ok by (simp add: levelCards_eq)

section \<open>Witnesses\<close>

theorem modal_escape_once_witness:
  "modal_reachable (modal_step (MRender True 7) modal_init) \<and>
   modal_ok (modal_step (MRender True 7) modal_init) \<and>
   ms_closes (modal_step MEscape (modal_step (MRender True 7) modal_init)) = [7]"
proof -
  have r: "modal_reachable (modal_step (MRender True 7) modal_init)"
    by (intro modal_reachable.intros)
  from modal_escape_once [OF r] r show ?thesis
    by (simp add: modal_init_def modal_effect_def addListener_def)
qed

end
