(* ===== verification/Navigation.thy ===== *)
theory Navigation
  imports Shell
begin

text \<open>
  The application as a whole: the pages' handlers acting on the stores they share, and the
  router that mounts one page at a time. The state is the location's path, the initial
  player the profile store was created with (a reset restores it), the game session, the
  persisted player and settings stores, and the local state of the settings, endless and
  level pages. An event is a handler of the mounted page, a click on a link the mounted
  page renders (\<open>Link\<close>, \<open>NavLink\<close>, \<open>navigate\<close>), or a reload at some path, after which
  only the persisted stores keep their values. Changing the matched route unmounts the old
  page (running its effect cleanups) and mounts the new one (initialising its state and
  running its effects). Inside a mounted game page the animation frames and key presses
  change the session's counters and entities but neither its \<open>state\<close>, \<open>mode\<close> nor
  \<open>levelId\<close> (\<open>Game.sys_step_state\<close>) except through the page's \<open>onGameEnd\<close>, which is the
  event \<open>LevelEnd\<close> or \<open>EndlessEnd\<close> here.
\<close>

section \<open>The pages over the shared stores\<close>

record app_state =
  app_session :: game_session
  app_player :: player_data
  app_settings :: game_settings
  app_settingsPage :: settings_page
  app_endless :: endless_page
  app_showResult :: bool

datatype app_event =
    LevelEnd ms "string option" bool
  | LevelRestart ms "string option"
  | EndlessStart ms
  | EndlessEnd bool
  | EndlessRestart ms
  | SettingsEvent settings_event

fun app_step :: "player_data \<Rightarrow> app_event \<Rightarrow> app_state \<Rightarrow> app_state" where
  "app_step initial (LevelEnd now lid v) a =
     (let (s, p) = level_page_end now lid v (app_session a, app_player a)
      in a\<lparr>app_session := s, app_player := p, app_showResult := True\<rparr>)"
| "app_step initial (LevelRestart now lid) a =
     a\<lparr>app_showResult := False, app_session := level_page_restart now lid (app_session a)\<rparr>"
| "app_step initial (EndlessStart now) a =
     (let (pg, s) = endless_handleStart now (app_endless a, app_session a)
      in a\<lparr>app_endless := pg, app_session := s\<rparr>)"
| "app_step initial (EndlessEnd v) a =
     (let (pg, s, p) = endless_page_end v (app_endless a, app_session a, app_player a)
      in a\<lparr>app_endless := pg, app_session := s, app_player := p\<rparr>)"
| "app_step initial (EndlessRestart now) a =
     (let (pg, s) = endless_handleRestart now (app_endless a, app_session a)
      in a\<lparr>app_endless := pg, app_session := s\<rparr>)"
| "app_step initial (SettingsEvent ev) a =
     (let (pg, st, p) = settings_step initial ev (app_settingsPage a, app_settings a, app_player a)
      in a\<lparr>app_settingsPage := pg, app_settings := st, app_player := p\<rparr>)"

definition app_run :: "player_data \<Rightarrow> app_event list \<Rightarrow> app_state \<Rightarrow> app_state" where
  "app_run initial evs a = fold (app_step initial) evs a"

definition app_init :: "string \<Rightarrow> ms \<Rightarrow> app_state" where
  "app_init uid now =
     \<lparr>app_session = initialSession, app_player = initialPlayer uid now, app_settings = initialSettings,
      app_settingsPage = settings_page_init (initialPlayer uid now), app_endless = endless_page_init,
      app_showResult = False\<rparr>"

section \<open>Mounting and unmounting pages\<close>

text \<open>The effect cleanups of a page that leaves: the level page and the endless page reset
  the session.\<close>

definition page_unmount :: "route_page option \<Rightarrow> app_state \<Rightarrow> app_state" where
  "page_unmount pg a =
     (case pg of
        Some (GamePage _) \<Rightarrow> a\<lparr>app_session := resetGame (app_session a)\<rparr>
      | Some EndlessModePage \<Rightarrow> a\<lparr>app_session := endless_unmount (app_session a)\<rparr>
      | _ \<Rightarrow> a)"

text \<open>The state a page starts with and its mount effects: the level page hides its result
  card and starts its level, the endless page starts unstarted at difficulty 1, and the
  settings page's name field starts with the player's name.\<close>

definition page_mount :: "ms \<Rightarrow> route_page option \<Rightarrow> app_state \<Rightarrow> app_state" where
  "page_mount now pg a =
     (case pg of
        Some (GamePage lid) \<Rightarrow> a\<lparr>app_showResult := False, app_session := level_page_mount now lid (app_session a)\<rparr>
      | Some EndlessModePage \<Rightarrow> a\<lparr>app_endless := endless_page_init\<rparr>
      | Some SettingsPage \<Rightarrow> a\<lparr>app_settingsPage := settings_page_init (app_player a)\<rparr>
      | _ \<Rightarrow> a)"

section \<open>Navigation\<close>

record nav_state =
  nv_path :: string
  nv_initial :: player_data
  nv_app :: app_state

datatype nav_event = NavLink ms string | Reload ms string string | PageEv app_event

text \<open>A path that matches the same route keeps the page mounted. From one level to another
  the level page stays mounted: its effect sees a new \<open>levelId\<close>, so its cleanup resets the
  session and it starts the new level, while \<open>showResult\<close> keeps its value.\<close>

definition navigate :: "ms \<Rightarrow> string \<Rightarrow> nav_state \<Rightarrow> nav_state" where
  "navigate now path n =
     (let old = matchRoute (nv_path n); new = matchRoute path; a = nv_app n
      in n\<lparr>nv_path := path,
           nv_app := (if old = new then a
                      else case (old, new) of
                        (Some (GamePage _), Some (GamePage l)) \<Rightarrow>
                          a\<lparr>app_session := level_page_mount now l (resetGame (app_session a))\<rparr>
                      | _ \<Rightarrow> page_mount now new (page_unmount old a))\<rparr>)"

text \<open>A reload keeps the persisted player and settings stores; the game store and the
  pages start afresh, and the player store's initial profile is created again.\<close>

definition reload :: "ms \<Rightarrow> string \<Rightarrow> string \<Rightarrow> nav_state \<Rightarrow> nav_state" where
  "reload now uid path n =
     (let a = nv_app n
      in \<lparr>nv_path = path, nv_initial = initialPlayer uid now,
          nv_app = page_mount now (matchRoute path)
                     (a\<lparr>app_session := initialSession, app_settingsPage := settings_page_init (app_player a),
                        app_endless := endless_page_init, app_showResult := False\<rparr>)\<rparr>)"

text \<open>The links the mounted page renders: the header's on every matched route, the home
  page's two calls to action, the unlocked level cards, and the level page's ways back.
  An unmatched path renders React Router's error screen, which has no link.\<close>

definition page_links :: "nav_state \<Rightarrow> string list" where
  "page_links n =
     (case matchRoute (nv_path n) of
        None \<Rightarrow> []
      | Some pg \<Rightarrow> nav_paths @
          (case pg of
             HomePage \<Rightarrow> [''/levels'', ''/endless'']
           | LevelSelectPage \<Rightarrow>
               (case levelCards (levelProgress (app_player (nv_app n))) of
                  Inr cs \<Rightarrow> List.map_filter card_link cs
                | Inl _ \<Rightarrow> [])
           | GamePage _ \<Rightarrow> [''/levels'']
           | _ \<Rightarrow> []))"

text \<open>Which handlers the mounted page can run: the canvas ends a game only from its running
  loop, that is while playing; the result card's restart is shown after a level ends; the
  endless page's start button before its first start and its restart button on the
  game-over screen; the settings page's controls while it is mounted.\<close>

fun page_event_enabled :: "app_event \<Rightarrow> route_page option \<Rightarrow> app_state \<Rightarrow> bool" where
  "page_event_enabled (LevelEnd now lid v) (Some (GamePage l)) a \<longleftrightarrow>
     lid = Some l \<and> state (app_session a) = Playing"
| "page_event_enabled (LevelRestart now lid) (Some (GamePage l)) a \<longleftrightarrow> lid = Some l \<and> app_showResult a"
| "page_event_enabled (EndlessStart now) (Some EndlessModePage) a \<longleftrightarrow> \<not> ep_isStarted (app_endless a)"
| "page_event_enabled (EndlessEnd v) (Some EndlessModePage) a \<longleftrightarrow> state (app_session a) = Playing"
| "page_event_enabled (EndlessRestart now) (Some EndlessModePage) a \<longleftrightarrow> ep_isGameOver (app_endless a)"
| "page_event_enabled (SettingsEvent ev) (Some SettingsPage) a \<longleftrightarrow> True"
| "page_event_enabled _ _ _ \<longleftrightarrow> False"

fun nav_enabled :: "nav_event \<Rightarrow> nav_state \<Rightarrow> bool" where
  "nav_enabled (NavLink now path) n \<longleftrightarrow> path \<in> set (page_links n)"
| "nav_enabled (Reload now uid path) n \<longleftrightarrow> True"
| "nav_enabled (PageEv e) n \<longleftrightarrow> page_event_enabled e (matchRoute (nv_path n)) (nv_app n)"

fun nav_step :: "nav_event \<Rightarrow> nav_state \<Rightarrow> nav_state" where
  "nav_step (NavLink now path) n = navigate now path n"
| "nav_step (Reload now uid path) n = reload now uid path n"
| "nav_step (PageEv e) n = n\<lparr>nv_app := app_step (nv_initial n) e (nv_app n)\<rparr>"

text \<open>A first visit at some path, with a fresh profile.\<close>

definition nav_init :: "string \<Rightarrow> ms \<Rightarrow> string \<Rightarrow> nav_state" where
  "nav_init uid now path =
     \<lparr>nv_path = path, nv_initial = initialPlayer uid now,
      nv_app = page_mount now (matchRoute path) (app_init uid now)\<rparr>"

inductive nav_reach :: "nav_state \<Rightarrow> bool" where
  nav_start: "nav_reach (nav_init uid now path)"
| nav_next: "nav_reach n \<Longrightarrow> nav_enabled e n \<Longrightarrow> nav_reach (nav_step e n)"

text \<open>The session agrees with the mounted page: no page pauses a game; away from the two game
  pages no game is running; on the level page a game in progress is that page's level, a
  configured one; on the endless page it is an endless gravity game.\<close>

definition session_fits_page :: "route_page option \<Rightarrow> game_session \<Rightarrow> bool" where
  "session_fits_page pg s \<longleftrightarrow>
     state s \<noteq> Paused \<and>
     (case pg of
        Some (GamePage l) \<Rightarrow> state s = Idle \<or> (levelId s = Some l \<and> levelConfigs l \<noteq> None)
      | Some EndlessModePage \<Rightarrow> state s = Idle \<or> (levelId s = None \<and> mode s = Gravity)
      | _ \<Rightarrow> state s = Idle)"

text \<open>A path leads somewhere when its route matches and, for the level page, names a
  configured level; a user who never types a path moves by refreshing the page, clicking
  the links the mounted page renders, and using its controls.\<close>

definition route_ok :: "string \<Rightarrow> bool" where
  "route_ok path =
     (case matchRoute path of None \<Rightarrow> False | Some (GamePage l) \<Rightarrow> levelConfigs l \<noteq> None | Some _ \<Rightarrow> True)"

inductive link_reach :: "nav_state \<Rightarrow> bool" where
  link_start: "route_ok path \<Longrightarrow> link_reach (nav_init uid now path)"
| link_refresh: "link_reach n \<Longrightarrow> link_reach (reload now uid (nv_path n) n)"
| link_click: "link_reach n \<Longrightarrow> path \<in> set (page_links n) \<Longrightarrow> link_reach (navigate now path n)"
| link_handler: "link_reach n \<Longrightarrow> nav_enabled (PageEv e) n \<Longrightarrow> link_reach (nav_step (PageEv e) n)"

section \<open>Lemmas\<close>

lemma level_page_end_achievements:
  "achievements (snd (level_page_end now lid v sp)) = achievements (snd sp)"
  by (cases sp) (simp add: level_page_end_def Let_def addCoins_def addExp_def updateLevelProgress_def
      split: option.split)

lemma settings_step_achievements:
  "achievements initial = [] \<Longrightarrow> achievements p = [] \<Longrightarrow>
   achievements (snd (snd (settings_step initial ev (pg, st, p)))) = []"
  by (cases ev) (simp_all add: handleSavePlayerName_def setPlayerName_def handleResetProgress_def resetPlayer_def)

lemma app_step_achievements:
  assumes "achievements initial = []" "achievements (app_player a) = []"
  shows "achievements (app_player (app_step initial ev a)) = []"
proof (cases ev)
  case (LevelEnd now lid v)
  with assms show ?thesis using level_page_end_achievements [of now lid v "(app_session a, app_player a)"]
    by (auto split: prod.split)
next
  case (EndlessEnd v)
  with assms show ?thesis by (simp add: endless_page_end_def addCoins_def addExp_def Let_def split: prod.split)
next
  case (SettingsEvent e)
  with assms show ?thesis
    using settings_step_achievements [OF assms, of e "app_settingsPage a" "app_settings a"]
    by (auto split: prod.split)
qed (use assms in \<open>simp_all split: prod.split\<close>)

text \<open>What the store actions the pages call do to the three fields the invariant reads.\<close>

lemma session_actions_fields [simp]:
  "state (startGame md lvl now s) = Playing" "levelId (startGame md lvl now s) = lvl"
  "mode (startGame md lvl now s) = md"
  "state (endGame v s) = (if v then Victory else GameOver)" "levelId (endGame v s) = levelId s"
  "mode (endGame v s) = mode s"
  "resetGame s = initialSession" "state initialSession = Idle"
  by (simp_all add: startGame_def endGame_def resetGame_def initialSession_def)

lemma level_page_mount_fits:
  "state s = Idle \<Longrightarrow> session_fits_page (Some (GamePage l)) (level_page_mount now l s)"
  by (simp add: level_page_mount_def session_fits_page_def split: option.split)

lemma page_mount_fits:
  "state (app_session a) = Idle \<Longrightarrow> session_fits_page pg (app_session (page_mount now pg a))"
  by (auto simp: page_mount_def session_fits_page_def level_page_mount_def
      split: option.split route_page.split)

lemma page_unmount_idle:
  "session_fits_page pg (app_session a) \<Longrightarrow> state (app_session (page_unmount pg a)) = Idle"
  by (auto simp: page_unmount_def endless_unmount_def session_fits_page_def
      split: option.splits route_page.splits)

lemma navigate_fits:
  assumes "session_fits_page (matchRoute (nv_path n)) (app_session (nv_app n))"
  shows "session_fits_page (matchRoute path) (app_session (nv_app (navigate now path n)))"
proof (cases "matchRoute (nv_path n) = matchRoute path")
  case True
  with assms show ?thesis by (simp add: navigate_def)
next
  case False
  show ?thesis
  proof (cases "\<exists>l1 l2. matchRoute (nv_path n) = Some (GamePage l1) \<and> matchRoute path = Some (GamePage l2)")
    case True
    then obtain l1 l2 where "matchRoute (nv_path n) = Some (GamePage l1)" "matchRoute path = Some (GamePage l2)"
      by blast
    with False show ?thesis by (simp add: navigate_def level_page_mount_fits)
  next
    case nomount: False
    have "state (app_session (page_unmount (matchRoute (nv_path n)) (nv_app n))) = Idle"
      using assms by (rule page_unmount_idle)
    then have "session_fits_page (matchRoute path)
                 (app_session (page_mount now (matchRoute path) (page_unmount (matchRoute (nv_path n)) (nv_app n))))"
      by (rule page_mount_fits)
    with False nomount show ?thesis
      by (auto simp: navigate_def Let_def split: option.split route_page.split)
  qed
qed

lemma reload_fits:
  "session_fits_page (matchRoute path) (app_session (nv_app (reload now uid path n)))"
  by (simp add: reload_def Let_def page_mount_fits)

lemma nv_path_step [simp]:
  "nv_path (navigate now path n) = path" "nv_path (reload now uid path n) = path"
  by (simp_all add: navigate_def reload_def Let_def)

lemma page_event_fits:
  assumes "session_fits_page pg (app_session a)" "page_event_enabled e pg a"
  shows "session_fits_page pg (app_session (app_step initial e a))"
  using assms
  by (cases "(e, pg, a)" rule: page_event_enabled.cases)
     (auto simp: session_fits_page_def level_page_end_def endless_handleStart_def endless_page_end_def
        endless_handleRestart_def level_page_restart_def Let_def
        split: prod.splits option.splits if_splits)

lemma card_links_route_ok:
  "list_all (\<lambda>c. case card_link c of
                   Some lnk \<Rightarrow> matchRoute lnk = Some (GamePage (card_id c)) \<and> level_screen (card_id c) \<noteq> LevelNotFound
                 | None \<Rightarrow> True) cs \<Longrightarrow>
   list_all route_ok (List.map_filter card_link cs)"
  by (induction cs) (auto simp: route_ok_def level_screen_def split: option.splits)

lemma static_links_route_ok:
  "list_all route_ok nav_paths" "route_ok ''/levels''" "route_ok ''/endless''"
  by (simp_all add: route_ok_def nav_paths_def matchRoute_def strip_trailing_slashes_def static_page_def)

lemma page_links_route_ok: "list_all route_ok (page_links n)"
proof (cases "matchRoute (nv_path n)")
  case None
  then show ?thesis by (simp add: page_links_def)
next
  case (Some pg)
  have cards: "list_all route_ok (List.map_filter card_link (map2 (level_card lp) campaign_levels us))" for lp us
    by (rule card_links_route_ok [OF card_links_ok [OF level_links_ok]])
  from Some show ?thesis
    by (cases pg) (simp_all add: page_links_def static_links_route_ok levelCards_eq cards)
qed

section \<open>Properties\<close>

text \<open>
  C23: in every state the application can reach, through first visits, reloads, link
  clicks and the handlers of the mounted pages, the game session fits the mounted page: it
  is never paused (no page calls \<open>pauseGame\<close>, so the level page's pause overlay and its
  resume button never show); away from the level and endless pages it is idle, because
  leaving either resets it; on the level page a game in progress is the level of the route,
  a configured one; on the endless page it is an endless gravity game.
\<close>

theorem nav_reach_session_fits:
  "nav_reach n \<Longrightarrow> session_fits_page (matchRoute (nv_path n)) (app_session (nv_app n))"
proof (induction rule: nav_reach.induct)
  case (nav_start uid now path)
  then show ?case by (simp add: nav_init_def app_init_def page_mount_fits)
next
  case (nav_next n e)
  then show ?case
    by (cases e) (simp_all add: navigate_fits reload_fits page_event_fits)
qed

text \<open>
  C38: a user who starts on a page that exists and never types a path only ever reaches
  paths React Router matches, and the level page only for a configured level: every link a
  page renders (the header's, the home page's, an unlocked level card's, the level page's
  way back) leads to a matched route, and a level link to a configured level. Neither the
  router's "no match" error nor the "level does not exist" screen is reachable by links;
  an exception thrown while a page renders or runs its effects is another matter, which
  this statement does not cover.
\<close>

theorem link_reach_route_ok: "link_reach n \<Longrightarrow> route_ok (nv_path n)"
proof (induction rule: link_reach.induct)
  case (link_click n path now)
  with page_links_route_ok [of n] show ?case by (simp add: list_all_iff)
qed (simp_all add: nav_init_def)

section \<open>Witnesses\<close>

theorem nav_reach_session_fits_witness:
  "nav_reach (nav_step (PageEv (EndlessStart 2)) (nav_step (NavLink 1 ''/endless'') (nav_init ''u'' 0 ''/''))) \<and>
   session_fits_page (matchRoute (nv_path (nav_step (PageEv (EndlessStart 2)) (nav_step (NavLink 1 ''/endless'') (nav_init ''u'' 0 ''/'')))))
     (app_session (nv_app (nav_step (PageEv (EndlessStart 2)) (nav_step (NavLink 1 ''/endless'') (nav_init ''u'' 0 ''/'')))))"
proof -
  have r0: "nav_reach (nav_init ''u'' 0 ''/'')" by (rule nav_start)
  have m: "matchRoute ''/endless'' = Some EndlessModePage" "matchRoute ''/'' = Some HomePage"
    by (simp_all add: matchRoute_def strip_trailing_slashes_def static_page_def)
  have e1: "nav_enabled (NavLink 1 ''/endless'') (nav_init ''u'' 0 ''/'')"
    using m by (simp add: page_links_def nav_init_def nav_paths_def)
  have r1: "nav_reach (nav_step (NavLink 1 ''/endless'') (nav_init ''u'' 0 ''/''))"
    using r0 e1 by (rule nav_next)
  have e2: "nav_enabled (PageEv (EndlessStart 2)) (nav_step (NavLink 1 ''/endless'') (nav_init ''u'' 0 ''/''))"
    using m by (simp add: navigate_def nav_init_def page_mount_def page_unmount_def endless_page_init_def)
  have r2: "nav_reach (nav_step (PageEv (EndlessStart 2)) (nav_step (NavLink 1 ''/endless'') (nav_init ''u'' 0 ''/'')))"
    using r1 e2 by (rule nav_next)
  from r2 nav_reach_session_fits [OF r2] show ?thesis by blast
qed


theorem link_reach_route_ok_witness:
  "link_reach (navigate 1 ''/game/1-1'' (navigate 0 ''/levels'' (nav_init ''u'' 0 ''/''))) \<and>
   route_ok (nv_path (navigate 1 ''/game/1-1'' (navigate 0 ''/levels'' (nav_init ''u'' 0 ''/''))))"
proof -
  have m: "matchRoute ''/'' = Some HomePage" "matchRoute ''/levels'' = Some LevelSelectPage"
    by (simp_all add: matchRoute_def strip_trailing_slashes_def static_page_def)
  have r0: "link_reach (nav_init ''u'' 0 ''/'')"
    by (rule link_start) (simp add: route_ok_def m)
  have r1: "link_reach (navigate 0 ''/levels'' (nav_init ''u'' 0 ''/''))"
    using r0 by (rule link_click) (simp add: page_links_def nav_init_def m)
  have "''/game/1-1'' \<in> set (page_links (navigate 0 ''/levels'' (nav_init ''u'' 0 ''/'')))"
    by (simp add: page_links_def m levelCards_eq campaign_levels_def worlds_def level_card_def
        navigate_def nav_init_def page_mount_def page_unmount_def app_init_def initialPlayer_def Let_def)
  with r1 have r2: "link_reach (navigate 1 ''/game/1-1'' (navigate 0 ''/levels'' (nav_init ''u'' 0 ''/'')))"
    by (rule link_click)
  from r2 link_reach_route_ok [OF r2] show ?thesis by blast
qed

end
