(* ===== verification/Spec2Isabelle.thy ===== *)
theory Spec2Isabelle
  imports Game Timers Player Audio Storage LLMFacade Hooks Utils Levels Pages Display Navigation
begin

text \<open>
  \<^bold>\<open>A verification library for the typing game\<close> (repository
  \<open>ai-english-learning-game\<close>, TypeScript/React under \<open>src/src\<close>).

  \<^bold>\<open>The program.\<close> Words fall down a canvas and must be typed before they reach the
  danger zone. A game runs on a canvas component that owns the falling words and the
  animation loop, a keystroke dispatcher the text input calls, and a session store every
  part reads and updates. Around it, pages start and end games and grant rewards into a
  persisted player profile, a level-select page unlocks levels from that profile, a
  settings page edits a settings store, and services provide sound, storage and words.
  Each part is a theory of this library; the import order follows the call order.
  \<^item> \<open>Prelude\<close>: the JavaScript runtime the sources rely on: the result type
    \<open>js_error + _\<close> (exceptions \<open>TypeError\<close>, \<open>RangeError\<close>, HTTP and fetch errors) with
    \<open>js_bind\<close> and \<open>js_map\<close>, out-of-range reads \<open>js_at\<close>, \<open>toLowerCase\<close>, decimal
    \<open>toString\<close> (\<open>nat_str\<close>), \<open>split('')\<close>, \<open>join\<close>, random draws \<open>draws_ok\<close>.
  \<^item> \<open>Metrics\<close>: the calculators of \<open>utils/index.ts\<close> (\<open>calculateWPM\<close> \<dots>
    \<open>getLevelFromExp\<close>) and the star rule of the level page.
  \<^item> \<open>Entity\<close>: \<open>FallingWord\<close> of \<open>types/index.ts\<close> and its per-entity steps in
    \<open>components/game/GameCanvas.tsx\<close>; every write to an entity (\<open>fall\<close>,
    \<open>type_next\<close>, \<open>deactivate\<close>) is a strict-mode assignment \<open>js_assign\<close>, which
    throws a \<open>TypeError\<close> on a frozen object (flag \<open>fw_frozen\<close>).
  \<^item> \<open>Session\<close>: \<open>useGameStore\<close> of \<open>store/gameSlice.ts\<close>, record \<open>game_session\<close>, one
    function per action, the step function \<open>store_step\<close>. The store runs under the
    \<open>immer\<close> middleware, which freezes what an action adds: \<open>addEntity\<close> and
    \<open>setEntities\<close> freeze their entities (\<open>freeze\<close>).
  \<^item> \<open>Dispatch\<close>: \<open>window.__handleKeyPress\<close> of \<open>GameCanvas.tsx\<close> (\<open>find_entity\<close>,
    \<open>handleKeyPress\<close>) and the \<open>keydown\<close> listener of \<open>TypingInput.tsx\<close>.
  \<^item> \<open>Canvas\<close>: one animation frame of the loop effect (\<open>gameLoop\<close>: countdown, spawning,
    falling) over the canvas refs and the session. \<open>spawnWord\<close> hands the object it
    pushes into \<open>entitiesRef\<close> to \<open>addEntity\<close>, so the canvas holds the frozen entity.
  \<^item> \<open>Game\<close>: the composition: the level and endless pages around the canvas as
    \<open>sys_step\<close> over frames, keys, pause, resume, start, reset and window resizes, and
    React's re-run of the loop effect (\<open>rerender\<close>, \<open>loop_restart\<close>). A frame that
    throws ends the run: the throwing frame is the loop effect's own first call, and
    React's error boundary replaces the page. A key handler that throws is a native
    listener's uncaught exception: the page goes on, unchanged.
  \<^item> \<open>Player\<close> and \<open>Settings\<close>: \<open>usePlayerStore\<close> and \<open>useSettingsStore\<close> of
    \<open>gameSlice.ts\<close>, one function per action.
  \<^item> \<open>Audio\<close>, \<open>Storage\<close>, \<open>LLM\<close>, \<open>LLMFacade\<close>: \<open>services/audio/AudioService.ts\<close>,
    \<open>services/storage/StorageService.ts\<close> and \<open>services/llm/\<close> (the cache, the static
    and OpenAI providers in \<open>LLM\<close>; the OpenAI sentences and the rest of the
    \<open>LLMService\<close> facade in \<open>LLMFacade\<close>); the network, \<open>JSON.parse\<close> and IndexedDB
    success are parameters.
  \<^item> \<open>Hooks\<close>: \<open>useTimer\<close>, \<open>useStopwatch\<close>, \<open>useTyping\<close>, \<open>useGame\<close>, \<open>useKeyboard\<close>, \<open>useHotkey\<close> of
    \<open>hooks/\<close>, each a state record and step functions for its callbacks and intervals.
  \<^item> \<open>Utils\<close>: the other helpers of \<open>utils/index.ts\<close> (\<open>shuffleArray\<close>, \<open>formatTime\<close>,
    \<open>formatNumber\<close> with the quotient rounded to the nearest double as IEEE arithmetic does,
    \<open>getFingerForKey\<close> \<dots>) and \<open>GAME_CONFIG\<close>, \<open>KEYBOARD_LAYOUT\<close> of \<open>config/index.ts\<close>.
  \<^item> \<open>Timers\<close>: \<open>debounce\<close> and \<open>throttle\<close> of \<open>utils/index.ts\<close>, each a closure state
    (\<open>timeoutId\<close>, \<open>inThrottle\<close>) beside the host's queue of its timers, stepped by the
    closure's calls and the host's timer runs (\<open>host_event\<close>).
  \<^item> \<open>Levels\<close>: the level-select page (\<open>worlds\<close>, \<open>isLevelUnlocked\<close>, \<open>levelCards\<close>),
    the level page (\<open>levelConfigs\<close>, \<open>generateWords\<close>, \<open>level_page_end\<close> = its
    \<open>handleGameEnd\<close>), the progress rows of the statistics page and the home page count.
  \<^item> \<open>Pages\<close>: the settings page as \<open>settings_step\<close> over its events, and the endless
    page (\<open>generateEndlessWords\<close>, \<open>endless_page_end\<close>).
  \<^item> \<open>Display\<close>: what the head-up display (\<open>gameHUD\<close>), the progress bar, the result
    card (\<open>levelResult\<close>) and the header (\<open>isActive\<close>) compute before drawing.
  \<^item> \<open>Shell\<close>: the route table of \<open>app/router.tsx\<close> (\<open>matchRoute\<close>, with React
    Router's case-insensitive matching and trailing slashes), the level page's lookup of its
    route parameter, \<open>components/common/Modal.tsx\<close> as \<open>modal_step\<close> over renders,
    unmounts, keys and clicks with the document listeners and the body's scroll lock as
    state and its reachable states as the inductive \<open>modal_reachable\<close>, the disabled rule
    of \<open>Button.tsx\<close>, the figures of the home page and the stat cards and achievement
    grid of the statistics page, and what the endless page draws.
  \<^item> \<open>Navigation\<close>: the application as a whole. \<open>app_step\<close> runs the handlers of the pages
    on the stores they share; \<open>nav_step\<close> adds the router: a click on a link the mounted
    page renders (\<open>page_links\<close>), a reload (only the persisted player and settings stores
    survive), or a handler of the mounted page, enabled as the page's markup enables it
    (\<open>page_event_enabled\<close>). A route change unmounts the old page, running its effect
    cleanups (\<open>page_unmount\<close>), and mounts the new one (\<open>page_mount\<close>). The reachable
    states are the inductive \<open>nav_reach\<close>, in the style of a small-step semantics.

  \<^bold>\<open>Modelling choices.\<close> Objects are records, string unions datatypes, mutation is
  state passing: every handler takes and returns the state it touches (the canvas's
  entity array and the session, a store's record, a page's \<open>useState\<close> values). The
  entities are objects shared by the canvas and the store; the model keeps one value per
  object in each array, which is exact because the store freezes them at once, so
  neither side can change them afterwards.
  \<open>Date.now()\<close> is a parameter \<open>now\<close> (milliseconds, \<^typ>\<open>int\<close>). \<open>Math.random()\<close>
  draws are functions from the draw's position to \<^typ>\<open>real\<close>, UUIDs are parameters,
  and the engine-dependent comparator sort of the level page is a parameter assumed to
  permute; so every definition is executable and every theorem holds for all draws.
  Numbers are exact (\<^typ>\<open>nat\<close> counters, \<^typ>\<open>int\<close> rounded values, \<^typ>\<open>real\<close>
  fractions; IEEE rounding is modelled only where the output shows it, in
  \<open>formatNumber\<close>). Every exception is an \<open>Inl\<close> branch; where effects ran before an exception and
  survive it (\<open>useTyping\<close>'s queued state update), the result carries them beside it.
  React effects are explicit events: an effect re-runs exactly when a dependency changed
  (\<open>rerender\<close>, \<open>useGame_sync\<close>), and an interval or animation frame is an event with
  its clock reading. No definition needs fuel: the loops are structural recursions
  (\<open>find_entity\<close>, \<open>fisher_yates\<close>, \<open>typing_scan\<close>, \<open>js_map\<close>) or folds over event
  lists, and the one loop whose end is a claim, the countdown interval of \<open>useTimer\<close>, is
  proved to stop after exactly its number of ticks.

  \<^bold>\<open>What is proved\<close> (the claims are numbered in the theories' text blocks).
  \<^item> The game cannot be played (\<open>Entity\<close>, \<open>Canvas\<close>, \<open>Dispatch\<close>, \<open>Game\<close>,
    \<open>Hooks\<close>). On a frozen canvas a frame throws exactly when it has an entity to move
    (an active one, or a spawn that is due); the first frame after a start throws once
    the clock is past two seconds and a word is to be spawned, on either page; a key
    that some entity accepts throws before any counter moves, and a key that none
    accepts is a miss; so in every run that survives, the canvas is empty and no
    character is ever counted correct, no word completed, no point scored.
    \<open>useTyping\<close> throws on the same write after locking onto the word. The scan itself
    equals its reference \<open>first_accepting\<close>.
  \<^item> Sessions and the loop (\<open>Session\<close>, \<open>Canvas\<close>, \<open>Game\<close>, \<open>Hooks\<close>): the session
    invariant (\<open>correctChars \<le> charactersTyped\<close>, accuracy in [0, 100]) after any run of
    store actions; the lifecycle, where \<open>endGame\<close> has no guard; when a frame ends a
    game, and the countdown it shows; that no run ever reaches \<open>gameOver\<close>; the
    \<open>useTimer\<close> countdown ticking down to zero in exactly its number of ticks.
  \<^item> Campaign and profile (\<open>Levels\<close>, \<open>Player\<close>, \<open>Pages\<close>): the level cards refine the
    linear unlock chain; winning a level unlocks the next; stored progress stays
    well-typed (campaign ids, completed, one to three stars), so the statistics page
    cannot throw and the home page never counts more than 12 levels; the player level
    follows the experience; stored stars never drop; every configured level's
    \<open>generateWords(keys, 20)\<close> returns twenty 2-to-4-key words; the pages' level tables
    agree; the settings page keeps volumes in [0, 1] and restores a stale name after a
    reset; the endless words have the promised length.
  \<^item> Services and helpers (\<open>Audio\<close>, \<open>Storage\<close>, \<open>LLM\<close>, \<open>Utils\<close>, \<open>Hooks\<close>): the volume
    drift and the stuck global mute of the audio service; reading back a written key
    of the storage service; the static provider's draws without replacement and the fallback of
    \<open>LLMService\<close> for words, sentences and texts; quoted OpenAI sentences arrive unquoted
    and are cached for an hour; the stale provider after \<open>updateConfig\<close>; \<open>shuffleArray\<close> is a
    permutation; \<open>formatTime\<close> round-trips; \<open>getFingerForKey\<close> agrees with the layout;
    \<open>useGame\<close>'s \<open>end\<close> adds exactly the session's counters; \<open>useKeyboard\<close> always calls
    the latest render's handler, by its invariant on refs and listeners.
  \<^item> Timers (\<open>Timers\<close>): \<open>debounce\<close> refines an abstract specification with one pending
    call, that of the latest arguments, so a burst of calls runs \<open>func\<close> once; for events
    in time order, \<open>throttle\<close> runs \<open>func\<close> at most once per \<open>limit\<close>, by an invariant
    relating its flag, its timer and the last invocation to the clock.
  \<^item> Display (\<open>Display\<close>): the accuracy of the head-up display is always red, because
    its colour is computed from \<open>Number\<close> of a string ending in a percent sign.
  \<^item> The shell (\<open>Shell\<close>): in every reachable state of the dialog, by rule induction
    over \<open>modal_reachable\<close>, the document holds one Escape listener exactly while it is
    open, the scroll lock matches, and Escape closes it once.
  \<^item> Across the pages (this theory and \<open>Navigation\<close>): neither page's end-of-game handler
    touches the player statistics, which only the unused \<open>useGame\<close> hook updates; and no sequence of page events ever
    adds an achievement, since nothing calls \<open>addAchievement\<close>, so the statistics page
    shows every achievement locked; and in every reachable state of the application the
    session fits the mounted page (never paused, since nothing calls \<open>pauseGame\<close>; idle
    away from the game pages; the route's configured level on the level page), by rule
    induction over \<open>nav_reach\<close>; and a user who never types a path never reaches a
    path the router cannot match nor a missing level, since every link a page renders
    matches a route and every level card names a configured level (\<open>link_reach\<close>);
    the error screen a crashing page shows is a different matter, covered above.

  \<^bold>\<open>Not modelled.\<close> Drawing (the canvas 2D context, styled components, markup and
    animations, beyond the values \<open>Display\<close> and \<open>Shell\<close> compute), \<open>Layout.tsx\<close>,
    \<open>LoadingSpinner.tsx\<close>, the providers of \<open>app/providers.tsx\<close> and the theme typing
    (they place, style or wrap their children), sound decoding and playback, the persist middleware's
    \<open>localStorage\<close> writes (a reload in \<open>Navigation\<close> keeps the persisted stores whole),
    the display text of \<open>MODE_CONFIG\<close>, and the \<open>adaptDifficulty\<close> and feedback prompts, which format
    arbitrary JavaScript numbers and have no caller: they compute nothing that the modelled
    state reads, or only display it.
\<close>

section \<open>Properties across the pages\<close>

text \<open>
  C21: the player statistics the home and statistics pages show are never written by the
  pages: the level page's and the endless page's end-of-game handlers, and every event of
  the settings page other than a confirmed reset, leave them unchanged.
\<close>

theorem pages_keep_stats:
  "pl_stats (snd (level_page_end now lid v (s, p))) = pl_stats p \<and>
   pl_stats (snd (snd (endless_page_end v (pg, s, p)))) = pl_stats p \<and>
   (ev \<noteq> ConfirmReset \<longrightarrow> pl_stats (snd (snd (settings_step initial ev (sp, st, p)))) = pl_stats p)"
proof -
  have l: "pl_stats (snd (level_page_end now lid v (s, p))) = pl_stats p"
    by (simp add: level_page_end_def Let_def addCoins_def updateLevelProgress_def
        split: option.split)
  have e: "pl_stats (snd (snd (endless_page_end v (pg, s, p)))) = pl_stats p"
    by (simp add: endless_page_end_def addCoins_def)
  have "ev \<noteq> ConfirmReset \<longrightarrow> pl_stats (snd (snd (settings_step initial ev (sp, st, p)))) = pl_stats p"
    by (cases ev) (simp_all add: handleSavePlayerName_def setPlayerName_def)
  with l e show ?thesis by blast
qed

text \<open>
  C22: no page ever unlocks an achievement: from a player without achievements (the
  store's initial player), every sequence of game ends on the level and endless pages,
  endless restarts and settings-page events, a confirmed progress reset included, leaves
  the achievement list empty, so the statistics page draws every achievement card locked.
\<close>

theorem pages_never_unlock_achievements:
  "achievements initial = [] \<Longrightarrow> achievements (app_player a) = [] \<Longrightarrow>
   achievements (app_player (app_run initial evs a)) = [] \<and>
   list_all (\<lambda>c. \<not> snd c) (achievement_cards (app_player (app_run initial evs a)))"
proof -
  assume i: "achievements initial = []" and a: "achievements (app_player a) = []"
  have "achievements (app_player (fold (app_step initial) evs a)) = []"
    using a by (induction evs arbitrary: a) (simp_all add: app_step_achievements [OF i])
  then show ?thesis by (simp add: app_run_def achievement_cards_def list_all_iff)
qed

section \<open>Witnesses\<close>

theorem pages_never_unlock_achievements_witness:
  "achievements (initialPlayer ''u'' 0) = [] \<and> achievements (app_player (app_init ''u'' 0)) = [] \<and>
   list_all (\<lambda>c. \<not> snd c)
     (achievement_cards (app_player (app_run (initialPlayer ''u'' 0)
        [LevelEnd 0 (Some ''1-1'') True, SettingsEvent OpenResetModal, SettingsEvent ConfirmReset]
        (app_init ''u'' 0))))"
proof -
  have i: "achievements (initialPlayer ''u'' 0) = []" by (simp add: initialPlayer_def)
  have a: "achievements (app_player (app_init ''u'' 0)) = []" by (simp add: app_init_def initialPlayer_def)
  from i a pages_never_unlock_achievements [OF i a] show ?thesis by blast
qed


theorem pages_keep_stats_witness:
  "SaveName \<noteq> ConfirmReset \<and>
   pl_stats (snd (snd (settings_step demo_player SaveName (settings_page_init demo_player, initialSettings, demo_player)))) =
   pl_stats demo_player"
  using pages_keep_stats [of 0 None True initialSession demo_player endless_page_init SaveName demo_player
                            "settings_page_init demo_player" initialSettings]
  by simp

end
